theory Spec2Isabelle
  imports Complex_Main "HOL-Library.Word"
begin

unbundle bit_operations_syntax

section \<open>Numbers, vectors and matrices\<close>

text \<open>
  The demo computes with single-precision \<^verbatim>\<open>float\<close>. The embedding computes with
  \<^typ>\<open>real\<close>: every float operation is read as the exact operation it rounds, and
  \<^verbatim>\<open>MathHelper::Pi\<close> as \<^term>\<open>pi\<close>. Statements below are therefore about which
  quantities the code combines and in which order, and numeric bounds are stated with margins far
  above single-precision rounding. Integers that index or count (\<^verbatim>\<open>UINT\<close>, \<^verbatim>\<open>int\<close> used as a
  small counter) are \<^typ>\<open>nat\<close> or \<^typ>\<open>int\<close>; the fence values are \<^verbatim>\<open>UINT64\<close> and are 64-bit
  words, and the pointer coordinates are 32-bit words, with their wrap-around.
\<close>

type_synonym XMFLOAT2 = "real \<times> real"
type_synonym XMFLOAT3 = "real \<times> real \<times> real"
type_synonym XMFLOAT4 = "real \<times> real \<times> real \<times> real"
type_synonym XMVECTOR = "real \<times> real \<times> real \<times> real"
type_synonym XMFLOAT4X4 = "XMVECTOR \<times> XMVECTOR \<times> XMVECTOR \<times> XMVECTOR"
type_synonym XMMATRIX = "XMVECTOR \<times> XMVECTOR \<times> XMVECTOR \<times> XMVECTOR"
type_synonym UINT64 = "64 word"
type_synonym LONG = "32 word"
type_synonym POINT = "LONG \<times> LONG"

definition MathHelper_Pi :: real where
  "MathHelper_Pi = pi"

definition Identity4x4 :: XMFLOAT4X4 where
  "Identity4x4 = ((1, 0, 0, 0), (0, 1, 0, 0), (0, 0, 1, 0), (0, 0, 0, 1))"

text \<open>
  The functions of the DirectXMath library that the demo calls, written out over the reals from
  the library's reference implementation. A matrix is the tuple of its four rows, and a vector
  multiplies a matrix from the left (row-vector convention).
\<close>

definition XMVectorSet :: "real \<Rightarrow> real \<Rightarrow> real \<Rightarrow> real \<Rightarrow> XMVECTOR" where
  "XMVectorSet x y z w = (x, y, z, w)"

definition XMLoadFloat3 :: "XMFLOAT3 \<Rightarrow> XMVECTOR" where
  "XMLoadFloat3 v = (case v of (x, y, z) \<Rightarrow> (x, y, z, 0))"

definition XMStoreFloat3 :: "XMVECTOR \<Rightarrow> XMFLOAT3" where
  "XMStoreFloat3 v = (case v of (x, y, z, w) \<Rightarrow> (x, y, z))"

definition XMVectorNegate :: "XMVECTOR \<Rightarrow> XMVECTOR" where
  "XMVectorNegate v = (case v of (x, y, z, w) \<Rightarrow> (- x, - y, - z, - w))"

definition XMVectorScale :: "XMVECTOR \<Rightarrow> real \<Rightarrow> XMVECTOR" where
  "XMVectorScale v k = (case v of (x, y, z, w) \<Rightarrow> (x * k, y * k, z * k, w * k))"

definition XMVectorAdd :: "XMVECTOR \<Rightarrow> XMVECTOR \<Rightarrow> XMVECTOR" where
  "XMVectorAdd a b =
     (case a of (ax, ay, az, aw) \<Rightarrow> case b of (bx, by, bz, bw) \<Rightarrow>
        (ax + bx, ay + by, az + bz, aw + bw))"

definition XMVectorSubtract :: "XMVECTOR \<Rightarrow> XMVECTOR \<Rightarrow> XMVECTOR" where
  "XMVectorSubtract a b =
     (case a of (ax, ay, az, aw) \<Rightarrow> case b of (bx, by, bz, bw) \<Rightarrow>
        (ax - bx, ay - by, az - bz, aw - bw))"

definition XMVector3Dot :: "XMVECTOR \<Rightarrow> XMVECTOR \<Rightarrow> real" where
  "XMVector3Dot a b =
     (case a of (ax, ay, az, aw) \<Rightarrow> case b of (bx, by, bz, bw) \<Rightarrow>
        ax * bx + ay * by + az * bz)"

definition XMVector4Dot :: "XMVECTOR \<Rightarrow> XMVECTOR \<Rightarrow> real" where
  "XMVector4Dot a b =
     (case a of (ax, ay, az, aw) \<Rightarrow> case b of (bx, by, bz, bw) \<Rightarrow>
        ax * bx + ay * by + az * bz + aw * bw)"

definition XMVector3Cross :: "XMVECTOR \<Rightarrow> XMVECTOR \<Rightarrow> XMVECTOR" where
  "XMVector3Cross a b =
     (case a of (ax, ay, az, aw) \<Rightarrow> case b of (bx, by, bz, bw) \<Rightarrow>
        (ay * bz - az * by, az * bx - ax * bz, ax * by - ay * bx, 0))"

text \<open>A vector of length zero is normalised to the zero vector (\<open>x / 0 = 0\<close> in HOL as well).\<close>

definition XMVector3Normalize :: "XMVECTOR \<Rightarrow> XMVECTOR" where
  "XMVector3Normalize v =
     (case v of (x, y, z, w) \<Rightarrow>
        (let len = sqrt (x * x + y * y + z * z) in (x / len, y / len, z / len, w / len)))"

definition XMPlaneNormalize :: "XMVECTOR \<Rightarrow> XMVECTOR" where
  "XMPlaneNormalize p =
     (case p of (a, b, c, d) \<Rightarrow>
        (let len = sqrt (a * a + b * b + c * c) in (a / len, b / len, c / len, d / len)))"

definition XMMatrixColumn :: "XMMATRIX \<Rightarrow> nat \<Rightarrow> XMVECTOR" where
  "XMMatrixColumn m j =
     (case m of ((a0, a1, a2, a3), (b0, b1, b2, b3), (c0, c1, c2, c3), (d0, d1, d2, d3)) \<Rightarrow>
        (if j = 0 then (a0, b0, c0, d0)
         else if j = 1 then (a1, b1, c1, d1)
         else if j = 2 then (a2, b2, c2, d2)
         else (a3, b3, c3, d3)))"

definition XMMatrixTranspose :: "XMMATRIX \<Rightarrow> XMMATRIX" where
  "XMMatrixTranspose m =
     (XMMatrixColumn m 0, XMMatrixColumn m 1, XMMatrixColumn m 2, XMMatrixColumn m 3)"

definition XMVector4Transform :: "XMVECTOR \<Rightarrow> XMMATRIX \<Rightarrow> XMVECTOR" where
  "XMVector4Transform v m =
     (XMVector4Dot v (XMMatrixColumn m 0), XMVector4Dot v (XMMatrixColumn m 1),
      XMVector4Dot v (XMMatrixColumn m 2), XMVector4Dot v (XMMatrixColumn m 3))"

definition XMMatrixMultiply :: "XMMATRIX \<Rightarrow> XMMATRIX \<Rightarrow> XMMATRIX" where
  "XMMatrixMultiply m1 m2 =
     (case m1 of (r0, r1, r2, r3) \<Rightarrow>
        (XMVector4Transform r0 m2, XMVector4Transform r1 m2,
         XMVector4Transform r2 m2, XMVector4Transform r3 m2))"

text \<open>\<^verbatim>\<open>XMVector3TransformNormal\<close> ignores the fourth row of the matrix and the \<open>w\<close> of the vector.\<close>

definition XMVector3TransformNormal :: "XMVECTOR \<Rightarrow> XMMATRIX \<Rightarrow> XMVECTOR" where
  "XMVector3TransformNormal v m =
     (case v of (x, y, z, w) \<Rightarrow> case m of (r0, r1, r2, r3) \<Rightarrow>
        XMVectorAdd (XMVectorAdd (XMVectorScale r0 x) (XMVectorScale r1 y)) (XMVectorScale r2 z))"

definition XMMatrixTranslation :: "real \<Rightarrow> real \<Rightarrow> real \<Rightarrow> XMMATRIX" where
  "XMMatrixTranslation x y z = ((1, 0, 0, 0), (0, 1, 0, 0), (0, 0, 1, 0), (x, y, z, 1))"

definition XMMatrixRotationZ :: "real \<Rightarrow> XMMATRIX" where
  "XMMatrixRotationZ a =
     ((cos a, sin a, 0, 0), (- sin a, cos a, 0, 0), (0, 0, 1, 0), (0, 0, 0, 1))"

text \<open>
  \<^verbatim>\<open>XMMatrixReflect\<close>: with \<open>P = (a, b, c, d)\<close> the normalised plane and
  \<open>S = (-2a, -2b, -2c, 0)\<close>, row \<open>i\<close> is \<open>P\<^sub>i * S + e\<^sub>i\<close>.
\<close>

definition XMMatrixReflect :: "XMVECTOR \<Rightarrow> XMMATRIX" where
  "XMMatrixReflect ReflectionPlane =
     (case XMPlaneNormalize ReflectionPlane of (a, b, c, d) \<Rightarrow>
        (let S = (- 2 * a, - 2 * b, - 2 * c, 0) in
           (XMVectorAdd (XMVectorScale S a) (1, 0, 0, 0),
            XMVectorAdd (XMVectorScale S b) (0, 1, 0, 0),
            XMVectorAdd (XMVectorScale S c) (0, 0, 1, 0),
            XMVectorAdd (XMVectorScale S d) (0, 0, 0, 1))))"

text \<open>
  \<^verbatim>\<open>XMMatrixShadow\<close>: with \<open>P\<close> the normalised plane, \<open>L\<close> the light and \<open>dot = P \<cdot> L\<close>, row
  \<open>i\<close> is \<open>(- P\<^sub>i) * L + dot * e\<^sub>i\<close>.
\<close>

definition XMMatrixShadow :: "XMVECTOR \<Rightarrow> XMVECTOR \<Rightarrow> XMMATRIX" where
  "XMMatrixShadow ShadowPlane LightPosition =
     (let P = XMPlaneNormalize ShadowPlane;
          Dot = XMVector4Dot P LightPosition
      in case XMVectorNegate P of (a, b, c, d) \<Rightarrow>
        (XMVectorAdd (XMVectorScale LightPosition a) (Dot, 0, 0, 0),
         XMVectorAdd (XMVectorScale LightPosition b) (0, Dot, 0, 0),
         XMVectorAdd (XMVectorScale LightPosition c) (0, 0, Dot, 0),
         XMVectorAdd (XMVectorScale LightPosition d) (0, 0, 0, Dot)))"

text \<open>
  \<^verbatim>\<open>XMMatrixLookAtLH\<close>: the rows \<open>(R0, D0)\<close>, \<open>(R1, D1)\<close>, \<open>(R2, D2)\<close>, \<open>(0, 0, 0, 1)\<close>,
  transposed.
\<close>

definition XMMatrixLookAtLH :: "XMVECTOR \<Rightarrow> XMVECTOR \<Rightarrow> XMVECTOR \<Rightarrow> XMMATRIX" where
  "XMMatrixLookAtLH EyePosition FocusPosition UpDirection =
     (let EyeDirection = XMVectorSubtract FocusPosition EyePosition;
          R2 = XMVector3Normalize EyeDirection;
          R0 = XMVector3Normalize (XMVector3Cross UpDirection R2);
          R1 = XMVector3Cross R2 R0;
          NegEye = XMVectorNegate EyePosition;
          D0 = XMVector3Dot R0 NegEye;
          D1 = XMVector3Dot R1 NegEye;
          D2 = XMVector3Dot R2 NegEye
      in case R0 of (x0, y0, z0, w0) \<Rightarrow> case R1 of (x1, y1, z1, w1) \<Rightarrow>
         case R2 of (x2, y2, z2, w2) \<Rightarrow>
           XMMatrixTranspose ((x0, y0, z0, D0), (x1, y1, z1, D1), (x2, y2, z2, D2), (0, 0, 0, 1)))"

text \<open>
  Determinant and inverse by cofactors. The library's result for a singular matrix is a matrix of
  non-finite floats; here the division by a zero determinant gives zeros. The demo inverts the
  view and projection matrices only.
\<close>

definition XMMatrixElement :: "XMMATRIX \<Rightarrow> nat \<Rightarrow> nat \<Rightarrow> real" where
  "XMMatrixElement m i j =
     (case XMMatrixColumn m j of (a, b, c, d) \<Rightarrow>
        (if i = 0 then a else if i = 1 then b else if i = 2 then c else d))"

definition XMMatrixMinor :: "XMMATRIX \<Rightarrow> nat \<Rightarrow> nat \<Rightarrow> real" where
  "XMMatrixMinor m i j =
     (let rs = filter (\<lambda>r. r \<noteq> i) [0, 1, 2, 3];
          cs = filter (\<lambda>c. c \<noteq> j) [0, 1, 2, 3];
          e = (\<lambda>a b. XMMatrixElement m (rs ! a) (cs ! b))
      in e 0 0 * (e 1 1 * e 2 2 - e 1 2 * e 2 1)
       - e 0 1 * (e 1 0 * e 2 2 - e 1 2 * e 2 0)
       + e 0 2 * (e 1 0 * e 2 1 - e 1 1 * e 2 0))"

definition XMMatrixDeterminant :: "XMMATRIX \<Rightarrow> real" where
  "XMMatrixDeterminant m =
       XMMatrixElement m 0 0 * XMMatrixMinor m 0 0
     - XMMatrixElement m 0 1 * XMMatrixMinor m 0 1
     + XMMatrixElement m 0 2 * XMMatrixMinor m 0 2
     - XMMatrixElement m 0 3 * XMMatrixMinor m 0 3"

definition XMMatrixInverse :: "XMMATRIX \<Rightarrow> XMMATRIX" where
  "XMMatrixInverse m =
     (let det = XMMatrixDeterminant m;
          c = (\<lambda>i j. (if even (i + j) then 1 else - 1) * XMMatrixMinor m j i / det)
      in ((c 0 0, c 0 1, c 0 2, c 0 3), (c 1 0, c 1 1, c 1 2, c 1 3),
          (c 2 0, c 2 1, c 2 2, c 2 3), (c 3 0, c 3 1, c 3 2, c 3 3)))"

definition XMConvertToRadians :: "real \<Rightarrow> real" where
  "XMConvertToRadians fDegrees = fDegrees * (pi / 180)"

section \<open>Data model\<close>

text \<open>\<^verbatim>\<open>gNumFrameBuffers\<close> and \<^verbatim>\<open>gravConst\<close> (PendulumDemo.cpp, lines 24 and 26).\<close>

definition gNumFrameBuffers :: nat where
  "gNumFrameBuffers = 3"

definition gravConst :: real where
  "gravConst = 9.8"

text \<open>
  \<^verbatim>\<open>Light\<close>, \<^verbatim>\<open>Material\<close> and \<^verbatim>\<open>MaterialConstants\<close> are declared in d3dUtil.h, which is not
  among the sources. The records hold the members the demo reads or writes. A light's members
  other than direction and strength are never touched by the demo and are left out.
\<close>

record Light =
  Strength :: XMFLOAT3
  Direction :: XMFLOAT3

record Material =
  Name :: string
  MatCBIndex :: nat
  DiffuseSrvHeapIndex :: nat
  NumFramesDirty :: int
  DiffuseAlbedo :: XMFLOAT4
  FresnelR0 :: XMFLOAT3
  Roughness :: real
  MatTransform :: XMFLOAT4X4

record MaterialConstants =
  mc_DiffuseAlbedo :: XMFLOAT4
  mc_FresnelR0 :: XMFLOAT3
  mc_Roughness :: real
  mc_MatTransform :: XMFLOAT4X4

text \<open>FrameBuffer.h: \<^verbatim>\<open>ObjectConstants\<close>, \<^verbatim>\<open>CommonConstants\<close> and \<^verbatim>\<open>FrameBuffer\<close>.\<close>

record ObjectConstants =
  oc_World :: XMFLOAT4X4
  oc_TexTransform :: XMFLOAT4X4

record CommonConstants =
  View :: XMFLOAT4X4
  InvView :: XMFLOAT4X4
  Proj :: XMFLOAT4X4
  InvProj :: XMFLOAT4X4
  ViewProj :: XMFLOAT4X4
  InvViewProj :: XMFLOAT4X4
  CameraPosW :: XMFLOAT3
  CommonPad0 :: real
  RenderTargetSize :: XMFLOAT2
  InvRenderTargetSize :: XMFLOAT2
  NearZ :: real
  FarZ :: real
  TotalTime :: real
  DeltaTime :: real
  AmbientLight :: XMFLOAT4
  Lights :: "Light list"

text \<open>
  An upload buffer is the list of its elements; an element nobody has written yet is \<open>None\<close>
  (the mapped memory is uninitialised). The command allocator of a frame buffer is a device
  handle and has no state of its own in the model.
\<close>

record FrameBuffer =
  CommonCB :: "CommonConstants option list"
  MaterialCB :: "MaterialConstants option list"
  ObjectCB :: "ObjectConstants option list"
  Fence :: UINT64

text \<open>
  PendulumDemo.cpp: \<^verbatim>\<open>RenderItem\<close>, \<^verbatim>\<open>RenderLayer\<close>, \<^verbatim>\<open>SimplePendulum\<close>. A render item
  points to its material and geometry; the model holds the key of the material in
  \<^verbatim>\<open>mMaterials\<close> and the names of the geometry and of the submesh whose draw arguments
  (\<^verbatim>\<open>IndexCount\<close>, \<^verbatim>\<open>StartIndexLocation\<close>, \<^verbatim>\<open>BaseVertexLocation\<close>) the item copies. The
  primitive topology is the same constant for every item.
\<close>

record RenderItem =
  World :: XMFLOAT4X4
  TexTransform :: XMFLOAT4X4
  numFrameBufferFill :: int
  ObjCBIndex :: nat
  Mat :: string
  Geo :: string
  DrawArgs :: string

datatype RenderLayer = Opaque | Mirrors | Reflected | Transparent | Shadow

record SimplePendulum =
  initX :: real
  initY :: real
  initZ :: real
  omega :: real
  theta :: real
  wLength :: real

text \<open>What the demo reads from the \<^verbatim>\<open>GameTimer\<close> it is handed.\<close>

record GameTimer =
  gt_TotalTime :: real
  gt_DeltaTime :: real

text \<open>
  The members of \<^verbatim>\<open>PendulumMotion\<close>, and below them the members of its base class
  \<^verbatim>\<open>D3DApp\<close> that the demo's own functions read or write. Pointers to render items
  (\<^verbatim>\<open>mCeilingRenderItem\<close>, \<^verbatim>\<open>mWireRenderItem\<close>, \<^verbatim>\<open>mBallRenderItem\<close>, \<^verbatim>\<open>mRitemLayer\<close>) are
  positions in \<^verbatim>\<open>mAllRitems\<close>, which owns the items and never changes its length after
  start-up. \<^verbatim>\<open>mCurrentFrameBuffer\<close> is the position of the pointed-to frame buffer in
  \<^verbatim>\<open>mFrameBuffers\<close>, \<open>None\<close> for the null pointer. \<^verbatim>\<open>mCurrentFrameBufferIndex\<close> is an \<^verbatim>\<open>int\<close>
  that starts at 0 and is only ever assigned a remainder modulo 3 of a non-negative value, so it
  is a natural number. \<^verbatim>\<open>mMaterials\<close> is an unordered map; it is the list of its entries.
\<close>

record PendulumMotion =
  mFrameBuffers :: "FrameBuffer list"
  mCurrentFrameBuffer :: "nat option"
  mCurrentFrameBufferIndex :: nat
  mMaterials :: "(string \<times> Material) list"
  mCeilingRenderItem :: "nat list"
  mWireRenderItem :: "nat list"
  mBallRenderItem :: "nat list"
  mAllRitems :: "RenderItem list"
  mRitemLayer :: "RenderLayer \<Rightarrow> nat list"
  mCommonCB :: CommonConstants
  mReflectedCommonCB :: CommonConstants
  mSimplePend :: SimplePendulum
  mCameraPos :: XMFLOAT3
  mView :: XMFLOAT4X4
  mProj :: XMFLOAT4X4
  mTheta :: real
  mPhi :: real
  mRadius :: real
  mLastMousePos :: "POINT option"
  mStatusChange :: bool
  inheritValue1 :: real
  mCurrentFence :: UINT64
  mClientWidth :: int
  mClientHeight :: int

section \<open>The pendulum's equation of motion\<close>

text \<open>\<^verbatim>\<open>PendulumMotion::EulerUpdate\<close> (PendulumDemo.cpp, lines 206 to 221).\<close>

definition EulerUpdate :: "real \<Rightarrow> PendulumMotion \<Rightarrow> PendulumMotion" where
  "EulerUpdate dt s =
     (let s1 = (if mStatusChange s
                then s\<lparr>mSimplePend :=
                         (mSimplePend s)\<lparr>theta := inheritValue1 s * MathHelper_Pi / 180,
                                         omega := 0\<rparr>,
                       mStatusChange := False\<rparr>
                else s);
          p1 = mSimplePend s1;
          p2 = p1\<lparr>omega := omega p1 - (dt / 1) * (gravConst / wLength p1) * sin (theta p1)\<rparr>;
          p3 = p2\<lparr>theta := theta p2 + (dt / 1) * omega p2\<rparr>
      in s1\<lparr>mSimplePend := p3\<rparr>)"

section \<open>Start-up\<close>

text \<open>
  The default-constructed light of d3dUtil.h (not among the sources). Lights 3 to 15 of the
  common constants keep it for ever; no theorem depends on the values.
\<close>

definition Light_default :: Light where
  "Light_default = \<lparr>Strength = (0.5, 0.5, 0.5), Direction = (0, - 1, 0)\<rparr>"

text \<open>The member initialisers of \<^verbatim>\<open>CommonConstants\<close> (FrameBuffer.h, lines 14 to 34).\<close>

definition CommonConstants_default :: CommonConstants where
  "CommonConstants_default =
     \<lparr>View = Identity4x4, InvView = Identity4x4, Proj = Identity4x4, InvProj = Identity4x4,
      ViewProj = Identity4x4, InvViewProj = Identity4x4, CameraPosW = (0, 0, 0), CommonPad0 = 0,
      RenderTargetSize = (0, 0), InvRenderTargetSize = (0, 0), NearZ = 0, FarZ = 0,
      TotalTime = 0, DeltaTime = 0, AmbientLight = (0, 0, 0, 1),
      Lights = replicate 16 Light_default\<rparr>"

text \<open>
  The member initialisers of \<^verbatim>\<open>RenderItem\<close> (PendulumDemo.cpp, lines 34 to 47);
  \<^verbatim>\<open>UINT ObjCBIndex = -1\<close> is the largest 32-bit value, and the null material and geometry
  are the empty name.
\<close>

definition RenderItem_default :: RenderItem where
  "RenderItem_default =
     \<lparr>World = Identity4x4, TexTransform = Identity4x4,
      numFrameBufferFill = int gNumFrameBuffers, ObjCBIndex = 4294967295,
      Mat = [], Geo = [], DrawArgs = []\<rparr>"

text \<open>
  \<^verbatim>\<open>PendulumMotion::SetMaterials\<close> (lines 1069 to 1116).

  Modelled from the spec: the two members of \<^verbatim>\<open>Material\<close> that the function leaves at their
  defaults (d3dUtil.h is not among the sources). The refresh counter \<^verbatim>\<open>NumFramesDirty\<close> starts
  at the ring depth (spec, section 4.3: every entity carries \<open>refresh = N\<close>), and the material
  transform at the identity.
\<close>

definition Material_make ::
  "string \<Rightarrow> nat \<Rightarrow> nat \<Rightarrow> XMFLOAT4 \<Rightarrow> XMFLOAT3 \<Rightarrow> real \<Rightarrow> Material" where
  "Material_make n cb srv albedo fresnel rough =
     \<lparr>Name = n, MatCBIndex = cb, DiffuseSrvHeapIndex = srv,
      NumFramesDirty = int gNumFrameBuffers, DiffuseAlbedo = albedo, FresnelR0 = fresnel,
      Roughness = rough, MatTransform = Identity4x4\<rparr>"

definition SetMaterials :: "PendulumMotion \<Rightarrow> PendulumMotion" where
  "SetMaterials s =
     s\<lparr>mMaterials :=
        [(''bricks'', Material_make ''bricks'' 0 0 (1, 1, 1, 1) (0.05, 0.05, 0.05) 0.25),
         (''grassfloor'', Material_make ''grassfloor'' 1 1 (1, 1, 1, 1) (0.07, 0.07, 0.07) 0.3),
         (''glassmirror'', Material_make ''grassmirror'' 2 2 (1, 1, 1, 0.3) (0.1, 0.1, 0.1) 0.5),
         (''whitesurface'',
            Material_make ''whitesurface'' 3 3 (1, 1, 1, 1) (0.05, 0.05, 0.05) 0.3),
         (''shadow'', Material_make ''shadow'' 4 3 (0, 0, 0, 0.5) (0.001, 0.001, 0.001) 0)]\<rparr>"

text \<open>
  \<^verbatim>\<open>PendulumMotion::SetRenderingItems\<close> (lines 1118 to 1261). The reflected and the shadow
  variant of an item are copies of the item with the buffer index (and, for the shadow, the
  material) replaced.
\<close>

definition floorRitem :: RenderItem where
  "floorRitem = RenderItem_default\<lparr>World := Identity4x4, TexTransform := Identity4x4,
     ObjCBIndex := 0, Mat := ''grassfloor'', Geo := ''backgroundGeo'', DrawArgs := ''floor''\<rparr>"

definition wallRitem :: RenderItem where
  "wallRitem = RenderItem_default\<lparr>World := Identity4x4, TexTransform := Identity4x4,
     ObjCBIndex := 1, Mat := ''bricks'', Geo := ''backgroundGeo'', DrawArgs := ''wall''\<rparr>"

definition mirrorRitem :: RenderItem where
  "mirrorRitem = RenderItem_default\<lparr>World := Identity4x4, TexTransform := Identity4x4,
     ObjCBIndex := 2, Mat := ''glassmirror'', Geo := ''backgroundGeo'', DrawArgs := ''mirror''\<rparr>"

definition ceilingRitem :: RenderItem where
  "ceilingRitem = RenderItem_default\<lparr>World := XMMatrixTranslation 0 6 (- 5),
     TexTransform := Identity4x4,
     ObjCBIndex := 3, Mat := ''grassfloor'', Geo := ''pendulumGeo'', DrawArgs := ''ceiling''\<rparr>"

definition reflectedCeilingRitem :: RenderItem where
  "reflectedCeilingRitem = ceilingRitem\<lparr>ObjCBIndex := 4\<rparr>"

definition shadowedCeilingRitem :: RenderItem where
  "shadowedCeilingRitem = ceilingRitem\<lparr>ObjCBIndex := 5, Mat := ''shadow''\<rparr>"

definition wireRitem :: RenderItem where
  "wireRitem = RenderItem_default\<lparr>World := Identity4x4, TexTransform := Identity4x4,
     ObjCBIndex := 6, Mat := ''whitesurface'', Geo := ''pendulumGeo'', DrawArgs := ''cylinder''\<rparr>"

definition reflectedWireRitem :: RenderItem where
  "reflectedWireRitem = wireRitem\<lparr>ObjCBIndex := 7\<rparr>"

definition shadowedWireRitem :: RenderItem where
  "shadowedWireRitem = wireRitem\<lparr>ObjCBIndex := 8, Mat := ''shadow''\<rparr>"

definition ballRitem :: RenderItem where
  "ballRitem = RenderItem_default\<lparr>World := Identity4x4, TexTransform := Identity4x4,
     ObjCBIndex := 9, Mat := ''whitesurface'', Geo := ''pendulumGeo'', DrawArgs := ''sphere''\<rparr>"

definition reflectedBallRitem :: RenderItem where
  "reflectedBallRitem = ballRitem\<lparr>ObjCBIndex := 10\<rparr>"

definition shadowedBallRitem :: RenderItem where
  "shadowedBallRitem = ballRitem\<lparr>ObjCBIndex := 11, Mat := ''shadow''\<rparr>"

definition SetRenderingItems :: "PendulumMotion \<Rightarrow> PendulumMotion" where
  "SetRenderingItems s =
     s\<lparr>mCeilingRenderItem := [3, 4, 5],
       mWireRenderItem := [6, 7, 8],
       mBallRenderItem := [9, 10, 11],
       mAllRitems :=
         [floorRitem, wallRitem, mirrorRitem,
          ceilingRitem, reflectedCeilingRitem, shadowedCeilingRitem,
          wireRitem, reflectedWireRitem, shadowedWireRitem,
          ballRitem, reflectedBallRitem, shadowedBallRitem],
       mRitemLayer :=
         (\<lambda>l. case l of
                Opaque \<Rightarrow> [0, 1, 3, 6, 9]
              | Mirrors \<Rightarrow> [2]
              | Reflected \<Rightarrow> [4, 7, 10]
              | Transparent \<Rightarrow> [2]
              | Shadow \<Rightarrow> [5, 8, 11])\<rparr>"

text \<open>
  The constructor of \<^verbatim>\<open>FrameBuffer\<close> (FrameBuffer.cpp) and
  \<^verbatim>\<open>PendulumMotion::SetFrameBuffers\<close> (lines 1060 to 1067).
\<close>

definition FrameBuffer_new :: "nat \<Rightarrow> nat \<Rightarrow> nat \<Rightarrow> FrameBuffer" where
  "FrameBuffer_new commonCount objectCount materialCount =
     \<lparr>CommonCB = replicate commonCount None,
      MaterialCB = replicate materialCount None,
      ObjectCB = replicate objectCount None,
      Fence = 0\<rparr>"

definition SetFrameBuffers :: "PendulumMotion \<Rightarrow> PendulumMotion" where
  "SetFrameBuffers s =
     s\<lparr>mFrameBuffers :=
        mFrameBuffers s @
        replicate gNumFrameBuffers
          (FrameBuffer_new 2 (length (mAllRitems s)) (length (mMaterials s)))\<rparr>"

text \<open>
  The application object as its constructor and member initialisers leave it (lines 118 to 160
  and 187 to 196). The members of \<^verbatim>\<open>D3DApp\<close> are set by code that is not among the sources:
  the status flag starts cleared and the fence counter at 0, and the client area is a stand-in
  for what the window reports. \<^verbatim>\<open>POINT mLastMousePos\<close> (line 160) has no initialiser and the
  constructor does not set it: it holds no value (\<open>None\<close>) until a mouse handler writes it.
\<close>

definition PendulumMotion_new :: PendulumMotion where
  "PendulumMotion_new =
     \<lparr>mFrameBuffers = [], mCurrentFrameBuffer = None, mCurrentFrameBufferIndex = 0,
      mMaterials = [], mCeilingRenderItem = [], mWireRenderItem = [], mBallRenderItem = [],
      mAllRitems = [], mRitemLayer = (\<lambda>l. []),
      mCommonCB = CommonConstants_default, mReflectedCommonCB = CommonConstants_default,
      mSimplePend =
        \<lparr>initX = 0, initY = 5, initZ = - 5, omega = 0, theta = 0, wLength = 3\<rparr>,
      mCameraPos = (0, 0, 0), mView = Identity4x4, mProj = Identity4x4,
      mTheta = 1.5 * pi, mPhi = 0.4 * pi, mRadius = 20,
      mLastMousePos = None,
      mStatusChange = False, inheritValue1 = 0, mCurrentFence = 0,
      mClientWidth = 800, mClientHeight = 600\<rparr>"

text \<open>
  The part of \<^verbatim>\<open>PendulumMotion::Initialize\<close> (lines 232 to 263) that builds the state of the
  model, in the order of the source.
\<close>

definition Initialize :: "PendulumMotion \<Rightarrow> PendulumMotion" where
  "Initialize s = SetFrameBuffers (SetRenderingItems (SetMaterials s))"

section \<open>Mouse input\<close>

text \<open>
  Modelled from the spec: \<^verbatim>\<open>MathHelper::Clamp\<close>, of Helpers/MathHelper.h, which is not among
  the sources. The spec (section 6) says that the core clamps the spherical camera coordinates
  to fixed bounds and (section 8) that a drag beyond the bounds leaves the value pinned at the
  bound: a value below the lower bound becomes the lower bound, a value above the upper bound
  becomes the upper bound, and any other value is kept.
\<close>

definition Clamp :: "real \<Rightarrow> real \<Rightarrow> real \<Rightarrow> real" where
  "Clamp x low high = (if x < low then low else if x > high then high else x)"

text \<open>The button flags of the window message (\<^verbatim>\<open>WPARAM\<close> is a 64-bit word).\<close>

definition MK_LBUTTON :: "64 word" where
  "MK_LBUTTON = 1"

definition MK_RBUTTON :: "64 word" where
  "MK_RBUTTON = 2"

text \<open>
  \<^verbatim>\<open>PendulumMotion::OnMouseDown\<close> (lines 374 to 380) records the pointer position.
  \<^verbatim>\<open>SetCapture\<close> acts on the window only, which is not part of the model's state.
\<close>

definition OnMouseDown :: "64 word \<Rightarrow> LONG \<Rightarrow> LONG \<Rightarrow> PendulumMotion \<Rightarrow> PendulumMotion" where
  "OnMouseDown btnState x y s = s\<lparr>mLastMousePos := Some (x, y)\<rparr>"

text \<open>
  \<^verbatim>\<open>PendulumMotion::OnMouseMove\<close> (lines 387 to 416). The pointer coordinates \<open>x\<close> and \<open>y\<close>
  are 32-bit \<^verbatim>\<open>int\<close>s and the members of \<^verbatim>\<open>mLastMousePos\<close> are 32-bit \<^verbatim>\<open>LONG\<close>s; their
  difference is taken in 32 bits, where it wraps around, and the result is read as a signed
  number (\<^term>\<open>sint\<close>) before it is converted to \<^verbatim>\<open>float\<close>. The two button branches read
  \<^verbatim>\<open>mLastMousePos\<close>; when no handler has written it yet the read has no defined result and
  the model returns \<open>None\<close>. The last two assignments write it in every case.
\<close>

definition OnMouseMove :: "64 word \<Rightarrow> LONG \<Rightarrow> LONG \<Rightarrow> PendulumMotion \<Rightarrow> PendulumMotion option" where
  "OnMouseMove btnState x y s =
     (let r =
        (if (btnState AND MK_LBUTTON) \<noteq> 0 then
           (case mLastMousePos s of
              None \<Rightarrow> None
            | Some (lx, ly) \<Rightarrow>
                (let dx = XMConvertToRadians (0.25 * real_of_int (sint (x - lx)));
                     dy = XMConvertToRadians (0.25 * real_of_int (sint (y - ly)));
                     sa = s\<lparr>mTheta := mTheta s + dx\<rparr>;
                     sb = sa\<lparr>mPhi := mPhi sa + dy\<rparr>;
                     sc = sb\<lparr>mPhi :=
                            Clamp (mPhi sb) (MathHelper_Pi / 6) (MathHelper_Pi / 2 - 0.1)\<rparr>
                 in Some (sc\<lparr>mTheta :=
                            Clamp (mTheta sc) (MathHelper_Pi * 7 / 6) (MathHelper_Pi * 11 / 6)\<rparr>)))
         else if (btnState AND MK_RBUTTON) \<noteq> 0 then
           (case mLastMousePos s of
              None \<Rightarrow> None
            | Some (lx, ly) \<Rightarrow>
                (let dx = 0.2 * real_of_int (sint (x - lx));
                     dy = 0.2 * real_of_int (sint (y - ly));
                     sa = s\<lparr>mRadius := mRadius s + (dx - dy)\<rparr>
                 in Some (sa\<lparr>mRadius := Clamp (mRadius sa) 15 50\<rparr>)))
         else Some s)
      in case r of
           None \<Rightarrow> None
         | Some s1 \<Rightarrow> Some (s1\<lparr>mLastMousePos := Some (x, y)\<rparr>))"

section \<open>The per-tick update\<close>

text \<open>
  Modelled from the spec: \<^verbatim>\<open>UploadBuffer<T>::CopyData\<close>, of Helpers/UploadBuffer.h, which is
  not among the sources. The spec (section 4.1) says that a write overwrites exactly one element,
  requires \<open>0 \<le> index < capacity\<close>, and that an index out of range is a fatal programming
  error: the result is \<open>None\<close> there.
\<close>

definition CopyData :: "nat \<Rightarrow> 'a \<Rightarrow> 'a option list \<Rightarrow> 'a option list option" where
  "CopyData elementIndex data buf =
     (if elementIndex < length buf then Some (buf[elementIndex := Some data]) else None)"

text \<open>
  Following \<^verbatim>\<open>mCurrentFrameBuffer\<close>: the position and the frame buffer it points to; \<open>None\<close>
  for the null pointer (and for a position outside the ring, which start-up never produces).
\<close>

definition CurrentFrameBuffer :: "PendulumMotion \<Rightarrow> (nat \<times> FrameBuffer) option" where
  "CurrentFrameBuffer s =
     (case mCurrentFrameBuffer s of
        None \<Rightarrow> None
      | Some k \<Rightarrow> (if k < length (mFrameBuffers s) then Some (k, mFrameBuffers s ! k) else None))"

text \<open>\<^verbatim>\<open>PendulumMotion::UpdateCamera\<close> (lines 418 to 432).\<close>

definition UpdateCamera :: "GameTimer \<Rightarrow> PendulumMotion \<Rightarrow> PendulumMotion" where
  "UpdateCamera gt s =
     (let x = mRadius s * sin (mPhi s) * cos (mTheta s);
          z = mRadius s * sin (mPhi s) * sin (mTheta s);
          y = mRadius s * cos (mPhi s);
          position = XMVectorSet x y z 1;
          target = XMVectorSet 1 0 0 1;
          up = XMVectorSet 0 1 0 0
      in s\<lparr>mCameraPos := (x, y, z), mView := XMMatrixLookAtLH position target up\<rparr>)"

text \<open>
  \<^verbatim>\<open>PendulumMotion::UpdateReflectedAndShadowed\<close> (lines 456 to 496). \<open>StoreWorld p m\<close> is
  \<^verbatim>\<open>XMStoreFloat4x4(&p->World, m)\<close> and \<open>StoreFill p n\<close> is \<^verbatim>\<open>p->numFrameBufferFill = n\<close>, for
  a pointer \<open>p\<close> into \<^verbatim>\<open>mAllRitems\<close>.
\<close>

definition StoreWorld :: "nat \<Rightarrow> XMMATRIX \<Rightarrow> RenderItem list \<Rightarrow> RenderItem list" where
  "StoreWorld p m items = items[p := (items ! p)\<lparr>World := m\<rparr>]"

definition StoreFill :: "nat \<Rightarrow> int \<Rightarrow> RenderItem list \<Rightarrow> RenderItem list" where
  "StoreFill p n items = items[p := (items ! p)\<lparr>numFrameBufferFill := n\<rparr>]"

definition wireWorld :: "SimplePendulum \<Rightarrow> XMMATRIX" where
  "wireWorld p =
     XMMatrixMultiply (XMMatrixRotationZ (theta p))
       (XMMatrixTranslation (0 + (wLength p / 2) * sin (theta p))
          (6 - (wLength p / 2) * cos (theta p)) (- 5))"

definition ballWorld :: "SimplePendulum \<Rightarrow> XMMATRIX" where
  "ballWorld p =
     XMMatrixMultiply (XMMatrixRotationZ (theta p))
       (XMMatrixTranslation (0 + (wLength p + 0.1) * sin (theta p))
          (6 - (wLength p + 0.1) * cos (theta p)) (- 5))"

definition mirrorPlane :: XMVECTOR where
  "mirrorPlane = XMVectorSet 0 0 1 0"

definition shadowPlane :: XMVECTOR where
  "shadowPlane = XMVectorSet 0 1 0 0"

definition toMainLight :: "PendulumMotion \<Rightarrow> XMVECTOR" where
  "toMainLight s = XMVectorNegate (XMLoadFloat3 (Direction (Lights (mCommonCB s) ! 0)))"

definition shadowOffSetY :: XMMATRIX where
  "shadowOffSetY = XMMatrixTranslation 0 0.001 0"

fun UpdateReflectedAndShadowed_loop :: "nat list \<Rightarrow> nat list \<Rightarrow> nat \<Rightarrow> RenderItem list \<Rightarrow> RenderItem list" where
  "UpdateReflectedAndShadowed_loop wire ball 0 items = items"
| "UpdateReflectedAndShadowed_loop wire ball (Suc n) items =
     (let i = 3 - Suc n in
        UpdateReflectedAndShadowed_loop wire ball n
          (StoreFill (ball ! i) (int gNumFrameBuffers)
             (StoreFill (wire ! i) (int gNumFrameBuffers) items)))"

definition UpdateReflectedAndShadowed :: "PendulumMotion \<Rightarrow> PendulumMotion" where
  "UpdateReflectedAndShadowed s =
     (let wire = mWireRenderItem s;
          ball = mBallRenderItem s;
          ww = wireWorld (mSimplePend s);
          R = XMMatrixReflect mirrorPlane;
          S = XMMatrixShadow shadowPlane (toMainLight s);
          bw = ballWorld (mSimplePend s);
          i1 = StoreWorld (wire ! 0) ww (mAllRitems s);
          i2 = StoreWorld (wire ! 1) (XMMatrixMultiply ww R) i1;
          i3 = StoreWorld (wire ! 2) (XMMatrixMultiply (XMMatrixMultiply ww S) shadowOffSetY) i2;
          i4 = StoreWorld (ball ! 0) bw i3;
          i5 = StoreWorld (ball ! 1) (XMMatrixMultiply bw R) i4;
          i6 = StoreWorld (ball ! 2) (XMMatrixMultiply (XMMatrixMultiply bw S) shadowOffSetY) i5
      in s\<lparr>mAllRitems := UpdateReflectedAndShadowed_loop wire ball 3 i6\<rparr>)"

text \<open>
  \<^verbatim>\<open>PendulumMotion::UpdateObjectCBs\<close> (lines 434 to 454). The loop writes the constants of
  every item whose counter is positive into the object buffer of the current frame buffer. It
  reads the items and does not change them.
\<close>

definition objConstants :: "RenderItem \<Rightarrow> ObjectConstants" where
  "objConstants elem =
     \<lparr>oc_World = XMMatrixTranspose (World elem),
      oc_TexTransform = XMMatrixTranspose (TexTransform elem)\<rparr>"

fun UpdateObjectCBs_loop ::
  "RenderItem list \<Rightarrow> ObjectConstants option list \<Rightarrow> ObjectConstants option list option" where
  "UpdateObjectCBs_loop [] cb = Some cb"
| "UpdateObjectCBs_loop (elem # elems) cb =
     (if numFrameBufferFill elem > 0
      then (case CopyData (ObjCBIndex elem) (objConstants elem) cb of
              None \<Rightarrow> None
            | Some cb' \<Rightarrow> UpdateObjectCBs_loop elems cb')
      else UpdateObjectCBs_loop elems cb)"

definition UpdateObjectCBs :: "GameTimer \<Rightarrow> PendulumMotion \<Rightarrow> PendulumMotion option" where
  "UpdateObjectCBs gt s =
     (let s1 = EulerUpdate (gt_DeltaTime gt) s;
          s2 = UpdateReflectedAndShadowed s1
      in case CurrentFrameBuffer s2 of
           None \<Rightarrow> None
         | Some (k, fb) \<Rightarrow>
             (case UpdateObjectCBs_loop (mAllRitems s2) (ObjectCB fb) of
                None \<Rightarrow> None
              | Some cb \<Rightarrow> Some (s2\<lparr>mFrameBuffers := (mFrameBuffers s2)[k := fb\<lparr>ObjectCB := cb\<rparr>]\<rparr>)))"

text \<open>
  \<^verbatim>\<open>PendulumMotion::UpdateMaterialCBs\<close> (lines 499 to 521). The loop writes the constants of
  every material whose counter is positive and decrements that counter.
\<close>

definition matConstants :: "Material \<Rightarrow> MaterialConstants" where
  "matConstants mat =
     \<lparr>mc_DiffuseAlbedo = DiffuseAlbedo mat, mc_FresnelR0 = FresnelR0 mat,
      mc_Roughness = Roughness mat, mc_MatTransform = XMMatrixTranspose (MatTransform mat)\<rparr>"

fun UpdateMaterialCBs_loop ::
  "(string \<times> Material) list \<Rightarrow> MaterialConstants option list
     \<Rightarrow> ((string \<times> Material) list \<times> MaterialConstants option list) option" where
  "UpdateMaterialCBs_loop [] cb = Some ([], cb)"
| "UpdateMaterialCBs_loop ((name, mat) # elems) cb =
     (if NumFramesDirty mat > 0
      then (case CopyData (MatCBIndex mat) (matConstants mat) cb of
              None \<Rightarrow> None
            | Some cb' \<Rightarrow>
                (case UpdateMaterialCBs_loop elems cb' of
                   None \<Rightarrow> None
                 | Some (elems', cb'') \<Rightarrow>
                     Some ((name, mat\<lparr>NumFramesDirty := NumFramesDirty mat - 1\<rparr>) # elems', cb'')))
      else (case UpdateMaterialCBs_loop elems cb of
              None \<Rightarrow> None
            | Some (elems', cb'') \<Rightarrow> Some ((name, mat) # elems', cb'')))"

definition UpdateMaterialCBs :: "GameTimer \<Rightarrow> PendulumMotion \<Rightarrow> PendulumMotion option" where
  "UpdateMaterialCBs gt s =
     (case CurrentFrameBuffer s of
        None \<Rightarrow> None
      | Some (k, fb) \<Rightarrow>
          (case UpdateMaterialCBs_loop (mMaterials s) (MaterialCB fb) of
             None \<Rightarrow> None
           | Some (mats, cb) \<Rightarrow>
               Some (s\<lparr>mMaterials := mats,
                       mFrameBuffers := (mFrameBuffers s)[k := fb\<lparr>MaterialCB := cb\<rparr>]\<rparr>)))"

text \<open>
  \<^verbatim>\<open>PendulumMotion::UpdateCommonCB\<close> (lines 523 to 556): filling \<^verbatim>\<open>mCommonCB\<close> (lines 525
  to 552), then copying it into element 0 of the current common buffer.
\<close>

definition SetLight :: "nat \<Rightarrow> XMFLOAT3 \<Rightarrow> XMFLOAT3 \<Rightarrow> Light list \<Rightarrow> Light list" where
  "SetLight i d str ls = ls[i := (ls ! i)\<lparr>Direction := d, Strength := str\<rparr>]"

definition UpdateCommonCB_fill :: "GameTimer \<Rightarrow> PendulumMotion \<Rightarrow> CommonConstants" where
  "UpdateCommonCB_fill gt s =
     (let view = mView s;
          proj = mProj s;
          viewProj = XMMatrixMultiply view proj;
          invView = XMMatrixInverse view;
          invProj = XMMatrixInverse proj;
          invViewProj = XMMatrixInverse viewProj
      in (mCommonCB s)
            \<lparr>View := XMMatrixTranspose view,
             InvView := XMMatrixTranspose invView,
             Proj := XMMatrixTranspose proj,
             InvProj := XMMatrixTranspose invProj,
             ViewProj := XMMatrixTranspose viewProj,
             InvViewProj := XMMatrixTranspose invViewProj,
             CameraPosW := mCameraPos s,
             RenderTargetSize := (real_of_int (mClientWidth s), real_of_int (mClientHeight s)),
             InvRenderTargetSize :=
               (1 / real_of_int (mClientWidth s), 1 / real_of_int (mClientHeight s)),
             NearZ := 1,
             FarZ := 1000,
             TotalTime := gt_TotalTime gt,
             DeltaTime := gt_DeltaTime gt,
             AmbientLight := (0.25, 0.25, 0.25, 1),
             Lights :=
               SetLight 2 (0, - 0.707, - 0.707) (0.15, 0.15, 0.15)
                 (SetLight 1 (- 0.57735, - 0.57735, 0.57735) (0.3, 0.3, 0.3)
                    (SetLight 0 (0.57735, - 0.70735, 0.57735) (0.8, 0.8, 0.8)
                       (Lights (mCommonCB s))))\<rparr>)"

definition UpdateCommonCB :: "GameTimer \<Rightarrow> PendulumMotion \<Rightarrow> PendulumMotion option" where
  "UpdateCommonCB gt s =
     (let s1 = s\<lparr>mCommonCB := UpdateCommonCB_fill gt s\<rparr>
      in case CurrentFrameBuffer s1 of
           None \<Rightarrow> None
         | Some (k, fb) \<Rightarrow>
             (case CopyData 0 (mCommonCB s1) (CommonCB fb) of
                None \<Rightarrow> None
              | Some c \<Rightarrow> Some (s1\<lparr>mFrameBuffers := (mFrameBuffers s1)[k := fb\<lparr>CommonCB := c\<rparr>]\<rparr>)))"

text \<open>
  \<^verbatim>\<open>PendulumMotion::UpdateReflectedCommonCB\<close> (lines 558 to 576): \<^verbatim>\<open>mReflectedCommonCB\<close>
  becomes a copy of \<^verbatim>\<open>mCommonCB\<close> in which the loop replaces the directions of lights 0, 1
  and 2 (lines 560 to 571); it is then copied into element 1 of the current common buffer.
\<close>

fun UpdateReflectedCommonCB_loop :: "Light list \<Rightarrow> XMMATRIX \<Rightarrow> nat \<Rightarrow> Light list \<Rightarrow> Light list" where
  "UpdateReflectedCommonCB_loop src R 0 ls = ls"
| "UpdateReflectedCommonCB_loop src R (Suc n) ls =
     (let i = 3 - Suc n;
          lightDir = XMLoadFloat3 (Direction (src ! i));
          reflectedLightDir = XMVector3TransformNormal lightDir R
      in UpdateReflectedCommonCB_loop src R n
           (ls[i := (ls ! i)\<lparr>Direction := XMStoreFloat3 reflectedLightDir\<rparr>]))"

definition UpdateReflectedCommonCB_fill :: "PendulumMotion \<Rightarrow> CommonConstants" where
  "UpdateReflectedCommonCB_fill s =
     (let reflected = mCommonCB s;
          R = XMMatrixReflect mirrorPlane
      in reflected
           \<lparr>Lights := UpdateReflectedCommonCB_loop (Lights (mCommonCB s)) R 3 (Lights reflected)\<rparr>)"

definition UpdateReflectedCommonCB :: "GameTimer \<Rightarrow> PendulumMotion \<Rightarrow> PendulumMotion option" where
  "UpdateReflectedCommonCB gt s =
     (let s1 = s\<lparr>mReflectedCommonCB := UpdateReflectedCommonCB_fill s\<rparr>
      in case CurrentFrameBuffer s1 of
           None \<Rightarrow> None
         | Some (k, fb) \<Rightarrow>
             (case CopyData 1 (mReflectedCommonCB s1) (CommonCB fb) of
                None \<Rightarrow> None
              | Some c \<Rightarrow> Some (s1\<lparr>mFrameBuffers := (mFrameBuffers s1)[k := fb\<lparr>CommonCB := c\<rparr>]\<rparr>)))"

text \<open>
  The GPU is an independent consumer. Its side of the fence is a timeline \<open>gpu\<close>: the value
  \<^verbatim>\<open>mFence->GetCompletedValue()\<close> returns at time \<open>t\<close> is \<open>gpu t\<close>; any function is a
  possible timeline, so completion may be delayed at will. \<^verbatim>\<open>SetEventOnCompletion(v, e)\<close>
  followed by \<^verbatim>\<open>WaitForSingleObject(e, INFINITE)\<close> returns at the first time from now on at
  which the fence has reached \<open>v\<close>, and never if there is no such time (\<open>None\<close>).
\<close>

partial_function (option) WaitForSingleObject :: "(nat \<Rightarrow> UINT64) \<Rightarrow> UINT64 \<Rightarrow> nat \<Rightarrow> nat option" where
  "WaitForSingleObject gpu v t =
     (if v \<le> gpu t then Some t else WaitForSingleObject gpu v (Suc t))"

text \<open>
  What the CPU thread does to a frame slot is recorded as a trace of events, each with the time
  at which it happens: \<open>Waited v t t'\<close>, the thread blocked on the fence value \<open>v\<close> from time
  \<open>t\<close> until time \<open>t'\<close>; \<open>Written k t\<close>, the thread wrote the upload buffers of slot \<open>k\<close> at
  time \<open>t\<close>. The thread's clock moves only while it is blocked.
\<close>

datatype Event = Waited UINT64 nat nat | Written nat nat

text \<open>
  \<^verbatim>\<open>PendulumMotion::Update\<close> (lines 273 to 294), in three parts, one after the other: advancing
  the cursor of the ring (lines 279 and 280); the guarded wait on the fence (lines 282 to 288),
  which starts at the time the caller has reached and whose result is the time at which the
  caller goes on and the trace of the wait, empty if it did not block; and the four buffer
  updates (lines 290 to 293), which run at the time the wait has left and all write through
  \<^verbatim>\<open>mCurrentFrameBuffer\<close>. The trace of \<^verbatim>\<open>Update\<close> is the trace of the wait followed by that of
  the buffer updates. \<^verbatim>\<open>WriteCaption\<close> writes the window caption only, which is not part of the
  model's state.
\<close>

definition Update_cycle :: "PendulumMotion \<Rightarrow> PendulumMotion" where
  "Update_cycle s =
     (let s1 = s\<lparr>mCurrentFrameBufferIndex := (mCurrentFrameBufferIndex s + 1) mod gNumFrameBuffers\<rparr>
      in s1\<lparr>mCurrentFrameBuffer := Some (mCurrentFrameBufferIndex s1)\<rparr>)"

definition Update_wait :: "(nat \<Rightarrow> UINT64) \<Rightarrow> nat \<Rightarrow> PendulumMotion \<Rightarrow> (nat \<times> Event list) option" where
  "Update_wait gpu t s =
     (case CurrentFrameBuffer s of
        None \<Rightarrow> None
      | Some (k, fb) \<Rightarrow>
          (if Fence fb \<noteq> 0 \<and> gpu t < Fence fb
           then (case WaitForSingleObject gpu (Fence fb) t of
                   None \<Rightarrow> None
                 | Some t' \<Rightarrow> Some (t', [Waited (Fence fb) t t']))
           else Some (t, [])))"

definition UpdateCBs :: "GameTimer \<Rightarrow> PendulumMotion \<Rightarrow> PendulumMotion option" where
  "UpdateCBs gt s =
     (case UpdateObjectCBs gt s of
        None \<Rightarrow> None
      | Some s1 \<Rightarrow>
          (case UpdateMaterialCBs gt s1 of
             None \<Rightarrow> None
           | Some s2 \<Rightarrow>
               (case UpdateCommonCB gt s2 of
                  None \<Rightarrow> None
                | Some s3 \<Rightarrow> UpdateReflectedCommonCB gt s3)))"

definition UpdateCBs_at :: "nat \<Rightarrow> GameTimer \<Rightarrow> PendulumMotion \<Rightarrow> (Event list \<times> PendulumMotion) option" where
  "UpdateCBs_at t gt s =
     (case mCurrentFrameBuffer s of
        None \<Rightarrow> None
      | Some k \<Rightarrow>
          (case UpdateCBs gt s of
             None \<Rightarrow> None
           | Some s' \<Rightarrow> Some ([Written k t], s')))"

definition Update ::
  "(nat \<Rightarrow> UINT64) \<Rightarrow> nat \<Rightarrow> GameTimer \<Rightarrow> PendulumMotion
     \<Rightarrow> (nat \<times> Event list \<times> PendulumMotion) option" where
  "Update gpu t gt s =
     (let s1 = Update_cycle (UpdateCamera gt s)
      in case Update_wait gpu t s1 of
           None \<Rightarrow> None
         | Some (t', waits) \<Rightarrow>
             (case UpdateCBs_at t' gt s1 of
                None \<Rightarrow> None
              | Some (writes, s2) \<Rightarrow> Some (t', waits @ writes, s2)))"

section \<open>Recording and submitting a frame\<close>

text \<open>
  The commands \<^verbatim>\<open>Draw\<close> records into the command list. A GPU virtual address inside an
  upload buffer is the position of the frame buffer in the ring and the index of the element:
  the elements of a constant buffer lie \<^verbatim>\<open>CalcConstantBufferByteSize(sizeof(T))\<close> bytes apart,
  and that is the byte size the demo multiplies an index with (and adds once to reach the second
  element of the common buffer).
\<close>

datatype GpuAddress =
    CommonCB_at nat nat
  | ObjectCB_at nat nat
  | MaterialCB_at nat nat

datatype ResourceState = STATE_PRESENT | STATE_RENDER_TARGET

datatype Command =
    Reset string
  | RSSetViewports
  | RSSetScissorRects
  | ResourceBarrier ResourceState ResourceState
  | ClearRenderTargetView
  | ClearDepthStencilView real "8 word"
  | OMSetRenderTargets
  | SetDescriptorHeaps
  | SetGraphicsRootSignature
  | SetGraphicsRootConstantBufferView nat GpuAddress
  | SetGraphicsRootDescriptorTable nat nat
  | OMSetStencilRef "8 word"
  | SetPipelineState string
  | IASetVertexBuffers string
  | IASetIndexBuffer string
  | IASetPrimitiveTopology
  | DrawIndexedInstanced string
  | Close

text \<open>
  \<^verbatim>\<open>PendulumMotion::DrawRenderingItems\<close> (lines 579 to 609), for the items of one layer and
  the frame buffer at position \<open>k\<close>. An item pointer outside \<^verbatim>\<open>mAllRitems\<close> or a material
  that is not in \<^verbatim>\<open>mMaterials\<close> (a null pointer) gives \<open>None\<close>.
\<close>

fun DrawRenderingItems :: "PendulumMotion \<Rightarrow> nat \<Rightarrow> nat list \<Rightarrow> Command list option" where
  "DrawRenderingItems s k [] = Some []"
| "DrawRenderingItems s k (p # ps) =
     (if p < length (mAllRitems s)
      then (let ri = mAllRitems s ! p in
              case map_of (mMaterials s) (Mat ri) of
                None \<Rightarrow> None
              | Some mat \<Rightarrow>
                  (case DrawRenderingItems s k ps of
                     None \<Rightarrow> None
                   | Some cs \<Rightarrow>
                       Some ([IASetVertexBuffers (Geo ri),
                              IASetIndexBuffer (Geo ri),
                              IASetPrimitiveTopology,
                              SetGraphicsRootDescriptorTable 0 (DiffuseSrvHeapIndex mat),
                              SetGraphicsRootConstantBufferView 1 (ObjectCB_at k (ObjCBIndex ri)),
                              SetGraphicsRootConstantBufferView 3 (MaterialCB_at k (MatCBIndex mat)),
                              DrawIndexedInstanced (DrawArgs ri)] @ cs)))
      else None)"

text \<open>
  \<^verbatim>\<open>PendulumMotion::Draw\<close> (lines 296 to 372): the recorded command list, the value the queue
  is told to signal on the fence, and the new state. Presenting and the swap chain's
  back-buffer counter belong to \<^verbatim>\<open>D3DApp\<close> and are not part of the model's state.
\<close>

definition Draw_commands :: "PendulumMotion \<Rightarrow> nat \<Rightarrow> Command list option" where
  "Draw_commands s k =
     (case DrawRenderingItems s k (mRitemLayer s Opaque) of None \<Rightarrow> None | Some opaque \<Rightarrow>
      case DrawRenderingItems s k (mRitemLayer s Mirrors) of None \<Rightarrow> None | Some mirrors \<Rightarrow>
      case DrawRenderingItems s k (mRitemLayer s Reflected) of None \<Rightarrow> None | Some reflected \<Rightarrow>
      case DrawRenderingItems s k (mRitemLayer s Transparent) of None \<Rightarrow> None | Some transparent \<Rightarrow>
      case DrawRenderingItems s k (mRitemLayer s Shadow) of None \<Rightarrow> None | Some shadow \<Rightarrow>
        Some ([Reset ''opaque'',
               RSSetViewports,
               RSSetScissorRects,
               ResourceBarrier STATE_PRESENT STATE_RENDER_TARGET,
               ClearRenderTargetView,
               ClearDepthStencilView 1 0,
               OMSetRenderTargets,
               SetDescriptorHeaps,
               SetGraphicsRootSignature,
               SetGraphicsRootConstantBufferView 2 (CommonCB_at k 0)]
              @ opaque
              @ [OMSetStencilRef 1,
                 SetPipelineState ''markStencilMirror'']
              @ mirrors
              @ [SetGraphicsRootConstantBufferView 2 (CommonCB_at k (0 + 1)),
                 SetPipelineState ''drawStencilReflections'']
              @ reflected
              @ [SetGraphicsRootConstantBufferView 2 (CommonCB_at k 0),
                 OMSetStencilRef 0,
                 SetPipelineState ''transparent'']
              @ transparent
              @ [SetPipelineState ''shadow'']
              @ shadow
              @ [ResourceBarrier STATE_RENDER_TARGET STATE_PRESENT,
                 Close]))"

definition Draw :: "GameTimer \<Rightarrow> PendulumMotion \<Rightarrow> (Command list \<times> UINT64 \<times> PendulumMotion) option" where
  "Draw gt s =
     (case CurrentFrameBuffer s of
        None \<Rightarrow> None
      | Some (k, fb) \<Rightarrow>
          (case Draw_commands s k of
             None \<Rightarrow> None
           | Some cmds \<Rightarrow>
               (let s1 = s\<lparr>mCurrentFence := mCurrentFence s + 1\<rparr>;
                    s2 = s1\<lparr>mFrameBuffers :=
                              (mFrameBuffers s1)[k := fb\<lparr>Fence := mCurrentFence s1\<rparr>]\<rparr>
                in Some (cmds, mCurrentFence s2, s2))))"

text \<open>
  One tick of the application loop: \<^verbatim>\<open>Update\<close>, then \<^verbatim>\<open>Draw\<close>. The result is the time at
  which \<^verbatim>\<open>Update\<close> went on, the trace of \<^verbatim>\<open>Update\<close>, the command list and the new state.
\<close>

definition Tick ::
  "(nat \<Rightarrow> UINT64) \<Rightarrow> nat \<Rightarrow> GameTimer \<Rightarrow> PendulumMotion
     \<Rightarrow> (nat \<times> Event list \<times> Command list \<times> PendulumMotion) option" where
  "Tick gpu t gt s =
     (case Update gpu t gt s of
        None \<Rightarrow> None
      | Some (t', evs, s1) \<Rightarrow>
          (case Draw gt s1 of
             None \<Rightarrow> None
           | Some (cmds, signal, s2) \<Rightarrow> Some (t', evs, cmds, s2)))"

section \<open>The shape of the state after start-up\<close>

text \<open>
  What start-up fixes and nothing changes afterwards: the buffer indices, materials, geometry and
  draw arguments of the render items, the keys and buffer indices of the materials, the cached
  item pointers, the layers, the capacities of the ring's buffers and the number of lights.
  \<open>fence_part\<close> is the state of the ring's cursor and of the fence.
\<close>

definition static_part where
  "static_part s =
     (map ObjCBIndex (mAllRitems s), map Mat (mAllRitems s), map Geo (mAllRitems s),
      map DrawArgs (mAllRitems s),
      map (\<lambda>(n, m). (n, MatCBIndex m, DiffuseSrvHeapIndex m)) (mMaterials s),
      mCeilingRenderItem s, mWireRenderItem s, mBallRenderItem s, mRitemLayer s,
      map (\<lambda>fb. (length (CommonCB fb), length (ObjectCB fb), length (MaterialCB fb)))
        (mFrameBuffers s),
      length (Lights (mCommonCB s)))"

definition fence_part where
  "fence_part s =
     (mCurrentFrameBufferIndex s, mCurrentFrameBuffer s, mCurrentFence s,
      map Fence (mFrameBuffers s))"

text \<open>A state is well formed when its static part is the one start-up builds.\<close>

definition app_ok :: "PendulumMotion \<Rightarrow> bool" where
  "app_ok s \<longleftrightarrow> static_part s = static_part (Initialize PendulumMotion_new)"

text \<open>
  Example inputs. \<open>stamped_example\<close> has the cursor and the stamps of the ring as three ticks
  leave them (slot 1 was stamped 1, slot 2 was stamped 2, slot 0 was stamped 3);
  \<open>gpu_example\<close> is a GPU that completes the first submission at time 5.
\<close>

definition stamped_example :: PendulumMotion where
  "stamped_example =
     (let s = Initialize PendulumMotion_new in
        s\<lparr>mFrameBuffers :=
             [(mFrameBuffers s ! 0)\<lparr>Fence := 3\<rparr>, (mFrameBuffers s ! 1)\<lparr>Fence := 1\<rparr>,
              (mFrameBuffers s ! 2)\<lparr>Fence := 2\<rparr>],
          mCurrentFrameBufferIndex := 0, mCurrentFrameBuffer := Some 0, mCurrentFence := 3\<rparr>)"

definition gpu_example :: "nat \<Rightarrow> UINT64" where
  "gpu_example t = (if t < 5 then 0 else 1)"

definition gt_example :: GameTimer where
  "gt_example = \<lparr>gt_TotalTime = 0.03, gt_DeltaTime = 0.01\<rparr>"

text \<open>
  The GPU's reading of a command list. The pipeline state a draw call runs under is what the
  commands before it have set: the pipeline state object (named by \<^verbatim>\<open>Reset\<close> at first), the
  stencil reference (0 after \<^verbatim>\<open>Reset\<close>), the root constant-buffer views and the root
  descriptor table. \<open>Replay\<close> lists the draw calls of a command list, each with the state it
  runs under.
\<close>

record Pipeline =
  pl_pso :: string
  pl_stencilRef :: "8 word"
  pl_cbv :: "nat \<Rightarrow> GpuAddress option"
  pl_table :: "nat \<Rightarrow> nat option"

record DrawCall =
  dc_pso :: string
  dc_stencilRef :: "8 word"
  dc_common :: "GpuAddress option"
  dc_object :: "GpuAddress option"
  dc_material :: "GpuAddress option"
  dc_texture :: "nat option"
  dc_args :: string

fun exec :: "Command \<Rightarrow> Pipeline \<times> DrawCall list \<Rightarrow> Pipeline \<times> DrawCall list" where
  "exec (Reset pso) (pl, calls) =
     (\<lparr>pl_pso = pso, pl_stencilRef = 0, pl_cbv = (\<lambda>i. None), pl_table = (\<lambda>i. None)\<rparr>, calls)"
| "exec (SetPipelineState pso) (pl, calls) = (pl\<lparr>pl_pso := pso\<rparr>, calls)"
| "exec (OMSetStencilRef r) (pl, calls) = (pl\<lparr>pl_stencilRef := r\<rparr>, calls)"
| "exec (SetGraphicsRootConstantBufferView i a) (pl, calls) =
     (pl\<lparr>pl_cbv := (pl_cbv pl)(i := Some a)\<rparr>, calls)"
| "exec (SetGraphicsRootDescriptorTable i d) (pl, calls) =
     (pl\<lparr>pl_table := (pl_table pl)(i := Some d)\<rparr>, calls)"
| "exec (DrawIndexedInstanced args) (pl, calls) =
     (pl, calls @ [\<lparr>dc_pso = pl_pso pl, dc_stencilRef = pl_stencilRef pl,
                    dc_common = pl_cbv pl 2, dc_object = pl_cbv pl 1,
                    dc_material = pl_cbv pl 3, dc_texture = pl_table pl 0,
                    dc_args = args\<rparr>])"
| "exec c (pl, calls) = (pl, calls)"

definition Replay :: "Command list \<Rightarrow> DrawCall list" where
  "Replay cmds =
     snd (foldl (\<lambda>st c. exec c st)
            (\<lparr>pl_pso = [], pl_stencilRef = 0, pl_cbv = (\<lambda>i. None), pl_table = (\<lambda>i. None)\<rparr>, [])
            cmds)"

text \<open>
  A render pass, in the words of the spec (section 4.4): the draw calls of the items of one
  layer, in the layer's order, all under one pipeline configuration, one stencil reference and
  one copy of the common constants, each with the item's own object constants, material
  constants and texture.
\<close>

definition Pass ::
  "PendulumMotion \<Rightarrow> nat \<Rightarrow> string \<Rightarrow> 8 word \<Rightarrow> GpuAddress option \<Rightarrow> nat list \<Rightarrow> DrawCall list" where
  "Pass s k pso ref common ps =
     map (\<lambda>p. \<lparr>dc_pso = pso, dc_stencilRef = ref, dc_common = common,
                dc_object = Some (ObjectCB_at k (ObjCBIndex (mAllRitems s ! p))),
                dc_material =
                  map_option (\<lambda>mat. MaterialCB_at k (MatCBIndex mat))
                    (map_of (mMaterials s) (Mat (mAllRitems s ! p))),
                dc_texture =
                  map_option DiffuseSrvHeapIndex (map_of (mMaterials s) (Mat (mAllRitems s ! p))),
                dc_args = DrawArgs (mAllRitems s ! p)\<rparr>) ps"

text \<open>
  An example input for \<^verbatim>\<open>Draw\<close>: the ring as \<open>2^64 - 1\<close> ticks and the \<^verbatim>\<open>Update\<close> of the
  next tick leave it. Slot 0 was stamped \<open>2^64 - 1\<close> by the last \<^verbatim>\<open>Draw\<close>, slot 2 was
  stamped \<open>2^64 - 2\<close> and slot 1 was stamped \<open>2^64 - 3\<close>; the cursor has moved on to slot 1.
\<close>

definition wrap_example :: PendulumMotion where
  "wrap_example =
     (let s = Initialize PendulumMotion_new in
        s\<lparr>mFrameBuffers :=
             [(mFrameBuffers s ! 0)\<lparr>Fence := 18446744073709551615\<rparr>,
              (mFrameBuffers s ! 1)\<lparr>Fence := 18446744073709551613\<rparr>,
              (mFrameBuffers s ! 2)\<lparr>Fence := 18446744073709551614\<rparr>],
          mCurrentFrameBufferIndex := 1, mCurrentFrameBuffer := Some 1,
          mCurrentFence := 18446744073709551615\<rparr>)"

text \<open>The state \<^verbatim>\<open>Draw\<close> leaves when it runs in that one.\<close>

definition wrap_draw :: PendulumMotion where
  "wrap_draw = snd (snd (the (Draw gt_example wrap_example)))"

section \<open>Pipeline state objects and the output merger\<close>

text \<open>
  The parts of a pipeline state description that \<^verbatim>\<open>PendulumMotion::SetPSOs\<close> (lines 935 to
  1058) sets differently from one pipeline state to the next: the blend state of render target
  0, the depth-stencil state, and the culling and winding of the rasterizer. Shaders, input
  layout, formats and sample description are the same for all five.
\<close>

datatype D3D12_BLEND = BLEND_ZERO | BLEND_ONE | BLEND_SRC_ALPHA | BLEND_INV_SRC_ALPHA

datatype D3D12_BLEND_OP = BLEND_OP_ADD

datatype D3D12_COMPARISON_FUNC =
    COMPARISON_FUNC_NEVER
  | COMPARISON_FUNC_LESS
  | COMPARISON_FUNC_EQUAL
  | COMPARISON_FUNC_LESS_EQUAL
  | COMPARISON_FUNC_GREATER
  | COMPARISON_FUNC_NOT_EQUAL
  | COMPARISON_FUNC_GREATER_EQUAL
  | COMPARISON_FUNC_ALWAYS

datatype D3D12_STENCIL_OP =
    STENCIL_OP_KEEP
  | STENCIL_OP_ZERO
  | STENCIL_OP_REPLACE
  | STENCIL_OP_INCR_SAT
  | STENCIL_OP_DECR_SAT
  | STENCIL_OP_INVERT
  | STENCIL_OP_INCR
  | STENCIL_OP_DECR

datatype D3D12_DEPTH_WRITE_MASK = DEPTH_WRITE_MASK_ZERO | DEPTH_WRITE_MASK_ALL

datatype D3D12_CULL_MODE = CULL_MODE_NONE | CULL_MODE_FRONT | CULL_MODE_BACK

record D3D12_RENDER_TARGET_BLEND_DESC =
  BlendEnable :: bool
  LogicOpEnable :: bool
  SrcBlend :: D3D12_BLEND
  DestBlend :: D3D12_BLEND
  BlendOp :: D3D12_BLEND_OP
  SrcBlendAlpha :: D3D12_BLEND
  DestBlendAlpha :: D3D12_BLEND
  BlendOpAlpha :: D3D12_BLEND_OP
  RenderTargetWriteMask :: "8 word"

record D3D12_DEPTH_STENCILOP_DESC =
  StencilFailOp :: D3D12_STENCIL_OP
  StencilDepthFailOp :: D3D12_STENCIL_OP
  StencilPassOp :: D3D12_STENCIL_OP
  StencilFunc :: D3D12_COMPARISON_FUNC

record D3D12_DEPTH_STENCIL_DESC =
  DepthEnable :: bool
  DepthWriteMask :: D3D12_DEPTH_WRITE_MASK
  DepthFunc :: D3D12_COMPARISON_FUNC
  StencilEnable :: bool
  StencilReadMask :: "8 word"
  StencilWriteMask :: "8 word"
  FrontFace :: D3D12_DEPTH_STENCILOP_DESC
  BackFace :: D3D12_DEPTH_STENCILOP_DESC

record D3D12_GRAPHICS_PIPELINE_STATE_DESC =
  BlendState :: D3D12_RENDER_TARGET_BLEND_DESC
  DepthStencilState :: D3D12_DEPTH_STENCIL_DESC
  CullMode :: D3D12_CULL_MODE
  FrontCounterClockwise :: bool

text \<open>The defaults of the d3dx12 helper structures (\<^verbatim>\<open>D3D12_DEFAULT\<close>).\<close>

definition BLEND_DESC_DEFAULT :: D3D12_RENDER_TARGET_BLEND_DESC where
  "BLEND_DESC_DEFAULT =
     \<lparr>BlendEnable = False, LogicOpEnable = False, SrcBlend = BLEND_ONE, DestBlend = BLEND_ZERO,
      BlendOp = BLEND_OP_ADD, SrcBlendAlpha = BLEND_ONE, DestBlendAlpha = BLEND_ZERO,
      BlendOpAlpha = BLEND_OP_ADD, RenderTargetWriteMask = 15\<rparr>"

definition DEPTH_STENCIL_DESC_DEFAULT :: D3D12_DEPTH_STENCIL_DESC where
  "DEPTH_STENCIL_DESC_DEFAULT =
     (let defaultStencilOp =
        \<lparr>StencilFailOp = STENCIL_OP_KEEP, StencilDepthFailOp = STENCIL_OP_KEEP,
         StencilPassOp = STENCIL_OP_KEEP, StencilFunc = COMPARISON_FUNC_ALWAYS\<rparr>
      in \<lparr>DepthEnable = True, DepthWriteMask = DEPTH_WRITE_MASK_ALL,
          DepthFunc = COMPARISON_FUNC_LESS, StencilEnable = False,
          StencilReadMask = 255, StencilWriteMask = 255,
          FrontFace = defaultStencilOp, BackFace = defaultStencilOp\<rparr>)"

text \<open>\<^verbatim>\<open>PendulumMotion::SetPSOs\<close>: the five descriptions, in the order of the source.\<close>

definition opaquePsoDesc :: D3D12_GRAPHICS_PIPELINE_STATE_DESC where
  "opaquePsoDesc =
     \<lparr>BlendState = BLEND_DESC_DEFAULT, DepthStencilState = DEPTH_STENCIL_DESC_DEFAULT,
      CullMode = CULL_MODE_BACK, FrontCounterClockwise = False\<rparr>"

definition transparencyBlendDesc :: D3D12_RENDER_TARGET_BLEND_DESC where
  "transparencyBlendDesc =
     \<lparr>BlendEnable = True, LogicOpEnable = False, SrcBlend = BLEND_SRC_ALPHA,
      DestBlend = BLEND_INV_SRC_ALPHA, BlendOp = BLEND_OP_ADD, SrcBlendAlpha = BLEND_ONE,
      DestBlendAlpha = BLEND_ZERO, BlendOpAlpha = BLEND_OP_ADD, RenderTargetWriteMask = 15\<rparr>"

definition transparentPsoDesc :: D3D12_GRAPHICS_PIPELINE_STATE_DESC where
  "transparentPsoDesc = opaquePsoDesc\<lparr>BlendState := transparencyBlendDesc\<rparr>"

definition mirrorBlendState :: D3D12_RENDER_TARGET_BLEND_DESC where
  "mirrorBlendState = BLEND_DESC_DEFAULT\<lparr>RenderTargetWriteMask := 0\<rparr>"

definition mirrorDSS :: D3D12_DEPTH_STENCIL_DESC where
  "mirrorDSS =
     \<lparr>DepthEnable = True, DepthWriteMask = DEPTH_WRITE_MASK_ZERO,
      DepthFunc = COMPARISON_FUNC_LESS, StencilEnable = True,
      StencilReadMask = 255, StencilWriteMask = 255,
      FrontFace =
        \<lparr>StencilFailOp = STENCIL_OP_KEEP, StencilDepthFailOp = STENCIL_OP_KEEP,
         StencilPassOp = STENCIL_OP_REPLACE, StencilFunc = COMPARISON_FUNC_ALWAYS\<rparr>,
      BackFace =
        \<lparr>StencilFailOp = STENCIL_OP_KEEP, StencilDepthFailOp = STENCIL_OP_KEEP,
         StencilPassOp = STENCIL_OP_REPLACE, StencilFunc = COMPARISON_FUNC_ALWAYS\<rparr>\<rparr>"

definition mirrorMarkingPsoDesc :: D3D12_GRAPHICS_PIPELINE_STATE_DESC where
  "mirrorMarkingPsoDesc =
     opaquePsoDesc\<lparr>BlendState := mirrorBlendState, DepthStencilState := mirrorDSS\<rparr>"

definition reflectionsDSS :: D3D12_DEPTH_STENCIL_DESC where
  "reflectionsDSS =
     \<lparr>DepthEnable = True, DepthWriteMask = DEPTH_WRITE_MASK_ALL,
      DepthFunc = COMPARISON_FUNC_LESS, StencilEnable = True,
      StencilReadMask = 255, StencilWriteMask = 255,
      FrontFace =
        \<lparr>StencilFailOp = STENCIL_OP_KEEP, StencilDepthFailOp = STENCIL_OP_KEEP,
         StencilPassOp = STENCIL_OP_KEEP, StencilFunc = COMPARISON_FUNC_EQUAL\<rparr>,
      BackFace =
        \<lparr>StencilFailOp = STENCIL_OP_KEEP, StencilDepthFailOp = STENCIL_OP_KEEP,
         StencilPassOp = STENCIL_OP_KEEP, StencilFunc = COMPARISON_FUNC_EQUAL\<rparr>\<rparr>"

definition drawReflectionsPsoDesc :: D3D12_GRAPHICS_PIPELINE_STATE_DESC where
  "drawReflectionsPsoDesc =
     opaquePsoDesc\<lparr>DepthStencilState := reflectionsDSS, CullMode := CULL_MODE_BACK,
                   FrontCounterClockwise := True\<rparr>"

definition shadowDSS :: D3D12_DEPTH_STENCIL_DESC where
  "shadowDSS =
     \<lparr>DepthEnable = True, DepthWriteMask = DEPTH_WRITE_MASK_ALL,
      DepthFunc = COMPARISON_FUNC_LESS, StencilEnable = True,
      StencilReadMask = 255, StencilWriteMask = 255,
      FrontFace =
        \<lparr>StencilFailOp = STENCIL_OP_KEEP, StencilDepthFailOp = STENCIL_OP_KEEP,
         StencilPassOp = STENCIL_OP_INCR, StencilFunc = COMPARISON_FUNC_EQUAL\<rparr>,
      BackFace =
        \<lparr>StencilFailOp = STENCIL_OP_KEEP, StencilDepthFailOp = STENCIL_OP_KEEP,
         StencilPassOp = STENCIL_OP_INCR, StencilFunc = COMPARISON_FUNC_EQUAL\<rparr>\<rparr>"

definition shadowPsoDesc :: D3D12_GRAPHICS_PIPELINE_STATE_DESC where
  "shadowPsoDesc = transparentPsoDesc\<lparr>DepthStencilState := shadowDSS\<rparr>"

definition mPSOs :: "(string \<times> D3D12_GRAPHICS_PIPELINE_STATE_DESC) list" where
  "mPSOs =
     [(''opaque'', opaquePsoDesc),
      (''transparent'', transparentPsoDesc),
      (''markStencilMirror'', mirrorMarkingPsoDesc),
      (''drawStencilReflections'', drawReflectionsPsoDesc),
      (''shadow'', shadowPsoDesc)]"

text \<open>
  The output merger of Direct3D, for one pixel and one fragment that covers it. The stencil
  test compares the masked reference with the masked stencil value of the pixel; a fragment that
  fails it is dropped and the stencil-fail operation applies. A fragment that passes it takes
  the depth test against the depth stored for the pixel; if it fails, it is dropped and the
  depth-fail operation applies; if it passes, the pass operation applies, the depth is written
  when depth writes are on, and the fragment's colour is merged into the render target when the
  colour write mask is not empty. The pixel counts the fragments merged into its colour.
\<close>

record Fragment =
  fr_depth :: real
  fr_frontFacing :: bool

record Pixel =
  px_stencil :: "8 word"
  px_depth :: real
  px_blends :: nat

fun CompareFunc :: "D3D12_COMPARISON_FUNC \<Rightarrow> 'a::linorder \<Rightarrow> 'a \<Rightarrow> bool" where
  "CompareFunc COMPARISON_FUNC_NEVER src dst = False"
| "CompareFunc COMPARISON_FUNC_LESS src dst = (src < dst)"
| "CompareFunc COMPARISON_FUNC_EQUAL src dst = (src = dst)"
| "CompareFunc COMPARISON_FUNC_LESS_EQUAL src dst = (src \<le> dst)"
| "CompareFunc COMPARISON_FUNC_GREATER src dst = (src > dst)"
| "CompareFunc COMPARISON_FUNC_NOT_EQUAL src dst = (src \<noteq> dst)"
| "CompareFunc COMPARISON_FUNC_GREATER_EQUAL src dst = (src \<ge> dst)"
| "CompareFunc COMPARISON_FUNC_ALWAYS src dst = True"

fun StencilOp :: "D3D12_STENCIL_OP \<Rightarrow> 8 word \<Rightarrow> 8 word \<Rightarrow> 8 word" where
  "StencilOp STENCIL_OP_KEEP ref old = old"
| "StencilOp STENCIL_OP_ZERO ref old = 0"
| "StencilOp STENCIL_OP_REPLACE ref old = ref"
| "StencilOp STENCIL_OP_INCR_SAT ref old = (if old = 255 then 255 else old + 1)"
| "StencilOp STENCIL_OP_DECR_SAT ref old = (if old = 0 then 0 else old - 1)"
| "StencilOp STENCIL_OP_INVERT ref old = NOT old"
| "StencilOp STENCIL_OP_INCR ref old = old + 1"
| "StencilOp STENCIL_OP_DECR ref old = old - 1"

definition OutputMerger ::
  "D3D12_GRAPHICS_PIPELINE_STATE_DESC \<Rightarrow> 8 word \<Rightarrow> Fragment \<Rightarrow> Pixel \<Rightarrow> Pixel" where
  "OutputMerger pso ref f p =
     (let dss = DepthStencilState pso;
          face = (if fr_frontFacing f then FrontFace dss else BackFace dss);
          stencilPass =
            (if StencilEnable dss
             then CompareFunc (StencilFunc face) (ref AND StencilReadMask dss)
                    (px_stencil p AND StencilReadMask dss)
             else True);
          depthPass =
            (if DepthEnable dss then CompareFunc (DepthFunc dss) (fr_depth f) (px_depth p)
             else True);
          op = (if \<not> stencilPass then StencilFailOp face
                else if \<not> depthPass then StencilDepthFailOp face
                else StencilPassOp face);
          stencil =
            (if StencilEnable dss
             then (px_stencil p AND NOT (StencilWriteMask dss))
                  OR (StencilOp op ref (px_stencil p) AND StencilWriteMask dss)
             else px_stencil p);
          p1 = p\<lparr>px_stencil := stencil\<rparr>
      in if stencilPass \<and> depthPass
         then p1\<lparr>px_depth :=
                    (if DepthEnable dss \<and> DepthWriteMask dss = DEPTH_WRITE_MASK_ALL
                     then fr_depth f else px_depth p1),
                  px_blends :=
                    (if RenderTargetWriteMask (BlendState pso) \<noteq> 0 then px_blends p1 + 1
                     else px_blends p1)\<rparr>
         else p1)"

text \<open>
  The shadow pass over one pixel: the fragments of the shadow layer's triangles that cover the
  pixel, in drawing order, merged under the \<open>shadow\<close> pipeline state with stencil reference 0
  (the reference \<^verbatim>\<open>Draw\<close> has set when the pass runs).
\<close>

definition ShadowPass :: "Fragment list \<Rightarrow> Pixel \<Rightarrow> Pixel" where
  "ShadowPass fs p = fold (OutputMerger shadowPsoDesc 0) fs p"

text \<open>
  The mirror image across the xy-plane, the mirror's plane, of a position or a direction, and a
  light whose direction is mirrored (in the words of the spec, section 3).
\<close>

definition mirror_xy :: "XMFLOAT3 \<Rightarrow> XMFLOAT3" where
  "mirror_xy v = (case v of (x, y, z) \<Rightarrow> (x, y, - z))"

definition mirrorLight :: "Light \<Rightarrow> Light" where
  "mirrorLight l = l\<lparr>Direction := mirror_xy (Direction l)\<rparr>"

text \<open>The state after the first \<^verbatim>\<open>Update\<close> that follows start-up.\<close>

definition first_update :: PendulumMotion where
  "first_update =
     snd (snd (the (Update gpu_example 0 gt_example (Initialize PendulumMotion_new))))"

text \<open>
  The \<^verbatim>\<open>CopyData\<close> calls that the loop of \<^verbatim>\<open>UpdateObjectCBs\<close> makes for a list of items and
  that the loop of \<^verbatim>\<open>UpdateMaterialCBs\<close> makes for a list of materials, in order; and making
  a list of such calls on a buffer.
\<close>

definition UpdateObjectCBs_calls :: "RenderItem list \<Rightarrow> (nat \<times> ObjectConstants) list" where
  "UpdateObjectCBs_calls items =
     map (\<lambda>elem. (ObjCBIndex elem, objConstants elem))
       (filter (\<lambda>elem. numFrameBufferFill elem > 0) items)"

definition UpdateMaterialCBs_calls :: "(string \<times> Material) list \<Rightarrow> (nat \<times> MaterialConstants) list" where
  "UpdateMaterialCBs_calls mats =
     map (\<lambda>(name, mat). (MatCBIndex mat, matConstants mat))
       (filter (\<lambda>(name, mat). NumFramesDirty mat > 0) mats)"

fun CopyData_all :: "(nat \<times> 'a) list \<Rightarrow> 'a option list \<Rightarrow> 'a option list option" where
  "CopyData_all [] buf = Some buf"
| "CopyData_all ((i, d) # calls) buf =
     (case CopyData i d buf of None \<Rightarrow> None | Some buf' \<Rightarrow> CopyData_all calls buf')"

text \<open>
  The application loop: \<open>n\<close> ticks one after the other, from time \<open>t\<close> and state \<open>s\<close>.
\<close>

fun Ticks ::
  "(nat \<Rightarrow> UINT64) \<Rightarrow> GameTimer \<Rightarrow> nat \<Rightarrow> nat \<times> PendulumMotion \<Rightarrow> (nat \<times> PendulumMotion) option" where
  "Ticks gpu gt 0 ts = Some ts"
| "Ticks gpu gt (Suc n) (t, s) =
     (case Tick gpu t gt s of
        None \<Rightarrow> None
      | Some (t', evs, cmds, s') \<Rightarrow> Ticks gpu gt n (t', s'))"

text \<open>
  The time and state after the first three ticks that follow start-up, and the state after the
  \<^verbatim>\<open>Update\<close> of the fourth tick.
\<close>

definition after_three_ticks :: "nat \<times> PendulumMotion" where
  "after_three_ticks = the (Ticks gpu_example gt_example 3 (0, Initialize PendulumMotion_new))"

definition fourth_update :: PendulumMotion where
  "fourth_update =
     snd (snd (the (Update gpu_example (fst after_three_ticks) gt_example (snd after_three_ticks))))"

section \<open>Properties of the equation of motion\<close>

lemma sqrt3_bounds: "1.73205 < sqrt 3" "sqrt 3 < 1.73206"
proof -
  have "(1.73205::real)\<^sup>2 < 3" by (simp add: power2_eq_square)
  then show "1.73205 < sqrt 3" by (rule real_less_rsqrt)
  have "(3::real) < (1.73206)\<^sup>2" by (simp add: power2_eq_square)
  then show "sqrt 3 < 1.73206" by (intro real_less_lsqrt) simp_all
qed

text \<open>
  What one call does to the pendulum and to the status flag, in closed form: the angle the
  integration starts from is the pending value converted to radians when the flag is set, and
  the current angle otherwise; the angular speed it starts from is 0 or the current one.
\<close>

lemma EulerUpdate_mSimplePend:
  "mSimplePend (EulerUpdate dt s) =
     (let th0 = (if mStatusChange s then inheritValue1 s * pi / 180 else theta (mSimplePend s));
          om0 = (if mStatusChange s then 0 else omega (mSimplePend s));
          om1 = om0 - dt * (gravConst / wLength (mSimplePend s)) * sin th0
      in (mSimplePend s)\<lparr>omega := om1, theta := th0 + dt * om1\<rparr>)"
  by (simp add: EulerUpdate_def Let_def MathHelper_Pi_def)

lemma EulerUpdate_mStatusChange: "mStatusChange (EulerUpdate dt s) = False"
  by (simp add: EulerUpdate_def Let_def)

text \<open>
  C5 (as the spec states it, refuted). One update with \<open>dt = 0.01\<close> from angle \<open>\<pi>/3\<close>,
  angular speed 0 and wire length 3 does not give an angular speed near \<open>-0.0849\<close>: the
  result is farther than 0.05 from that value. The figure of the spec is
  \<open>0.01 * 9.8 * sin (\<pi>/3)\<close>, without the division by the wire length.
\<close>

theorem C5_EulerUpdate_speed_counterexample:
  "\<not> \<bar>omega (mSimplePend (EulerUpdate 0.01
         ((Initialize PendulumMotion_new)
            \<lparr>mSimplePend := (mSimplePend (Initialize PendulumMotion_new))\<lparr>theta := pi / 3\<rparr>\<rparr>)))
       - (- 0.0849)\<bar> < 0.05"
proof -
  have "sqrt 3 < 1.73206" by (rule sqrt3_bounds)
  then show ?thesis
    by (simp add: EulerUpdate_mSimplePend Let_def Initialize_def SetFrameBuffers_def
        SetRenderingItems_def SetMaterials_def PendulumMotion_new_def gravConst_def sin_60)
qed

text \<open>
  C5 (amended). For every state whose pendulum is at angle \<open>\<pi>/3\<close> with angular speed 0 and
  wire length 3, and whose status flag is clear, one update with \<open>dt = 0.01\<close> gives the
  angular speed \<open>-0.01 * (9.8 / 3) * sin (\<pi>/3)\<close>, which lies between \<open>-0.02830\<close> and
  \<open>-0.02829\<close>, and the angle \<open>\<pi>/3 + 0.01 * speed\<close> (the already updated speed), which lies
  between \<open>\<pi>/3 - 0.000283\<close> and \<open>\<pi>/3 - 0.000282\<close>.
\<close>

theorem C5_EulerUpdate_one_step:
  assumes "theta (mSimplePend s) = pi / 3" and "omega (mSimplePend s) = 0"
    and "wLength (mSimplePend s) = 3" and "\<not> mStatusChange s"
  shows "omega (mSimplePend (EulerUpdate 0.01 s)) = - 0.01 * (9.8 / 3) * sin (pi / 3)
       \<and> theta (mSimplePend (EulerUpdate 0.01 s))
           = pi / 3 + 0.01 * omega (mSimplePend (EulerUpdate 0.01 s))
       \<and> - 0.02830 < omega (mSimplePend (EulerUpdate 0.01 s))
       \<and> omega (mSimplePend (EulerUpdate 0.01 s)) < - 0.02829
       \<and> pi / 3 - 0.000283 < theta (mSimplePend (EulerUpdate 0.01 s))
       \<and> theta (mSimplePend (EulerUpdate 0.01 s)) < pi / 3 - 0.000282"
proof -
  have b: "1.73205 < sqrt 3" "sqrt 3 < 1.73206" by (rule sqrt3_bounds)+
  have om: "omega (mSimplePend (EulerUpdate 0.01 s)) = - 0.01 * (9.8 / 3) * sin (pi / 3)"
    by (simp add: EulerUpdate_mSimplePend Let_def gravConst_def assms)
  have th: "theta (mSimplePend (EulerUpdate 0.01 s))
      = pi / 3 + 0.01 * omega (mSimplePend (EulerUpdate 0.01 s))"
    by (simp add: EulerUpdate_mSimplePend Let_def gravConst_def assms)
  have v: "- 0.01 * (9.8 / 3) * sin (pi / 3) = - (49 * sqrt 3 / 3000)"
    by (simp add: sin_60)
  from b have lo: "- 0.02830 < - (49 * sqrt 3 / 3000)" and hi: "- (49 * sqrt 3 / 3000) < - 0.02829"
    by simp_all
  show ?thesis
    unfolding th unfolding om v using lo hi by simp
qed

theorem C5_EulerUpdate_one_step_witness:
  "omega (mSimplePend (EulerUpdate 0.01
       ((Initialize PendulumMotion_new)
          \<lparr>mSimplePend := (mSimplePend (Initialize PendulumMotion_new))\<lparr>theta := pi / 3\<rparr>\<rparr>)))
     < - 0.02829"
proof -
  let ?s = "(Initialize PendulumMotion_new)
          \<lparr>mSimplePend := (mSimplePend (Initialize PendulumMotion_new))\<lparr>theta := pi / 3\<rparr>\<rparr>"
  have "theta (mSimplePend ?s) = pi / 3" by simp
  moreover have "omega (mSimplePend ?s) = 0"
    by (simp add: Initialize_def SetFrameBuffers_def SetRenderingItems_def SetMaterials_def
        PendulumMotion_new_def)
  moreover have "wLength (mSimplePend ?s) = 3"
    by (simp add: Initialize_def SetFrameBuffers_def SetRenderingItems_def SetMaterials_def
        PendulumMotion_new_def)
  moreover have "\<not> mStatusChange ?s"
    by (simp add: Initialize_def SetFrameBuffers_def SetRenderingItems_def SetMaterials_def
        PendulumMotion_new_def)
  ultimately show ?thesis
    using C5_EulerUpdate_one_step [of ?s] by blast
qed

text \<open>
  C10. When the status flag is set, one call of the Euler update starts from the pending value
  read as degrees and converted to radians, \<open>th0 = pending * \<pi> / 180\<close>, and from angular speed
  0, clears the flag, and still integrates once in the same call: the speed after the call is
  \<open>0 - dt * (g / L) * sin th0\<close> and the angle after the call is \<open>th0 + dt * speed\<close>, that is
  \<open>th0 - dt * dt * (g / L) * sin th0\<close>, not \<open>th0\<close>. The pending value is used once: the flag
  is clear after the call, and a further call integrates from the pendulum's own angle and
  speed.
\<close>

theorem C10_EulerUpdate_override:
  assumes "mStatusChange s"
  shows "omega (mSimplePend (EulerUpdate dt s))
           = 0 - dt * (gravConst / wLength (mSimplePend s)) * sin (inheritValue1 s * pi / 180)
       \<and> theta (mSimplePend (EulerUpdate dt s))
           = inheritValue1 s * pi / 180 + dt * omega (mSimplePend (EulerUpdate dt s))
       \<and> theta (mSimplePend (EulerUpdate dt s))
           = inheritValue1 s * pi / 180
             - dt * dt * (gravConst / wLength (mSimplePend s)) * sin (inheritValue1 s * pi / 180)
       \<and> mStatusChange (EulerUpdate dt s) = False
       \<and> inheritValue1 (EulerUpdate dt s) = inheritValue1 s
       \<and> omega (mSimplePend (EulerUpdate dt' (EulerUpdate dt s)))
           = omega (mSimplePend (EulerUpdate dt s))
             - dt' * (gravConst / wLength (mSimplePend s)) * sin (theta (mSimplePend (EulerUpdate dt s)))
       \<and> theta (mSimplePend (EulerUpdate dt' (EulerUpdate dt s)))
           = theta (mSimplePend (EulerUpdate dt s))
             + dt' * omega (mSimplePend (EulerUpdate dt' (EulerUpdate dt s)))"
proof -
  have inh: "inheritValue1 (EulerUpdate dt s) = inheritValue1 s"
    by (simp add: EulerUpdate_def Let_def)
  have len: "wLength (mSimplePend (EulerUpdate dt s)) = wLength (mSimplePend s)"
    by (simp add: EulerUpdate_mSimplePend Let_def)
  have first: "mSimplePend (EulerUpdate dt s) =
      (mSimplePend s)\<lparr>omega := 0 - dt * (gravConst / wLength (mSimplePend s))
                                   * sin (inheritValue1 s * pi / 180),
                      theta := inheritValue1 s * pi / 180
                        + dt * (0 - dt * (gravConst / wLength (mSimplePend s))
                                     * sin (inheritValue1 s * pi / 180))\<rparr>"
    using assms by (simp add: EulerUpdate_mSimplePend Let_def)
  have second: "mSimplePend (EulerUpdate dt' (EulerUpdate dt s)) =
      (mSimplePend (EulerUpdate dt s))
        \<lparr>omega := omega (mSimplePend (EulerUpdate dt s))
                   - dt' * (gravConst / wLength (mSimplePend s))
                     * sin (theta (mSimplePend (EulerUpdate dt s))),
         theta := theta (mSimplePend (EulerUpdate dt s))
                   + dt' * (omega (mSimplePend (EulerUpdate dt s))
                     - dt' * (gravConst / wLength (mSimplePend s))
                       * sin (theta (mSimplePend (EulerUpdate dt s))))\<rparr>"
    by (simp add: EulerUpdate_mSimplePend [of dt' "EulerUpdate dt s"] Let_def
        EulerUpdate_mStatusChange len)
  show ?thesis
    unfolding second unfolding first by (simp add: EulerUpdate_mStatusChange inh algebra_simps)
qed

theorem C10_EulerUpdate_override_witness:
  "theta (mSimplePend (EulerUpdate 0.1
      ((Initialize PendulumMotion_new)\<lparr>mStatusChange := True, inheritValue1 := 90\<rparr>)))
     = pi / 2 - 49 / 1500
   \<and> mStatusChange (EulerUpdate 0.1
      ((Initialize PendulumMotion_new)\<lparr>mStatusChange := True, inheritValue1 := 90\<rparr>)) = False"
proof -
  let ?s = "(Initialize PendulumMotion_new)\<lparr>mStatusChange := True, inheritValue1 := 90\<rparr>"
  have f: "mStatusChange ?s" by simp
  have l: "wLength (mSimplePend ?s) = 3"
    by (simp add: Initialize_def SetFrameBuffers_def SetRenderingItems_def SetMaterials_def
        PendulumMotion_new_def)
  have i: "inheritValue1 ?s = 90" by simp
  show ?thesis
    using C10_EulerUpdate_override [OF f, of "0.1" "0.1"] unfolding l i
    by (simp add: gravConst_def)
qed

section \<open>Properties of the mouse handler\<close>

lemma Clamp_bounds: "low \<le> high \<Longrightarrow> low \<le> Clamp x low high \<and> Clamp x low high \<le> high"
  by (simp add: Clamp_def)

lemma Clamp_pinned_high: "low \<le> high \<Longrightarrow> high \<le> x \<Longrightarrow> Clamp x low high = high"
  by (simp add: Clamp_def)

lemma Clamp_pinned_low: "low \<le> high \<Longrightarrow> x \<le> low \<Longrightarrow> Clamp x low high = low"
  by (auto simp add: Clamp_def)

lemma OnMouseMove_returns:
  "mLastMousePos s \<noteq> None \<or> ((btnState AND MK_LBUTTON) = 0 \<and> (btnState AND MK_RBUTTON) = 0)
     \<Longrightarrow> OnMouseMove btnState x y s \<noteq> None"
  by (auto simp add: OnMouseMove_def Let_def split: option.splits)

lemma OnMouseMove_mPhi:
  assumes "OnMouseMove btnState x y s = Some s'"
  shows "mPhi s' =
     (if (btnState AND MK_LBUTTON) \<noteq> 0
      then Clamp (mPhi s + real_of_int (sint (y - snd (the (mLastMousePos s)))) * 0.25 * (pi / 180))
             (pi / 6) (pi / 2 - 0.1)
      else mPhi s)"
  using assms
  by (auto simp add: OnMouseMove_def Let_def XMConvertToRadians_def MathHelper_Pi_def mult.commute
      split: if_splits option.splits)

lemma OnMouseMove_mRadius:
  assumes "OnMouseMove btnState x y s = Some s'"
  shows "mRadius s' =
     (if (btnState AND MK_LBUTTON) \<noteq> 0 then mRadius s
      else if (btnState AND MK_RBUTTON) \<noteq> 0
      then Clamp (mRadius s + (0.2 * real_of_int (sint (x - fst (the (mLastMousePos s))))
                              - 0.2 * real_of_int (sint (y - snd (the (mLastMousePos s)))))) 15 50
      else mRadius s)"
  using assms
  by (auto simp add: OnMouseMove_def Let_def split: if_splits option.splits)

lemma polar_bounds_ordered: "pi / 6 \<le> pi / 2 - 0.1"
proof -
  have "2 \<le> pi" by (rule pi_ge_two)
  then show ?thesis by simp
qed

lemma LONG_difference:
  fixes a b :: LONG
  assumes "- 2147483648 \<le> sint a - sint b" and "sint a - sint b \<le> 2147483647"
  shows "sint (a - b) = sint a - sint b"
proof -
  have "sint (a - b) = signed_take_bit 31 (sint a - sint b)"
    by (simp add: sint_word_ariths)
  also have "\<dots> = sint a - sint b"
    using assms by (simp add: signed_take_bit_int_eq_self)
  finally show ?thesis .
qed

text \<open>
  C7. Whenever the handler returns, \<open>s'\<close> being the state it leaves: after a move with the left
  button down, the polar angle lies in \<open>[\<pi>/6, \<pi>/2 - 0.1]\<close>; after a move with the right
  button (and not the left) down, the radius lies in \<open>[15, 50]\<close>. A drag that would carry the
  value to or past a bound leaves it equal to that bound, the dragged distance being the 32-bit
  difference between the pointer position and the recorded one, \<open>(lx, ly)\<close>, as the handler
  computes it; that is the difference of the two coordinates whenever this fits in 32 bits.
  Whatever the buttons, a polar angle and a radius that are inside their bounds before the call
  are inside them after it. The handler returns whenever a position has been recorded, or
  neither of the two buttons is down.
\<close>

theorem C7_OnMouseMove_clamps:
  "(OnMouseMove btnState x y s = Some s' \<longrightarrow>
      ((btnState AND MK_LBUTTON) \<noteq> 0 \<longrightarrow>
          pi / 6 \<le> mPhi s' \<and> mPhi s' \<le> pi / 2 - 0.1
        \<and> (mLastMousePos s = Some (lx, ly)
             \<and> pi / 2 - 0.1 \<le> mPhi s + real_of_int (sint (y - ly)) * 0.25 * (pi / 180)
             \<longrightarrow> mPhi s' = pi / 2 - 0.1)
        \<and> (mLastMousePos s = Some (lx, ly)
             \<and> mPhi s + real_of_int (sint (y - ly)) * 0.25 * (pi / 180) \<le> pi / 6
             \<longrightarrow> mPhi s' = pi / 6))
    \<and> ((btnState AND MK_LBUTTON) = 0 \<and> (btnState AND MK_RBUTTON) \<noteq> 0 \<longrightarrow>
          15 \<le> mRadius s' \<and> mRadius s' \<le> 50
        \<and> (mLastMousePos s = Some (lx, ly)
             \<and> 50 \<le> mRadius s + (0.2 * real_of_int (sint (x - lx))
                                   - 0.2 * real_of_int (sint (y - ly)))
             \<longrightarrow> mRadius s' = 50)
        \<and> (mLastMousePos s = Some (lx, ly)
             \<and> mRadius s + (0.2 * real_of_int (sint (x - lx))
                             - 0.2 * real_of_int (sint (y - ly))) \<le> 15
             \<longrightarrow> mRadius s' = 15))
    \<and> (pi / 6 \<le> mPhi s \<and> mPhi s \<le> pi / 2 - 0.1 \<longrightarrow>
          pi / 6 \<le> mPhi s' \<and> mPhi s' \<le> pi / 2 - 0.1)
    \<and> (15 \<le> mRadius s \<and> mRadius s \<le> 50 \<longrightarrow> 15 \<le> mRadius s' \<and> mRadius s' \<le> 50)
    \<and> mLastMousePos s' = Some (x, y))
   \<and> (- 2147483648 \<le> sint x - sint lx \<and> sint x - sint lx \<le> 2147483647
        \<longrightarrow> sint (x - lx) = sint x - sint lx)
   \<and> (- 2147483648 \<le> sint y - sint ly \<and> sint y - sint ly \<le> 2147483647
        \<longrightarrow> sint (y - ly) = sint y - sint ly)
   \<and> (mLastMousePos s \<noteq> None \<or> ((btnState AND MK_LBUTTON) = 0 \<and> (btnState AND MK_RBUTTON) = 0)
        \<longrightarrow> OnMouseMove btnState x y s \<noteq> None)"
proof -
  note po = polar_bounds_ordered
  have ro: "(15::real) \<le> 50" by simp
  have last: "mLastMousePos s' = Some (x, y)" if "OnMouseMove btnState x y s = Some s'"
    using that by (auto simp add: OnMouseMove_def Let_def split: if_splits option.splits)
  have main: "((btnState AND MK_LBUTTON) \<noteq> 0 \<longrightarrow>
          pi / 6 \<le> mPhi s' \<and> mPhi s' \<le> pi / 2 - 0.1
        \<and> (mLastMousePos s = Some (lx, ly)
             \<and> pi / 2 - 0.1 \<le> mPhi s + real_of_int (sint (y - ly)) * 0.25 * (pi / 180)
             \<longrightarrow> mPhi s' = pi / 2 - 0.1)
        \<and> (mLastMousePos s = Some (lx, ly)
             \<and> mPhi s + real_of_int (sint (y - ly)) * 0.25 * (pi / 180) \<le> pi / 6
             \<longrightarrow> mPhi s' = pi / 6))
    \<and> ((btnState AND MK_LBUTTON) = 0 \<and> (btnState AND MK_RBUTTON) \<noteq> 0 \<longrightarrow>
          15 \<le> mRadius s' \<and> mRadius s' \<le> 50
        \<and> (mLastMousePos s = Some (lx, ly)
             \<and> 50 \<le> mRadius s + (0.2 * real_of_int (sint (x - lx))
                                   - 0.2 * real_of_int (sint (y - ly)))
             \<longrightarrow> mRadius s' = 50)
        \<and> (mLastMousePos s = Some (lx, ly)
             \<and> mRadius s + (0.2 * real_of_int (sint (x - lx))
                             - 0.2 * real_of_int (sint (y - ly))) \<le> 15
             \<longrightarrow> mRadius s' = 15))
    \<and> (pi / 6 \<le> mPhi s \<and> mPhi s \<le> pi / 2 - 0.1 \<longrightarrow>
          pi / 6 \<le> mPhi s' \<and> mPhi s' \<le> pi / 2 - 0.1)
    \<and> (15 \<le> mRadius s \<and> mRadius s \<le> 50 \<longrightarrow> 15 \<le> mRadius s' \<and> mRadius s' \<le> 50)"
    if r: "OnMouseMove btnState x y s = Some s'"
    unfolding OnMouseMove_mPhi [OF r] OnMouseMove_mRadius [OF r]
    using Clamp_bounds [OF po] Clamp_pinned_high [OF po] Clamp_pinned_low [OF po]
      Clamp_bounds [OF ro] Clamp_pinned_high [OF ro] Clamp_pinned_low [OF ro]
    by auto
  show ?thesis
    using main last LONG_difference [of x lx] LONG_difference [of y ly]
      OnMouseMove_returns [of s btnState x y]
    by blast
qed

theorem C7_OnMouseMove_clamps_witness:
  "map_option mPhi (OnMouseMove 1 10000 10000 (OnMouseDown 1 0 0 (Initialize PendulumMotion_new)))
     = Some (pi / 2 - 0.1)
   \<and> map_option mRadius (OnMouseMove 2 1000 0 (OnMouseDown 2 0 0 (Initialize PendulumMotion_new)))
     = Some 50"
proof -
  let ?l = "OnMouseDown 1 0 0 (Initialize PendulumMotion_new)"
  let ?r = "OnMouseDown 2 0 0 (Initialize PendulumMotion_new)"
  have l: "((1::64 word) AND MK_LBUTTON) \<noteq> 0" by (simp add: MK_LBUTTON_def)
  have r: "((2::64 word) AND MK_LBUTTON) = 0 \<and> ((2::64 word) AND MK_RBUTTON) \<noteq> 0"
    by (simp add: MK_LBUTTON_def MK_RBUTTON_def)
  have st: "mPhi ?l = 0.4 * pi" "mRadius ?r = 20"
    "mLastMousePos ?l = Some (0, 0)" "mLastMousePos ?r = Some (0, 0)"
    by (simp_all add: OnMouseDown_def Initialize_def SetFrameBuffers_def SetRenderingItems_def
        SetMaterials_def PendulumMotion_new_def)
  have d: "sint (10000 - 0 :: LONG) = 10000" "sint (1000 - 0 :: LONG) = 1000"
    "sint (0 - 0 :: LONG) = 0"
    by simp_all
  have "2 \<le> pi" by (rule pi_ge_two)
  then have up: "pi / 2 - 0.1 \<le> mPhi ?l + real_of_int (sint (10000 - 0 :: LONG)) * 0.25 * (pi / 180)"
    unfolding st d by simp
  have out: "50 \<le> mRadius ?r + (0.2 * real_of_int (sint (1000 - 0 :: LONG))
                            - 0.2 * real_of_int (sint (0 - 0 :: LONG)))"
    unfolding st d by simp
  from C7_OnMouseMove_clamps [of 1 10000 10000 ?l _ 0 0] st(3)
  obtain sl where sl: "OnMouseMove 1 10000 10000 ?l = Some sl" by fastforce
  from C7_OnMouseMove_clamps [of 2 1000 0 ?r _ 0 0] st(4)
  obtain sr where sr: "OnMouseMove 2 1000 0 ?r = Some sr" by fastforce
  from C7_OnMouseMove_clamps [of 1 10000 10000 ?l sl 0 0] sl l up st(3)
  have a: "mPhi sl = pi / 2 - 0.1" by blast
  from C7_OnMouseMove_clamps [of 2 1000 0 ?r sr 0 0] sr r out st(4)
  have b: "mRadius sr = 50" by blast
  from a b sl sr show ?thesis by simp
qed

section \<open>The fence gate\<close>

text \<open>
  The wait returns only at a time at which the fence has reached the awaited value, and it does
  return when there is such a time.
\<close>

lemma WaitForSingleObject_sound:
  assumes "WaitForSingleObject gpu v t = Some t'"
  shows "v \<le> gpu t' \<and> t \<le> t'"
proof (rule WaitForSingleObject.raw_induct
    [where P = "\<lambda>gpu v t t'. v \<le> gpu t' \<and> t \<le> t'", OF _ assms])
  fix W :: "(nat \<Rightarrow> UINT64) \<Rightarrow> UINT64 \<Rightarrow> nat \<Rightarrow> nat option" and gpu v t t'
  assume IH: "\<And>gpu v t t'. W gpu v t = Some t' \<Longrightarrow> v \<le> gpu t' \<and> t \<le> t'"
    and step: "(if v \<le> gpu t then Some t else W gpu v (Suc t)) = Some t'"
  show "v \<le> gpu t' \<and> t \<le> t'"
  proof (cases "v \<le> gpu t")
    case True
    with step show ?thesis by simp
  next
    case False
    with step have "W gpu v (Suc t) = Some t'" by simp
    from IH [OF this] show ?thesis by simp
  qed
qed

lemma WaitForSingleObject_first:
  assumes "WaitForSingleObject gpu v t = Some t'"
  shows "\<forall>u. t \<le> u \<and> u < t' \<longrightarrow> \<not> v \<le> gpu u"
proof (rule WaitForSingleObject.raw_induct
    [where P = "\<lambda>gpu v t t'. \<forall>u. t \<le> u \<and> u < t' \<longrightarrow> \<not> v \<le> gpu u", OF _ assms])
  fix W :: "(nat \<Rightarrow> UINT64) \<Rightarrow> UINT64 \<Rightarrow> nat \<Rightarrow> nat option" and gpu v t t'
  assume IH: "\<And>gpu v t t'. W gpu v t = Some t' \<Longrightarrow> \<forall>u. t \<le> u \<and> u < t' \<longrightarrow> \<not> v \<le> gpu u"
    and step: "(if v \<le> gpu t then Some t else W gpu v (Suc t)) = Some t'"
  show "\<forall>u. t \<le> u \<and> u < t' \<longrightarrow> \<not> v \<le> gpu u"
  proof (cases "v \<le> gpu t")
    case True
    with step show ?thesis by auto
  next
    case False
    with step have "W gpu v (Suc t) = Some t'" by simp
    from IH [OF this] have r: "\<forall>u. Suc t \<le> u \<and> u < t' \<longrightarrow> \<not> v \<le> gpu u" .
    show ?thesis
    proof (intro allI impI)
      fix u assume u: "t \<le> u \<and> u < t'"
      show "\<not> v \<le> gpu u"
      proof (cases "u = t")
        case True
        with False show ?thesis by simp
      next
        case False
        with u have "Suc t \<le> u \<and> u < t'" by simp
        with r show ?thesis by blast
      qed
    qed
  qed
qed

lemma WaitForSingleObject_returns_aux:
  "v \<le> gpu (t + d) \<Longrightarrow> \<exists>t'. WaitForSingleObject gpu v t = Some t' \<and> t' \<le> t + d"
proof (induction d arbitrary: t)
  case 0
  then show ?case by (subst WaitForSingleObject.simps) simp
next
  case (Suc d)
  show ?case
  proof (cases "v \<le> gpu t")
    case True
    then show ?thesis by (subst WaitForSingleObject.simps) simp
  next
    case False
    from Suc(2) have "v \<le> gpu (Suc t + d)" by simp
    from Suc(1) [OF this] obtain t' where "WaitForSingleObject gpu v (Suc t) = Some t'" "t' \<le> Suc t + d"
      by blast
    with False show ?thesis by (subst WaitForSingleObject.simps) simp
  qed
qed


lemma WaitForSingleObject_returns:
  assumes "t \<le> u" and "v \<le> gpu u"
  shows "\<exists>t'. WaitForSingleObject gpu v t = Some t' \<and> t' \<le> u"
  using WaitForSingleObject_returns_aux [of v gpu t "u - t"] assms by simp

lemma map_update_same:
  "(\<And>x. f (g x) = f x) \<Longrightarrow> map f (xs[p := g (xs ! p)]) = map f xs"
proof (cases "p < length xs")
  case True
  assume "\<And>x. f (g x) = f x"
  with True show ?thesis by (simp add: map_update list_update_same_conv)
next
  case False
  then have "length xs \<le> p" by simp
  then show ?thesis by (simp add: list_update_beyond)
qed

lemma map_StoreWorld [simp]:
  "map ObjCBIndex (StoreWorld p m xs) = map ObjCBIndex xs"
  "map Mat (StoreWorld p m xs) = map Mat xs"
  "map Geo (StoreWorld p m xs) = map Geo xs"
  "map DrawArgs (StoreWorld p m xs) = map DrawArgs xs"
  "map numFrameBufferFill (StoreWorld p m xs) = map numFrameBufferFill xs"
  "map TexTransform (StoreWorld p m xs) = map TexTransform xs"
  "length (StoreWorld p m xs) = length xs"
  unfolding StoreWorld_def by (simp_all add: map_update_same)

lemma map_StoreFill [simp]:
  "map ObjCBIndex (StoreFill p n xs) = map ObjCBIndex xs"
  "map Mat (StoreFill p n xs) = map Mat xs"
  "map Geo (StoreFill p n xs) = map Geo xs"
  "map DrawArgs (StoreFill p n xs) = map DrawArgs xs"
  "map World (StoreFill p n xs) = map World xs"
  "map TexTransform (StoreFill p n xs) = map TexTransform xs"
  "length (StoreFill p n xs) = length xs"
  unfolding StoreFill_def by (simp_all add: map_update_same)

lemma map_UpdateReflectedAndShadowed_loop [simp]:
  "map ObjCBIndex (UpdateReflectedAndShadowed_loop w b n xs) = map ObjCBIndex xs"
  "map Mat (UpdateReflectedAndShadowed_loop w b n xs) = map Mat xs"
  "map Geo (UpdateReflectedAndShadowed_loop w b n xs) = map Geo xs"
  "map DrawArgs (UpdateReflectedAndShadowed_loop w b n xs) = map DrawArgs xs"
  "map World (UpdateReflectedAndShadowed_loop w b n xs) = map World xs"
  "map TexTransform (UpdateReflectedAndShadowed_loop w b n xs) = map TexTransform xs"
  "length (UpdateReflectedAndShadowed_loop w b n xs) = length xs"
  by (induction n arbitrary: xs; simp add: Let_def)+

lemma static_part_EulerUpdate [simp]: "static_part (EulerUpdate dt s) = static_part s"
  by (simp add: static_part_def EulerUpdate_def Let_def)

lemma fence_part_EulerUpdate [simp]: "fence_part (EulerUpdate dt s) = fence_part s"
  by (simp add: fence_part_def EulerUpdate_def Let_def)

lemma static_part_UpdateReflectedAndShadowed [simp]:
  "static_part (UpdateReflectedAndShadowed s) = static_part s"
  by (simp add: static_part_def UpdateReflectedAndShadowed_def Let_def)

lemma fence_part_UpdateReflectedAndShadowed [simp]:
  "fence_part (UpdateReflectedAndShadowed s) = fence_part s"
  by (simp add: fence_part_def UpdateReflectedAndShadowed_def Let_def)

lemma static_part_UpdateCamera [simp]: "static_part (UpdateCamera gt s) = static_part s"
  by (simp add: static_part_def UpdateCamera_def Let_def)

lemma fence_part_UpdateCamera [simp]: "fence_part (UpdateCamera gt s) = fence_part s"
  by (simp add: fence_part_def UpdateCamera_def Let_def)

lemma static_part_Update_cycle [simp]: "static_part (Update_cycle s) = static_part s"
  by (simp add: static_part_def Update_cycle_def Let_def)

lemma static_part_OnMouseMove:
  "OnMouseMove b x y s = Some s' \<Longrightarrow> static_part s' = static_part s"
  by (auto simp add: static_part_def OnMouseMove_def Let_def split: if_splits option.splits)

lemma fence_part_OnMouseMove:
  "OnMouseMove b x y s = Some s' \<Longrightarrow> fence_part s' = fence_part s"
  by (auto simp add: fence_part_def OnMouseMove_def Let_def split: if_splits option.splits)

lemma CopyData_Some:
  "CopyData i d buf = Some buf' \<longleftrightarrow> i < length buf \<and> buf' = buf[i := Some d]"
  by (auto simp add: CopyData_def)

lemma CopyData_length: "CopyData i d buf = Some buf' \<Longrightarrow> length buf' = length buf"
  by (auto simp add: CopyData_Some)

lemma UpdateObjectCBs_loop_length:
  "UpdateObjectCBs_loop items cb = Some cb' \<Longrightarrow> length cb' = length cb"
  by (induction items arbitrary: cb)
     (auto split: if_splits option.splits dest: CopyData_length)

lemma UpdateObjectCBs_loop_succeeds:
  "list_all (\<lambda>e. ObjCBIndex e < length cb) items \<Longrightarrow> \<exists>cb'. UpdateObjectCBs_loop items cb = Some cb'"
proof (induction items arbitrary: cb)
  case Nil
  then show ?case by simp
next
  case (Cons e es)
  then have "list_all (\<lambda>x. ObjCBIndex x < length (cb[ObjCBIndex e := Some (objConstants e)])) es"
    by simp
  from Cons(1) [OF this] Cons(1) [of cb] Cons(2) show ?case
    by (auto simp add: CopyData_def)
qed

lemma UpdateMaterialCBs_loop_shape:
  "UpdateMaterialCBs_loop mats cb = Some (mats', cb') \<Longrightarrow>
     length cb' = length cb
   \<and> map (\<lambda>(n, m). (n, MatCBIndex m, DiffuseSrvHeapIndex m)) mats'
       = map (\<lambda>(n, m). (n, MatCBIndex m, DiffuseSrvHeapIndex m)) mats"
proof (induction mats arbitrary: cb mats' cb')
  case Nil
  then show ?case by simp
next
  case (Cons a mats)
  obtain n m where a: "a = (n, m)" by (cases a)
  from Cons(2) show ?case unfolding a
    by (auto split: if_splits option.splits dest!: Cons(1) CopyData_length)
qed

lemma UpdateMaterialCBs_loop_succeeds:
  "list_all (\<lambda>(n, m). MatCBIndex m < length cb) mats \<Longrightarrow>
     \<exists>r. UpdateMaterialCBs_loop mats cb = Some r"
proof (induction mats arbitrary: cb)
  case Nil
  then show ?case by simp
next
  case (Cons a mats)
  obtain n m where a: "a = (n, m)" by (cases a)
  from Cons(2) have "list_all (\<lambda>(n, x). MatCBIndex x < length (cb[MatCBIndex m := Some (matConstants m)])) mats"
    unfolding a by simp
  from Cons(1) [OF this] Cons(1) [of cb] Cons(2) show ?case unfolding a
    by (auto simp add: CopyData_def)
qed


lemma CurrentFrameBuffer_Some:
  "CurrentFrameBuffer s = Some (k, fb) \<longleftrightarrow>
     mCurrentFrameBuffer s = Some k \<and> k < length (mFrameBuffers s) \<and> fb = mFrameBuffers s ! k"
  by (auto simp add: CurrentFrameBuffer_def split: option.splits)

lemma map_slot_update:
  "k < length fbs \<Longrightarrow> f fb = f (fbs ! k) \<Longrightarrow> map f (fbs[k := fb]) = map f fbs"
  by (simp add: map_update list_update_same_conv)

lemma CurrentFrameBuffer_cong:
  "mCurrentFrameBuffer s' = mCurrentFrameBuffer s \<Longrightarrow> mFrameBuffers s' = mFrameBuffers s \<Longrightarrow>
     CurrentFrameBuffer s' = CurrentFrameBuffer s"
  by (simp add: CurrentFrameBuffer_def split: option.splits)

lemma CurrentFrameBuffer_EulerUpdate [simp]:
  "CurrentFrameBuffer (EulerUpdate dt s) = CurrentFrameBuffer s"
  by (rule CurrentFrameBuffer_cong) (simp_all add: EulerUpdate_def Let_def)

lemma CurrentFrameBuffer_UpdateReflectedAndShadowed [simp]:
  "CurrentFrameBuffer (UpdateReflectedAndShadowed s) = CurrentFrameBuffer s"
  by (rule CurrentFrameBuffer_cong) (simp_all add: UpdateReflectedAndShadowed_def Let_def)

lemma UpdateObjectCBs_Some:
  assumes "UpdateObjectCBs gt s = Some s'"
  shows "\<exists>k cb. mCurrentFrameBuffer s = Some k \<and> k < length (mFrameBuffers s)
     \<and> UpdateObjectCBs_loop (mAllRitems (UpdateReflectedAndShadowed (EulerUpdate (gt_DeltaTime gt) s)))
         (ObjectCB (mFrameBuffers s ! k)) = Some cb
     \<and> s' = (UpdateReflectedAndShadowed (EulerUpdate (gt_DeltaTime gt) s))
          \<lparr>mFrameBuffers := (mFrameBuffers s)[k := (mFrameBuffers s ! k)\<lparr>ObjectCB := cb\<rparr>]\<rparr>"
proof -
  let ?s2 = "UpdateReflectedAndShadowed (EulerUpdate (gt_DeltaTime gt) s)"
  have fb: "mFrameBuffers ?s2 = mFrameBuffers s"
    by (simp add: UpdateReflectedAndShadowed_def EulerUpdate_def Let_def)
  from assms obtain k fb cb where c: "CurrentFrameBuffer ?s2 = Some (k, fb)"
    and l: "UpdateObjectCBs_loop (mAllRitems ?s2) (ObjectCB fb) = Some cb"
    and s': "s' = ?s2\<lparr>mFrameBuffers := (mFrameBuffers ?s2)[k := fb\<lparr>ObjectCB := cb\<rparr>]\<rparr>"
    by (auto simp add: UpdateObjectCBs_def Let_def split: option.splits prod.splits)
  from c have "mCurrentFrameBuffer s = Some k" "k < length (mFrameBuffers s)" "fb = mFrameBuffers s ! k"
    by (simp_all add: CurrentFrameBuffer_Some)
  with l s' fb show ?thesis by simp
qed

lemma UpdateObjectCBs_parts:
  assumes "UpdateObjectCBs gt s = Some s'"
  shows "static_part s' = static_part s" and "fence_part s' = fence_part s"
    and "mAllRitems s' = mAllRitems (UpdateReflectedAndShadowed (EulerUpdate (gt_DeltaTime gt) s))"
    and "mSimplePend s' = mSimplePend (EulerUpdate (gt_DeltaTime gt) s)"
    and "mMaterials s' = mMaterials s" and "mCommonCB s' = mCommonCB s"
    and "mCameraPos s' = mCameraPos s" and "mView s' = mView s" and "mProj s' = mProj s"
    and "mClientWidth s' = mClientWidth s" and "mClientHeight s' = mClientHeight s"
    and "map CommonCB (mFrameBuffers s') = map CommonCB (mFrameBuffers s)"
    and "map MaterialCB (mFrameBuffers s') = map MaterialCB (mFrameBuffers s)"
proof -
  let ?s2 = "UpdateReflectedAndShadowed (EulerUpdate (gt_DeltaTime gt) s)"
  from UpdateObjectCBs_Some [OF assms] obtain k cb where
    k: "mCurrentFrameBuffer s = Some k" "k < length (mFrameBuffers s)"
    and l: "UpdateObjectCBs_loop (mAllRitems ?s2) (ObjectCB (mFrameBuffers s ! k)) = Some cb"
    and s': "s' = ?s2\<lparr>mFrameBuffers := (mFrameBuffers s)[k := (mFrameBuffers s ! k)\<lparr>ObjectCB := cb\<rparr>]\<rparr>"
    by blast
  have len: "length cb = length (ObjectCB (mFrameBuffers s ! k))"
    using l by (rule UpdateObjectCBs_loop_length)
  have st: "static_part ?s2 = static_part s" by simp
  have fe: "fence_part ?s2 = fence_part s" by simp
  show "static_part s' = static_part s"
    using st k len unfolding s' by (simp add: static_part_def map_slot_update)
  show "fence_part s' = fence_part s"
    using fe k unfolding s' by (simp add: fence_part_def map_slot_update)
  show "mAllRitems s' = mAllRitems ?s2" unfolding s' by simp
  show "mSimplePend s' = mSimplePend (EulerUpdate (gt_DeltaTime gt) s)"
    unfolding s' by (simp add: UpdateReflectedAndShadowed_def Let_def)
  show "mMaterials s' = mMaterials s" "mCommonCB s' = mCommonCB s"
    "mCameraPos s' = mCameraPos s" "mView s' = mView s" "mProj s' = mProj s"
    "mClientWidth s' = mClientWidth s" "mClientHeight s' = mClientHeight s"
    unfolding s' by (simp_all add: UpdateReflectedAndShadowed_def EulerUpdate_def Let_def)
  show "map CommonCB (mFrameBuffers s') = map CommonCB (mFrameBuffers s)"
    "map MaterialCB (mFrameBuffers s') = map MaterialCB (mFrameBuffers s)"
    using k unfolding s' by (simp_all add: map_slot_update)
qed


lemma UpdateMaterialCBs_Some:
  assumes "UpdateMaterialCBs gt s = Some s'"
  shows "\<exists>k mats cb. mCurrentFrameBuffer s = Some k \<and> k < length (mFrameBuffers s)
     \<and> UpdateMaterialCBs_loop (mMaterials s) (MaterialCB (mFrameBuffers s ! k)) = Some (mats, cb)
     \<and> s' = s\<lparr>mMaterials := mats,
               mFrameBuffers := (mFrameBuffers s)[k := (mFrameBuffers s ! k)\<lparr>MaterialCB := cb\<rparr>]\<rparr>"
  using assms
  by (auto simp add: UpdateMaterialCBs_def CurrentFrameBuffer_Some split: option.splits prod.splits)

lemma UpdateMaterialCBs_parts:
  assumes "UpdateMaterialCBs gt s = Some s'"
  shows "static_part s' = static_part s" and "fence_part s' = fence_part s"
    and "mAllRitems s' = mAllRitems s" and "mSimplePend s' = mSimplePend s"
    and "mCommonCB s' = mCommonCB s"
    and "mCameraPos s' = mCameraPos s" and "mView s' = mView s" and "mProj s' = mProj s"
    and "mClientWidth s' = mClientWidth s" and "mClientHeight s' = mClientHeight s"
    and "map CommonCB (mFrameBuffers s') = map CommonCB (mFrameBuffers s)"
    and "map ObjectCB (mFrameBuffers s') = map ObjectCB (mFrameBuffers s)"
proof -
  from UpdateMaterialCBs_Some [OF assms] obtain k mats cb where
    k: "mCurrentFrameBuffer s = Some k" "k < length (mFrameBuffers s)"
    and l: "UpdateMaterialCBs_loop (mMaterials s) (MaterialCB (mFrameBuffers s ! k)) = Some (mats, cb)"
    and s': "s' = s\<lparr>mMaterials := mats,
               mFrameBuffers := (mFrameBuffers s)[k := (mFrameBuffers s ! k)\<lparr>MaterialCB := cb\<rparr>]\<rparr>"
    by blast
  note sh = UpdateMaterialCBs_loop_shape [OF l]
  show "static_part s' = static_part s"
    using k sh unfolding s' by (simp add: static_part_def map_slot_update)
  show "fence_part s' = fence_part s"
    using k unfolding s' by (simp add: fence_part_def map_slot_update)
  show "mAllRitems s' = mAllRitems s" "mSimplePend s' = mSimplePend s" "mCommonCB s' = mCommonCB s"
    "mCameraPos s' = mCameraPos s" "mView s' = mView s" "mProj s' = mProj s"
    "mClientWidth s' = mClientWidth s" "mClientHeight s' = mClientHeight s"
    unfolding s' by simp_all
  show "map CommonCB (mFrameBuffers s') = map CommonCB (mFrameBuffers s)"
    "map ObjectCB (mFrameBuffers s') = map ObjectCB (mFrameBuffers s)"
    using k unfolding s' by (simp_all add: map_slot_update)
qed

lemma UpdateCommonCB_Some:
  assumes "UpdateCommonCB gt s = Some s'"
  shows "\<exists>k. mCurrentFrameBuffer s = Some k \<and> k < length (mFrameBuffers s)
     \<and> 0 < length (CommonCB (mFrameBuffers s ! k))
     \<and> s' = s\<lparr>mCommonCB := UpdateCommonCB_fill gt s,
               mFrameBuffers := (mFrameBuffers s)
                 [k := (mFrameBuffers s ! k)
                    \<lparr>CommonCB := (CommonCB (mFrameBuffers s ! k))[0 := Some (UpdateCommonCB_fill gt s)]\<rparr>]\<rparr>"
  using assms
  by (auto simp add: UpdateCommonCB_def Let_def CurrentFrameBuffer_Some CopyData_Some
      split: option.splits prod.splits)

lemma length_SetLight [simp]: "length (SetLight i d c ls) = length ls"
  by (simp add: SetLight_def)

lemma length_Lights_UpdateCommonCB_fill [simp]:
  "length (Lights (UpdateCommonCB_fill gt s)) = length (Lights (mCommonCB s))"
  by (simp add: UpdateCommonCB_fill_def Let_def)

lemma UpdateCommonCB_parts:
  assumes "UpdateCommonCB gt s = Some s'"
  shows "static_part s' = static_part s" and "fence_part s' = fence_part s"
    and "mAllRitems s' = mAllRitems s" and "mSimplePend s' = mSimplePend s"
    and "mMaterials s' = mMaterials s"
    and "mCommonCB s' = UpdateCommonCB_fill gt s"
    and "map MaterialCB (mFrameBuffers s') = map MaterialCB (mFrameBuffers s)"
    and "map ObjectCB (mFrameBuffers s') = map ObjectCB (mFrameBuffers s)"
proof -
  from UpdateCommonCB_Some [OF assms] obtain k where
    k: "mCurrentFrameBuffer s = Some k" "k < length (mFrameBuffers s)"
    and s': "s' = s\<lparr>mCommonCB := UpdateCommonCB_fill gt s,
               mFrameBuffers := (mFrameBuffers s)
                 [k := (mFrameBuffers s ! k)
                    \<lparr>CommonCB := (CommonCB (mFrameBuffers s ! k))[0 := Some (UpdateCommonCB_fill gt s)]\<rparr>]\<rparr>"
    by blast
  show "static_part s' = static_part s"
    using k unfolding s' by (simp add: static_part_def map_slot_update)
  show "fence_part s' = fence_part s"
    using k unfolding s' by (simp add: fence_part_def map_slot_update)
  show "mAllRitems s' = mAllRitems s" "mSimplePend s' = mSimplePend s" "mMaterials s' = mMaterials s"
    "mCommonCB s' = UpdateCommonCB_fill gt s"
    unfolding s' by simp_all
  show "map MaterialCB (mFrameBuffers s') = map MaterialCB (mFrameBuffers s)"
    "map ObjectCB (mFrameBuffers s') = map ObjectCB (mFrameBuffers s)"
    using k unfolding s' by (simp_all add: map_slot_update)
qed

lemma UpdateReflectedCommonCB_Some:
  assumes "UpdateReflectedCommonCB gt s = Some s'"
  shows "\<exists>k. mCurrentFrameBuffer s = Some k \<and> k < length (mFrameBuffers s)
     \<and> 1 < length (CommonCB (mFrameBuffers s ! k))
     \<and> s' = s\<lparr>mReflectedCommonCB := UpdateReflectedCommonCB_fill s,
               mFrameBuffers := (mFrameBuffers s)
                 [k := (mFrameBuffers s ! k)
                    \<lparr>CommonCB := (CommonCB (mFrameBuffers s ! k))[1 := Some (UpdateReflectedCommonCB_fill s)]\<rparr>]\<rparr>"
  using assms
  by (auto simp add: UpdateReflectedCommonCB_def Let_def CurrentFrameBuffer_Some CopyData_Some
      split: option.splits prod.splits)

lemma UpdateReflectedCommonCB_parts:
  assumes "UpdateReflectedCommonCB gt s = Some s'"
  shows "static_part s' = static_part s" and "fence_part s' = fence_part s"
    and "mAllRitems s' = mAllRitems s" and "mSimplePend s' = mSimplePend s"
    and "mMaterials s' = mMaterials s"
    and "mCommonCB s' = mCommonCB s"
    and "map MaterialCB (mFrameBuffers s') = map MaterialCB (mFrameBuffers s)"
    and "map ObjectCB (mFrameBuffers s') = map ObjectCB (mFrameBuffers s)"
proof -
  from UpdateReflectedCommonCB_Some [OF assms] obtain k where
    k: "mCurrentFrameBuffer s = Some k" "k < length (mFrameBuffers s)"
    and s': "s' = s\<lparr>mReflectedCommonCB := UpdateReflectedCommonCB_fill s,
               mFrameBuffers := (mFrameBuffers s)
                 [k := (mFrameBuffers s ! k)
                    \<lparr>CommonCB := (CommonCB (mFrameBuffers s ! k))[1 := Some (UpdateReflectedCommonCB_fill s)]\<rparr>]\<rparr>"
    by blast
  show "static_part s' = static_part s"
    using k unfolding s' by (simp add: static_part_def map_slot_update)
  show "fence_part s' = fence_part s"
    using k unfolding s' by (simp add: fence_part_def map_slot_update)
  show "mAllRitems s' = mAllRitems s" "mSimplePend s' = mSimplePend s" "mMaterials s' = mMaterials s"
    "mCommonCB s' = mCommonCB s"
    unfolding s' by simp_all
  show "map MaterialCB (mFrameBuffers s') = map MaterialCB (mFrameBuffers s)"
    "map ObjectCB (mFrameBuffers s') = map ObjectCB (mFrameBuffers s)"
    using k unfolding s' by (simp_all add: map_slot_update)
qed

lemma UpdateCBs_Some:
  assumes "UpdateCBs gt s = Some s'"
  shows "\<exists>s1 s2 s3. UpdateObjectCBs gt s = Some s1 \<and> UpdateMaterialCBs gt s1 = Some s2
     \<and> UpdateCommonCB gt s2 = Some s3 \<and> UpdateReflectedCommonCB gt s3 = Some s'"
  using assms by (auto simp add: UpdateCBs_def split: option.splits)

lemma UpdateCBs_parts:
  assumes "UpdateCBs gt s = Some s'"
  shows "static_part s' = static_part s" and "fence_part s' = fence_part s"
    and "mAllRitems s' = mAllRitems (UpdateReflectedAndShadowed (EulerUpdate (gt_DeltaTime gt) s))"
proof -
  from UpdateCBs_Some [OF assms] obtain s1 s2 s3 where
    1: "UpdateObjectCBs gt s = Some s1" and 2: "UpdateMaterialCBs gt s1 = Some s2"
    and 3: "UpdateCommonCB gt s2 = Some s3" and 4: "UpdateReflectedCommonCB gt s3 = Some s'"
    by blast
  show "static_part s' = static_part s"
    by (simp add: UpdateObjectCBs_parts(1) [OF 1] UpdateMaterialCBs_parts(1) [OF 2]
        UpdateCommonCB_parts(1) [OF 3] UpdateReflectedCommonCB_parts(1) [OF 4])
  show "fence_part s' = fence_part s"
    by (simp add: UpdateObjectCBs_parts(2) [OF 1] UpdateMaterialCBs_parts(2) [OF 2]
        UpdateCommonCB_parts(2) [OF 3] UpdateReflectedCommonCB_parts(2) [OF 4])
  show "mAllRitems s' = mAllRitems (UpdateReflectedAndShadowed (EulerUpdate (gt_DeltaTime gt) s))"
    by (simp add: UpdateObjectCBs_parts(3) [OF 1] UpdateMaterialCBs_parts(3) [OF 2]
        UpdateCommonCB_parts(3) [OF 3] UpdateReflectedCommonCB_parts(3) [OF 4])
qed


lemmas start_up_defs =
  Initialize_def SetFrameBuffers_def SetRenderingItems_def SetMaterials_def PendulumMotion_new_def
  FrameBuffer_new_def Material_make_def gNumFrameBuffers_def CommonConstants_default_def
  floorRitem_def wallRitem_def mirrorRitem_def ceilingRitem_def reflectedCeilingRitem_def
  shadowedCeilingRitem_def wireRitem_def reflectedWireRitem_def shadowedWireRitem_def
  ballRitem_def reflectedBallRitem_def shadowedBallRitem_def RenderItem_default_def

lemma app_ok_Initialize: "app_ok (Initialize PendulumMotion_new)"
  by (simp add: app_ok_def)

lemma app_ok_items:
  assumes "app_ok s"
  shows "map ObjCBIndex (mAllRitems s) = [0, 1, 2, 3, 4, 5, 6, 7, 8, 9, 10, 11]"
    and "length (mAllRitems s) = 12"
    and "mCeilingRenderItem s = [3, 4, 5]"
    and "mWireRenderItem s = [6, 7, 8]"
    and "mBallRenderItem s = [9, 10, 11]"
    and "length (Lights (mCommonCB s)) = 16"
    and "map (MatCBIndex \<circ> snd) (mMaterials s) = [0, 1, 2, 3, 4]"
proof -
  from assms show a: "map ObjCBIndex (mAllRitems s) = [0, 1, 2, 3, 4, 5, 6, 7, 8, 9, 10, 11]"
    by (simp add: app_ok_def static_part_def start_up_defs)
  from arg_cong [OF a, of length] show "length (mAllRitems s) = 12" by simp
  from assms show "mCeilingRenderItem s = [3, 4, 5]" "mWireRenderItem s = [6, 7, 8]"
    "mBallRenderItem s = [9, 10, 11]" "length (Lights (mCommonCB s)) = 16"
    by (simp_all add: app_ok_def static_part_def start_up_defs)
  from assms have "map (\<lambda>(n, m). (n, MatCBIndex m, DiffuseSrvHeapIndex m)) (mMaterials s)
      = [(''bricks'', 0, 0), (''grassfloor'', 1, 1), (''glassmirror'', 2, 2),
         (''whitesurface'', 3, 3), (''shadow'', 4, 3)]"
    by (simp add: app_ok_def static_part_def start_up_defs)
  from arg_cong [OF this, of "map (fst \<circ> snd)"]
  show "map (MatCBIndex \<circ> snd) (mMaterials s) = [0, 1, 2, 3, 4]"
    by (simp add: comp_def case_prod_unfold)
qed

lemma app_ok_ring:
  assumes "app_ok s"
  shows "length (mFrameBuffers s) = 3"
    and "k < 3 \<Longrightarrow> length (CommonCB (mFrameBuffers s ! k)) = 2"
    and "k < 3 \<Longrightarrow> length (ObjectCB (mFrameBuffers s ! k)) = 12"
    and "k < 3 \<Longrightarrow> length (MaterialCB (mFrameBuffers s ! k)) = 5"
proof -
  from assms have m: "map (\<lambda>fb. (length (CommonCB fb), length (ObjectCB fb), length (MaterialCB fb)))
        (mFrameBuffers s) = [(2, 12, 5), (2, 12, 5), (2, 12, 5)]"
    by (simp add: app_ok_def static_part_def start_up_defs numeral_3_eq_3)
  from arg_cong [OF m, of length] show l: "length (mFrameBuffers s) = 3" by simp
  {
    assume k: "k < 3"
    from arg_cong [OF m, of "\<lambda>xs. xs ! k"] k l
    have "(length (CommonCB (mFrameBuffers s ! k)), length (ObjectCB (mFrameBuffers s ! k)),
        length (MaterialCB (mFrameBuffers s ! k))) = [(2, 12, 5), (2, 12, 5), (2, 12, 5)] ! k"
      by simp
    moreover from k have "[(2, 12, 5), (2, 12, 5), (2, 12, 5)] ! k = (2::nat, 12::nat, 5::nat)"
      by (cases k rule: nat.exhaust [case_product nat.exhaust]) (auto simp add: nth_Cons')
    ultimately have "length (CommonCB (mFrameBuffers s ! k)) = 2
        \<and> length (ObjectCB (mFrameBuffers s ! k)) = 12
        \<and> length (MaterialCB (mFrameBuffers s ! k)) = 5" by simp
  }
  then show "k < 3 \<Longrightarrow> length (CommonCB (mFrameBuffers s ! k)) = 2"
    "k < 3 \<Longrightarrow> length (ObjectCB (mFrameBuffers s ! k)) = 12"
    "k < 3 \<Longrightarrow> length (MaterialCB (mFrameBuffers s ! k)) = 5" by simp_all
qed


lemma app_ok_cong: "static_part s' = static_part s \<Longrightarrow> app_ok s' = app_ok s"
  by (simp add: app_ok_def)

lemma fence_part_D:
  assumes "fence_part s' = fence_part s"
  shows "mCurrentFrameBufferIndex s' = mCurrentFrameBufferIndex s"
    and "mCurrentFrameBuffer s' = mCurrentFrameBuffer s"
    and "mCurrentFence s' = mCurrentFence s"
    and "map Fence (mFrameBuffers s') = map Fence (mFrameBuffers s)"
  using assms by (simp_all add: fence_part_def)

lemma UpdateObjectCBs_succeeds:
  assumes "app_ok s" and "mCurrentFrameBuffer s = Some k" and "k < 3"
  shows "\<exists>s'. UpdateObjectCBs gt s = Some s'"
proof -
  let ?s2 = "UpdateReflectedAndShadowed (EulerUpdate (gt_DeltaTime gt) s)"
  have ok: "app_ok ?s2" using assms(1) by (simp add: app_ok_def)
  have cur: "CurrentFrameBuffer ?s2 = Some (k, mFrameBuffers s ! k)"
    using assms app_ok_ring(1) [OF assms(1)] by (simp add: CurrentFrameBuffer_Some)
  have "list_all (\<lambda>i. i < 12) (map ObjCBIndex (mAllRitems ?s2))"
    by (simp add: app_ok_items(1) [OF ok])
  then have "list_all (\<lambda>e. ObjCBIndex e < length (ObjectCB (mFrameBuffers s ! k))) (mAllRitems ?s2)"
    by (simp add: list.pred_map comp_def app_ok_ring(3) [OF assms(1) assms(3)])
  from UpdateObjectCBs_loop_succeeds [OF this] obtain cb where
    "UpdateObjectCBs_loop (mAllRitems ?s2) (ObjectCB (mFrameBuffers s ! k)) = Some cb" by blast
  with cur show ?thesis by (simp add: UpdateObjectCBs_def Let_def)
qed

lemma UpdateMaterialCBs_succeeds:
  assumes "app_ok s" and "mCurrentFrameBuffer s = Some k" and "k < 3"
  shows "\<exists>s'. UpdateMaterialCBs gt s = Some s'"
proof -
  have cur: "CurrentFrameBuffer s = Some (k, mFrameBuffers s ! k)"
    using assms app_ok_ring(1) [OF assms(1)] by (simp add: CurrentFrameBuffer_def)
  have "list_all (\<lambda>i. i < 5) (map (MatCBIndex \<circ> snd) (mMaterials s))"
    by (simp add: app_ok_items(7) [OF assms(1)])
  then have "list_all (\<lambda>(n, m). MatCBIndex m < length (MaterialCB (mFrameBuffers s ! k))) (mMaterials s)"
    by (simp add: list.pred_map comp_def app_ok_ring(4) [OF assms(1) assms(3)] case_prod_unfold)
  from UpdateMaterialCBs_loop_succeeds [OF this] obtain r where
    "UpdateMaterialCBs_loop (mMaterials s) (MaterialCB (mFrameBuffers s ! k)) = Some r" by blast
  with cur show ?thesis by (cases r) (simp add: UpdateMaterialCBs_def)
qed

lemma UpdateCommonCB_succeeds:
  assumes "app_ok s" and "mCurrentFrameBuffer s = Some k" and "k < 3"
  shows "\<exists>s'. UpdateCommonCB gt s = Some s'"
  using assms app_ok_ring(1) [OF assms(1)] app_ok_ring(2) [OF assms(1) assms(3)]
  by (auto simp add: UpdateCommonCB_def Let_def CurrentFrameBuffer_def CopyData_def)

lemma UpdateReflectedCommonCB_succeeds:
  assumes "app_ok s" and "mCurrentFrameBuffer s = Some k" and "k < 3"
  shows "\<exists>s'. UpdateReflectedCommonCB gt s = Some s'"
  using assms app_ok_ring(1) [OF assms(1)] app_ok_ring(2) [OF assms(1) assms(3)]
  by (auto simp add: UpdateReflectedCommonCB_def Let_def CurrentFrameBuffer_def CopyData_def)

lemma UpdateCBs_succeeds:
  assumes "app_ok s" and "mCurrentFrameBuffer s = Some k" and "k < 3"
  shows "\<exists>s'. UpdateCBs gt s = Some s'"
proof -
  from UpdateObjectCBs_succeeds [OF assms] obtain s1 where 1: "UpdateObjectCBs gt s = Some s1"
    by blast
  note p1 = UpdateObjectCBs_parts(1,2) [OF 1]
  have ok1: "app_ok s1" using assms(1) by (simp add: app_ok_cong [OF p1(1)])
  have c1: "mCurrentFrameBuffer s1 = Some k" using assms(2) by (simp add: fence_part_D(2) [OF p1(2)])
  from UpdateMaterialCBs_succeeds [OF ok1 c1 assms(3)] obtain s2 where
    2: "UpdateMaterialCBs gt s1 = Some s2" by blast
  note p2 = UpdateMaterialCBs_parts(1,2) [OF 2]
  have ok2: "app_ok s2" using ok1 by (simp add: app_ok_cong [OF p2(1)])
  have c2: "mCurrentFrameBuffer s2 = Some k" using c1 by (simp add: fence_part_D(2) [OF p2(2)])
  from UpdateCommonCB_succeeds [OF ok2 c2 assms(3)] obtain s3 where
    3: "UpdateCommonCB gt s2 = Some s3" by blast
  note p3 = UpdateCommonCB_parts(1,2) [OF 3]
  have ok3: "app_ok s3" using ok2 by (simp add: app_ok_cong [OF p3(1)])
  have c3: "mCurrentFrameBuffer s3 = Some k" using c2 by (simp add: fence_part_D(2) [OF p3(2)])
  from UpdateReflectedCommonCB_succeeds [OF ok3 c3 assms(3)] obtain s4 where
    4: "UpdateReflectedCommonCB gt s3 = Some s4" by blast
  from 1 2 3 4 show ?thesis by (simp add: UpdateCBs_def)
qed

lemma Update_cycle_parts:
  "mCurrentFrameBufferIndex (Update_cycle s) = (mCurrentFrameBufferIndex s + 1) mod gNumFrameBuffers"
  "mCurrentFrameBuffer (Update_cycle s) = Some ((mCurrentFrameBufferIndex s + 1) mod gNumFrameBuffers)"
  "mFrameBuffers (Update_cycle s) = mFrameBuffers s"
  "mCurrentFence (Update_cycle s) = mCurrentFence s"
  by (simp_all add: Update_cycle_def Let_def)

lemma UpdateCamera_parts:
  "mCurrentFrameBufferIndex (UpdateCamera gt s) = mCurrentFrameBufferIndex s"
  "mCurrentFrameBuffer (UpdateCamera gt s) = mCurrentFrameBuffer s"
  "mFrameBuffers (UpdateCamera gt s) = mFrameBuffers s"
  "mCurrentFence (UpdateCamera gt s) = mCurrentFence s"
  by (simp_all add: UpdateCamera_def Let_def)

lemma Update_wait_Some:
  assumes "Update_wait gpu t s = Some (t', waits)"
  shows "\<exists>k. mCurrentFrameBuffer s = Some k \<and> k < length (mFrameBuffers s)
     \<and> waits = (if Fence (mFrameBuffers s ! k) \<noteq> 0 \<and> gpu t < Fence (mFrameBuffers s ! k)
                 then [Waited (Fence (mFrameBuffers s ! k)) t t'] else [])
     \<and> Fence (mFrameBuffers s ! k) \<le> gpu t' \<and> t \<le> t'
     \<and> (\<forall>u. t \<le> u \<and> u < t' \<longrightarrow> gpu u < Fence (mFrameBuffers s ! k))"
proof -
  from assms obtain k fb where c: "CurrentFrameBuffer s = Some (k, fb)"
    by (auto simp add: Update_wait_def split: option.splits)
  then have k: "mCurrentFrameBuffer s = Some k" "k < length (mFrameBuffers s)" "fb = mFrameBuffers s ! k"
    by (simp_all add: CurrentFrameBuffer_Some)
  show ?thesis
  proof (cases "Fence fb \<noteq> 0 \<and> gpu t < Fence fb")
    case True
    with assms c have w: "WaitForSingleObject gpu (Fence fb) t = Some t'"
      and "waits = [Waited (Fence fb) t t']"
      by (auto simp add: Update_wait_def split: option.splits)
    with WaitForSingleObject_sound [OF w] WaitForSingleObject_first [OF w] True k
    show ?thesis by (auto simp add: not_le)
  next
    case False
    with assms c have "t' = t" "waits = []"
      by (auto simp add: Update_wait_def split: option.splits)
    moreover from False have "Fence fb \<le> gpu t" by (auto simp add: not_less)
    ultimately show ?thesis using False k by auto
  qed
qed

lemma Update_wait_returns:
  assumes "mCurrentFrameBuffer s = Some k" and "k < length (mFrameBuffers s)"
    and "t \<le> u" and "Fence (mFrameBuffers s ! k) \<le> gpu u"
  shows "\<exists>r. Update_wait gpu t s = Some r"
proof -
  from WaitForSingleObject_returns [where gpu = gpu, OF assms(3,4)] obtain t' where
    "WaitForSingleObject gpu (Fence (mFrameBuffers s ! k)) t = Some t'" by blast
  with assms(1,2) show ?thesis by (simp add: Update_wait_def CurrentFrameBuffer_def)
qed


lemma Update_Some:
  assumes "Update gpu t gt s = Some (t', evs, s')"
  shows "\<exists>waits. Update_wait gpu t (Update_cycle (UpdateCamera gt s)) = Some (t', waits)
           \<and> evs = waits @ [Written ((mCurrentFrameBufferIndex s + 1) mod gNumFrameBuffers) t']"
    and "UpdateCBs gt (Update_cycle (UpdateCamera gt s)) = Some s'"
  using assms
  by (auto simp add: Update_def UpdateCBs_at_def Let_def Update_cycle_parts UpdateCamera_parts
      split: option.splits)

lemma Update_succeeds:
  assumes "app_ok s"
    and "t \<le> u"
    and "Fence (mFrameBuffers s ! ((mCurrentFrameBufferIndex s + 1) mod gNumFrameBuffers)) \<le> gpu u"
  shows "\<exists>r. Update gpu t gt s = Some r"
proof -
  let ?s1 = "Update_cycle (UpdateCamera gt s)"
  let ?k = "(mCurrentFrameBufferIndex s + 1) mod gNumFrameBuffers"
  have ok: "app_ok ?s1" using assms(1) by (simp add: app_ok_def)
  have k: "?k < 3" by (simp add: gNumFrameBuffers_def)
  have cur: "mCurrentFrameBuffer ?s1 = Some ?k"
    by (simp add: Update_cycle_parts UpdateCamera_parts)
  have fbs: "mFrameBuffers ?s1 = mFrameBuffers s"
    by (simp add: Update_cycle_parts UpdateCamera_parts)
  have len: "?k < length (mFrameBuffers ?s1)"
    using k app_ok_ring(1) [OF ok] by simp
  from assms(3) have "Fence (mFrameBuffers ?s1 ! ?k) \<le> gpu u" by (simp add: fbs)
  from Update_wait_returns [where gpu = gpu, OF cur len assms(2) this]
  obtain r where w: "Update_wait gpu t ?s1 = Some r"
    by blast
  from UpdateCBs_succeeds [OF ok cur k] obtain s' where u: "UpdateCBs gt ?s1 = Some s'" by blast
  from w u cur show ?thesis by (cases r) (simp add: Update_def UpdateCBs_at_def Let_def)
qed

lemma app_ok_stamped_example: "app_ok stamped_example"
  by (simp add: app_ok_def static_part_def stamped_example_def Let_def start_up_defs numeral_3_eq_3)

lemma exec_DrawRenderingItems:
  "DrawRenderingItems s k ps = Some cs \<Longrightarrow>
     \<exists>pl'. foldl (\<lambda>st c. exec c st) (pl, calls) cs
             = (pl', calls @ Pass s k (pl_pso pl) (pl_stencilRef pl) (pl_cbv pl 2) ps)
        \<and> pl_pso pl' = pl_pso pl \<and> pl_stencilRef pl' = pl_stencilRef pl
        \<and> pl_cbv pl' 2 = pl_cbv pl 2"
proof (induction ps arbitrary: cs pl calls)
  case Nil
  then show ?case by (simp add: Pass_def)
next
  case (Cons p ps)
  let ?ri = "mAllRitems s ! p"
  from Cons(2) obtain mat cs' where
    m: "map_of (mMaterials s) (Mat ?ri) = Some mat"
    and r: "DrawRenderingItems s k ps = Some cs'"
    and cs: "cs = [IASetVertexBuffers (Geo ?ri), IASetIndexBuffer (Geo ?ri), IASetPrimitiveTopology,
              SetGraphicsRootDescriptorTable 0 (DiffuseSrvHeapIndex mat),
              SetGraphicsRootConstantBufferView 1 (ObjectCB_at k (ObjCBIndex ?ri)),
              SetGraphicsRootConstantBufferView 3 (MaterialCB_at k (MatCBIndex mat)),
              DrawIndexedInstanced (DrawArgs ?ri)] @ cs'"
    by (auto simp add: Let_def split: if_splits option.splits)
  let ?pl1 = "pl\<lparr>pl_table := (pl_table pl)(0 := Some (DiffuseSrvHeapIndex mat)),
                 pl_cbv := (pl_cbv pl)(1 := Some (ObjectCB_at k (ObjCBIndex ?ri)),
                                       3 := Some (MaterialCB_at k (MatCBIndex mat)))\<rparr>"
  let ?call = "\<lparr>dc_pso = pl_pso pl, dc_stencilRef = pl_stencilRef pl, dc_common = pl_cbv pl 2,
      dc_object = Some (ObjectCB_at k (ObjCBIndex ?ri)),
      dc_material = Some (MaterialCB_at k (MatCBIndex mat)),
      dc_texture = Some (DiffuseSrvHeapIndex mat), dc_args = DrawArgs ?ri\<rparr>"
  have step: "foldl (\<lambda>st c. exec c st) (pl, calls) cs
      = foldl (\<lambda>st c. exec c st) (?pl1, calls @ [?call]) cs'"
    unfolding cs by simp
  from Cons(1) [OF r, of ?pl1 "calls @ [?call]"] obtain pl' where
    "foldl (\<lambda>st c. exec c st) (?pl1, calls @ [?call]) cs'
       = (pl', (calls @ [?call]) @ Pass s k (pl_pso ?pl1) (pl_stencilRef ?pl1) (pl_cbv ?pl1 2) ps)"
    "pl_pso pl' = pl_pso ?pl1" "pl_stencilRef pl' = pl_stencilRef ?pl1" "pl_cbv pl' 2 = pl_cbv ?pl1 2"
    by blast
  with step m show ?case by (simp add: Pass_def)
qed


lemma Draw_commands_Replay:
  assumes "Draw_commands s k = Some cmds"
  shows "Replay cmds =
      Pass s k ''opaque'' 0 (Some (CommonCB_at k 0)) (mRitemLayer s Opaque)
    @ Pass s k ''markStencilMirror'' 1 (Some (CommonCB_at k 0)) (mRitemLayer s Mirrors)
    @ Pass s k ''drawStencilReflections'' 1 (Some (CommonCB_at k 1)) (mRitemLayer s Reflected)
    @ Pass s k ''transparent'' 0 (Some (CommonCB_at k 0)) (mRitemLayer s Transparent)
    @ Pass s k ''shadow'' 0 (Some (CommonCB_at k 0)) (mRitemLayer s Shadow)"
proof -
  let ?f = "foldl (\<lambda>st c. exec c st)"
  let ?P1 = "Pass s k ''opaque'' 0 (Some (CommonCB_at k 0)) (mRitemLayer s Opaque)"
  let ?P2 = "Pass s k ''markStencilMirror'' 1 (Some (CommonCB_at k 0)) (mRitemLayer s Mirrors)"
  let ?P3 = "Pass s k ''drawStencilReflections'' 1 (Some (CommonCB_at k (Suc 0))) (mRitemLayer s Reflected)"
  let ?P4 = "Pass s k ''transparent'' 0 (Some (CommonCB_at k 0)) (mRitemLayer s Transparent)"
  let ?P5 = "Pass s k ''shadow'' 0 (Some (CommonCB_at k 0)) (mRitemLayer s Shadow)"
  from assms obtain c1 c2 c3 c4 c5 where
    d1: "DrawRenderingItems s k (mRitemLayer s Opaque) = Some c1"
    and d2: "DrawRenderingItems s k (mRitemLayer s Mirrors) = Some c2"
    and d3: "DrawRenderingItems s k (mRitemLayer s Reflected) = Some c3"
    and d4: "DrawRenderingItems s k (mRitemLayer s Transparent) = Some c4"
    and d5: "DrawRenderingItems s k (mRitemLayer s Shadow) = Some c5"
    and cmds: "cmds =
        [Reset ''opaque'', RSSetViewports, RSSetScissorRects,
         ResourceBarrier STATE_PRESENT STATE_RENDER_TARGET, ClearRenderTargetView,
         ClearDepthStencilView 1 0, OMSetRenderTargets, SetDescriptorHeaps,
         SetGraphicsRootSignature, SetGraphicsRootConstantBufferView 2 (CommonCB_at k 0)]
        @ c1 @ [OMSetStencilRef 1, SetPipelineState ''markStencilMirror'']
        @ c2 @ [SetGraphicsRootConstantBufferView 2 (CommonCB_at k (0 + 1)),
                SetPipelineState ''drawStencilReflections'']
        @ c3 @ [SetGraphicsRootConstantBufferView 2 (CommonCB_at k 0), OMSetStencilRef 0,
                SetPipelineState ''transparent'']
        @ c4 @ [SetPipelineState ''shadow'']
        @ c5 @ [ResourceBarrier STATE_RENDER_TARGET STATE_PRESENT, Close]"
    by (auto simp add: Draw_commands_def split: option.splits)
  let ?pl1 = "\<lparr>pl_pso = ''opaque'', pl_stencilRef = 0,
      pl_cbv = (\<lambda>i. None)(2 := Some (CommonCB_at k 0)), pl_table = (\<lambda>i. None)\<rparr>"
  from exec_DrawRenderingItems [OF d1, of ?pl1 "[]"] obtain pl2 where
    2: "?f (?pl1, []) c1 = (pl2, ?P1)"
    and p2: "pl_pso pl2 = ''opaque''" "pl_stencilRef pl2 = 0" "pl_cbv pl2 2 = Some (CommonCB_at k 0)"
    by auto
  let ?pl3 = "pl2\<lparr>pl_stencilRef := 1, pl_pso := ''markStencilMirror''\<rparr>"
  from exec_DrawRenderingItems [OF d2, of ?pl3 ?P1] p2 obtain pl4 where
    4: "?f (?pl3, ?P1) c2 = (pl4, ?P1 @ ?P2)"
    and p4: "pl_pso pl4 = ''markStencilMirror''" "pl_stencilRef pl4 = 1"
      "pl_cbv pl4 2 = Some (CommonCB_at k 0)"
    by auto
  let ?pl5 = "pl4\<lparr>pl_cbv := (pl_cbv pl4)(2 := Some (CommonCB_at k (Suc 0))),
                  pl_pso := ''drawStencilReflections''\<rparr>"
  from exec_DrawRenderingItems [OF d3, of ?pl5 "?P1 @ ?P2"] p4 obtain pl6 where
    6: "?f (?pl5, ?P1 @ ?P2) c3 = (pl6, ?P1 @ ?P2 @ ?P3)"
    and p6: "pl_pso pl6 = ''drawStencilReflections''" "pl_stencilRef pl6 = 1"
      "pl_cbv pl6 2 = Some (CommonCB_at k (Suc 0))"
    by auto
  let ?pl7 = "pl6\<lparr>pl_cbv := (pl_cbv pl6)(2 := Some (CommonCB_at k 0)), pl_stencilRef := 0,
                  pl_pso := ''transparent''\<rparr>"
  from exec_DrawRenderingItems [OF d4, of ?pl7 "?P1 @ ?P2 @ ?P3"] p6 obtain pl8 where
    8: "?f (?pl7, ?P1 @ ?P2 @ ?P3) c4 = (pl8, ?P1 @ ?P2 @ ?P3 @ ?P4)"
    and p8: "pl_pso pl8 = ''transparent''" "pl_stencilRef pl8 = 0"
      "pl_cbv pl8 2 = Some (CommonCB_at k 0)"
    by auto
  let ?pl9 = "pl8\<lparr>pl_pso := ''shadow''\<rparr>"
  from exec_DrawRenderingItems [OF d5, of ?pl9 "?P1 @ ?P2 @ ?P3 @ ?P4"] p8 obtain pl10 where
    10: "?f (?pl9, ?P1 @ ?P2 @ ?P3 @ ?P4) c5 = (pl10, ?P1 @ ?P2 @ ?P3 @ ?P4 @ ?P5)"
    by auto
  show ?thesis
    unfolding Replay_def cmds by (simp add: 2 4 6 8 10)
qed


lemma map_of_material_keys:
  "map_of (map (\<lambda>(n, m). (n, MatCBIndex m, DiffuseSrvHeapIndex m)) mats) key
     = map_option (\<lambda>m. (MatCBIndex m, DiffuseSrvHeapIndex m)) (map_of mats key)"
  by (induction mats) auto

lemma nth_map_eq:
  "map f xs = map f ys \<Longrightarrow> p < length xs \<Longrightarrow> f (xs ! p) = f (ys ! p)"
proof -
  assume e: "map f xs = map f ys" and p: "p < length xs"
  from arg_cong [OF e, of length] have l: "length ys = length xs" by simp
  from arg_cong [OF e, of "\<lambda>zs. zs ! p"] p l show ?thesis by simp
qed

lemma DrawRenderingItems_cong:
  assumes "static_part s = static_part s0"
  shows "DrawRenderingItems s k ps = DrawRenderingItems s0 k ps"
proof (induction ps)
  case Nil
  show ?case by simp
next
  case (Cons p ps)
  from assms have e: "map ObjCBIndex (mAllRitems s) = map ObjCBIndex (mAllRitems s0)"
    "map Mat (mAllRitems s) = map Mat (mAllRitems s0)"
    "map Geo (mAllRitems s) = map Geo (mAllRitems s0)"
    "map DrawArgs (mAllRitems s) = map DrawArgs (mAllRitems s0)"
    and m: "map (\<lambda>(n, m). (n, MatCBIndex m, DiffuseSrvHeapIndex m)) (mMaterials s)
      = map (\<lambda>(n, m). (n, MatCBIndex m, DiffuseSrvHeapIndex m)) (mMaterials s0)"
    by (simp_all add: static_part_def)
  from arg_cong [OF e(1), of length] have l: "length (mAllRitems s) = length (mAllRitems s0)"
    by simp
  show ?case
  proof (cases "p < length (mAllRitems s)")
    case False
    with l show ?thesis by simp
  next
    case True
    note f = nth_map_eq [OF e(1) True] nth_map_eq [OF e(2) True] nth_map_eq [OF e(3) True]
      nth_map_eq [OF e(4) True]
    from arg_cong [OF m, of "\<lambda>xs. map_of xs (Mat (mAllRitems s0 ! p))"]
    have k: "map_option (\<lambda>m. (MatCBIndex m, DiffuseSrvHeapIndex m))
          (map_of (mMaterials s) (Mat (mAllRitems s0 ! p)))
       = map_option (\<lambda>m. (MatCBIndex m, DiffuseSrvHeapIndex m))
          (map_of (mMaterials s0) (Mat (mAllRitems s0 ! p)))"
      by (simp add: map_of_material_keys)
    show ?thesis
    proof (cases "map_of (mMaterials s0) (Mat (mAllRitems s0 ! p))")
      case None
      with k have "map_of (mMaterials s) (Mat (mAllRitems s0 ! p)) = None" by simp
      with None True l f show ?thesis by simp
    next
      case (Some mat0)
      with k obtain mat where
        "map_of (mMaterials s) (Mat (mAllRitems s0 ! p)) = Some mat"
        "MatCBIndex mat = MatCBIndex mat0" "DiffuseSrvHeapIndex mat = DiffuseSrvHeapIndex mat0"
        by auto
      with Some True l f Cons show ?thesis by (simp add: Let_def cong: option.case_cong)
    qed
  qed
qed

lemma Draw_commands_cong:
  assumes "static_part s = static_part s0"
  shows "Draw_commands s k = Draw_commands s0 k"
proof -
  from assms have "mRitemLayer s = mRitemLayer s0" by (simp add: static_part_def)
  then show ?thesis
    by (simp add: Draw_commands_def DrawRenderingItems_cong [OF assms] cong: option.case_cong)
qed

lemma Draw_commands_Initialize:
  "Draw_commands (Initialize PendulumMotion_new) k \<noteq> None"
  by (simp add: Draw_commands_def start_up_defs)


lemma Draw_Some:
  assumes "Draw gt s = Some (cmds, signal, s')"
  shows "\<exists>k. mCurrentFrameBuffer s = Some k \<and> k < length (mFrameBuffers s)
     \<and> Draw_commands s k = Some cmds \<and> signal = mCurrentFence s + 1
     \<and> s' = s\<lparr>mCurrentFence := mCurrentFence s + 1,
               mFrameBuffers := (mFrameBuffers s)
                 [k := (mFrameBuffers s ! k)\<lparr>Fence := mCurrentFence s + 1\<rparr>]\<rparr>"
  using assms
  by (auto simp add: Draw_def Let_def CurrentFrameBuffer_Some split: option.splits prod.splits)

lemma Draw_succeeds:
  assumes "app_ok s" and "mCurrentFrameBuffer s = Some k" and "k < 3"
  shows "\<exists>r. Draw gt s = Some r"
proof -
  from assms(1) have "static_part s = static_part (Initialize PendulumMotion_new)"
    by (simp add: app_ok_def)
  from Draw_commands_cong [OF this, of k] Draw_commands_Initialize [of k]
  obtain cmds where "Draw_commands s k = Some cmds" by auto
  with assms app_ok_ring(1) [OF assms(1)] show ?thesis
    by (simp add: Draw_def CurrentFrameBuffer_def Let_def)
qed

lemma Draw_static_part:
  assumes "Draw gt s = Some (cmds, signal, s')"
  shows "static_part s' = static_part s"
proof -
  from Draw_Some [OF assms] obtain k where k: "k < length (mFrameBuffers s)"
    and s': "s' = s\<lparr>mCurrentFence := mCurrentFence s + 1,
               mFrameBuffers := (mFrameBuffers s)
                 [k := (mFrameBuffers s ! k)\<lparr>Fence := mCurrentFence s + 1\<rparr>]\<rparr>"
    by blast
  show ?thesis using k unfolding s' by (simp add: static_part_def map_slot_update)
qed

text \<open>
  C4. Whenever \<^verbatim>\<open>Draw\<close> runs with current frame buffer \<open>k\<close>, the draw calls of the command
  list it records are exactly five passes, in the order Opaque, Mirrors (marking the stencil),
  Reflected, Transparent, Shadow, none left out: the opaque pass runs under the pipeline state
  \<open>opaque\<close> with stencil reference 0, the marking pass under \<open>markStencilMirror\<close> with stencil
  reference 1, the reflection pass under \<open>drawStencilReflections\<close> with stencil reference
  still 1, and the transparent and shadow passes under \<open>transparent\<close> and \<open>shadow\<close> with the
  stencil reference back at 0. The reflection pass reads element 1 of the common buffer (the
  mirrored copy), every other pass element 0.
\<close>

theorem C4_Draw_five_passes:
  assumes "Draw gt s = Some (cmds, signal, s')" and "mCurrentFrameBuffer s = Some k"
  shows "Replay cmds =
      Pass s k ''opaque'' 0 (Some (CommonCB_at k 0)) (mRitemLayer s Opaque)
    @ Pass s k ''markStencilMirror'' 1 (Some (CommonCB_at k 0)) (mRitemLayer s Mirrors)
    @ Pass s k ''drawStencilReflections'' 1 (Some (CommonCB_at k 1)) (mRitemLayer s Reflected)
    @ Pass s k ''transparent'' 0 (Some (CommonCB_at k 0)) (mRitemLayer s Transparent)
    @ Pass s k ''shadow'' 0 (Some (CommonCB_at k 0)) (mRitemLayer s Shadow)"
proof -
  from Draw_Some [OF assms(1)] assms(2) have "Draw_commands s k = Some cmds" by auto
  then show ?thesis by (rule Draw_commands_Replay)
qed

lemma Pass_state:
  "map (\<lambda>c. (dc_pso c, dc_stencilRef c, dc_common c)) (Pass s k pso ref common ps)
     = map (\<lambda>p. (pso, ref, common)) ps"
  by (simp add: Pass_def comp_def)

theorem C4_Draw_five_passes_witness:
  "\<exists>cmds signal s'. Draw gt_example stamped_example = Some (cmds, signal, s')
     \<and> map (\<lambda>c. (dc_pso c, dc_stencilRef c, dc_common c)) (Replay cmds) =
         [(''opaque'', 0, Some (CommonCB_at 0 0)), (''opaque'', 0, Some (CommonCB_at 0 0)),
          (''opaque'', 0, Some (CommonCB_at 0 0)), (''opaque'', 0, Some (CommonCB_at 0 0)),
          (''opaque'', 0, Some (CommonCB_at 0 0)),
          (''markStencilMirror'', 1, Some (CommonCB_at 0 0)),
          (''drawStencilReflections'', 1, Some (CommonCB_at 0 1)),
          (''drawStencilReflections'', 1, Some (CommonCB_at 0 1)),
          (''drawStencilReflections'', 1, Some (CommonCB_at 0 1)),
          (''transparent'', 0, Some (CommonCB_at 0 0)),
          (''shadow'', 0, Some (CommonCB_at 0 0)), (''shadow'', 0, Some (CommonCB_at 0 0)),
          (''shadow'', 0, Some (CommonCB_at 0 0))]"
proof -
  have c: "mCurrentFrameBuffer stamped_example = Some 0"
    by (simp add: stamped_example_def Let_def)
  from Draw_succeeds [OF app_ok_stamped_example c] obtain cmds signal s' where
    d: "Draw gt_example stamped_example = Some (cmds, signal, s')"
    by (metis prod_cases3 zero_less_numeral)
  have l: "mRitemLayer stamped_example Opaque = [0, 1, 3, 6, 9]"
    "mRitemLayer stamped_example Mirrors = [2]"
    "mRitemLayer stamped_example Reflected = [4, 7, 10]"
    "mRitemLayer stamped_example Transparent = [2]"
    "mRitemLayer stamped_example Shadow = [5, 8, 11]"
    by (simp_all add: stamped_example_def Let_def start_up_defs)
  have "map (\<lambda>c. (dc_pso c, dc_stencilRef c, dc_common c)) (Replay cmds) =
         [(''opaque'', 0, Some (CommonCB_at 0 0)), (''opaque'', 0, Some (CommonCB_at 0 0)),
          (''opaque'', 0, Some (CommonCB_at 0 0)), (''opaque'', 0, Some (CommonCB_at 0 0)),
          (''opaque'', 0, Some (CommonCB_at 0 0)),
          (''markStencilMirror'', 1, Some (CommonCB_at 0 0)),
          (''drawStencilReflections'', 1, Some (CommonCB_at 0 1)),
          (''drawStencilReflections'', 1, Some (CommonCB_at 0 1)),
          (''drawStencilReflections'', 1, Some (CommonCB_at 0 1)),
          (''transparent'', 0, Some (CommonCB_at 0 0)),
          (''shadow'', 0, Some (CommonCB_at 0 0)), (''shadow'', 0, Some (CommonCB_at 0 0)),
          (''shadow'', 0, Some (CommonCB_at 0 0))]"
    by (simp add: C4_Draw_five_passes [OF d c] Pass_state l)
  with d show ?thesis by (intro exI conjI)
qed

text \<open>
  C9 (as the spec states it, refuted). The stamps are 64-bit and the counter wraps. In the ring
  as \<open>2^64 - 1\<close> ticks leave it, with the cursor moved on to slot 1, whose stamp is
  \<open>2^64 - 3\<close>, \<^verbatim>\<open>Draw\<close> stamps that slot with 0, which is below the stamp it replaces.
\<close>

theorem C9_Draw_stamp_wraps_counterexample:
  "Draw gt_example wrap_example \<noteq> None
     \<and> mCurrentFrameBuffer wrap_example = Some 1
     \<and> Fence (mFrameBuffers wrap_example ! 1) = 18446744073709551613
     \<and> Fence (mFrameBuffers wrap_draw ! 1) = 0
     \<and> Fence (mFrameBuffers wrap_draw ! 1) < Fence (mFrameBuffers wrap_example ! 1)"
proof -
  have ok: "app_ok wrap_example"
    by (simp add: app_ok_def static_part_def wrap_example_def Let_def start_up_defs numeral_3_eq_3)
  have c: "mCurrentFrameBuffer wrap_example = Some 1"
    "mCurrentFence wrap_example = 18446744073709551615"
    "Fence (mFrameBuffers wrap_example ! 1) = 18446744073709551613"
    "length (mFrameBuffers wrap_example) = 3"
    by (simp_all add: wrap_example_def Let_def)
  from Draw_succeeds [OF ok c(1)] obtain cmds signal s' where
    d: "Draw gt_example wrap_example = Some (cmds, signal, s')"
    by (metis prod_cases3 one_less_numeral_iff semiring_norm(77))
  from Draw_Some [OF d] c(1) have
    "s' = wrap_example\<lparr>mCurrentFence := mCurrentFence wrap_example + 1,
               mFrameBuffers := (mFrameBuffers wrap_example)
                 [1 := (mFrameBuffers wrap_example ! 1)\<lparr>Fence := mCurrentFence wrap_example + 1\<rparr>]\<rparr>"
    by auto
  then have "Fence (mFrameBuffers s' ! 1) = 0" by (simp add: c)
  moreover have "wrap_draw = s'" by (simp add: wrap_draw_def d)
  ultimately show ?thesis using d c(1, 3) by simp
qed

text \<open>
  C9 (amended). Every slot's stamp starts at 0. Each \<^verbatim>\<open>Draw\<close> adds 1 to the submitted counter
  (modulo \<open>2^64\<close>), tells the queue to signal the new value, and stores it as the stamp of the
  current slot, leaving the other stamps alone. As long as the counter has not reached
  \<open>2^64 - 1\<close>, the new value is the old one plus 1 as a number; and when moreover no stamp in
  the ring is above the counter, which holds at start-up and is kept, the new stamp is strictly
  above the stamp it replaces.
\<close>

theorem C9_Draw_stamp:
  assumes "Draw gt s = Some (cmds, signal, s')" and "mCurrentFrameBuffer s = Some k"
  shows "list_all (\<lambda>fb. Fence fb = 0) (mFrameBuffers (Initialize PendulumMotion_new))
       \<and> mCurrentFence (Initialize PendulumMotion_new) = 0
       \<and> mCurrentFence s' = mCurrentFence s + 1
       \<and> signal = mCurrentFence s'
       \<and> Fence (mFrameBuffers s' ! k) = mCurrentFence s'
       \<and> (\<forall>j. j \<noteq> k \<longrightarrow> Fence (mFrameBuffers s' ! j) = Fence (mFrameBuffers s ! j))
       \<and> (mCurrentFence s \<noteq> - 1 \<longrightarrow> unat (mCurrentFence s') = unat (mCurrentFence s) + 1)
       \<and> (mCurrentFence s \<noteq> - 1 \<and> list_all (\<lambda>fb. Fence fb \<le> mCurrentFence s) (mFrameBuffers s)
            \<longrightarrow> Fence (mFrameBuffers s ! k) < Fence (mFrameBuffers s' ! k)
              \<and> list_all (\<lambda>fb. Fence fb \<le> mCurrentFence s') (mFrameBuffers s'))"
proof -
  from Draw_Some [OF assms(1)] assms(2) have k: "k < length (mFrameBuffers s)"
    and sg: "signal = mCurrentFence s + 1"
    and s': "s' = s\<lparr>mCurrentFence := mCurrentFence s + 1,
               mFrameBuffers := (mFrameBuffers s)
                 [k := (mFrameBuffers s ! k)\<lparr>Fence := mCurrentFence s + 1\<rparr>]\<rparr>"
    by auto
  have init: "list_all (\<lambda>fb. Fence fb = 0) (mFrameBuffers (Initialize PendulumMotion_new))
       \<and> mCurrentFence (Initialize PendulumMotion_new) = 0"
    by (simp add: start_up_defs numeral_3_eq_3)
  have a: "mCurrentFence s' = mCurrentFence s + 1" unfolding s' by simp
  have b: "Fence (mFrameBuffers s' ! k) = mCurrentFence s'" using k unfolding s' by simp
  have c: "\<forall>j. j \<noteq> k \<longrightarrow> Fence (mFrameBuffers s' ! j) = Fence (mFrameBuffers s ! j)"
    unfolding s' by simp
  have d: "unat (mCurrentFence s') = unat (mCurrentFence s) + 1" if "mCurrentFence s \<noteq> - 1"
  proof -
    from that max_word_wrap [of "mCurrentFence s"] have "1 + mCurrentFence s \<noteq> 0"
      by (auto simp add: add.commute)
    from unatSuc [OF this] show ?thesis unfolding a by (simp add: add.commute)
  qed
  have lt: "mCurrentFence s < mCurrentFence s + 1" if "mCurrentFence s \<noteq> - 1"
    using that inc_less_eq_self_iff_eq [of "mCurrentFence s"] by (simp add: not_le)
  have e: "Fence (mFrameBuffers s ! k) < Fence (mFrameBuffers s' ! k)
              \<and> list_all (\<lambda>fb. Fence fb \<le> mCurrentFence s') (mFrameBuffers s')"
    if n: "mCurrentFence s \<noteq> - 1"
      and i: "list_all (\<lambda>fb. Fence fb \<le> mCurrentFence s) (mFrameBuffers s)"
  proof
    from i k have "Fence (mFrameBuffers s ! k) \<le> mCurrentFence s"
      by (simp add: list_all_length)
    with lt [OF n] show "Fence (mFrameBuffers s ! k) < Fence (mFrameBuffers s' ! k)"
      unfolding b a by simp
    show "list_all (\<lambda>fb. Fence fb \<le> mCurrentFence s') (mFrameBuffers s')"
      unfolding list_all_length
    proof (intro allI impI)
      fix j assume j: "j < length (mFrameBuffers s')"
      show "Fence (mFrameBuffers s' ! j) \<le> mCurrentFence s'"
      proof (cases "j = k")
        case True
        then show ?thesis using b by simp
      next
        case False
        from j have "j < length (mFrameBuffers s)" unfolding s' by simp
        with i have "Fence (mFrameBuffers s ! j) \<le> mCurrentFence s"
          by (simp add: list_all_length)
        also from lt [OF n] have "mCurrentFence s \<le> mCurrentFence s'" unfolding a by simp
        finally show ?thesis using c False by simp
      qed
    qed
  qed
  from init a sg b c d e show ?thesis by simp
qed

theorem C9_Draw_stamp_witness:
  "\<exists>cmds signal s'. Draw gt_example stamped_example = Some (cmds, signal, s')
     \<and> Fence (mFrameBuffers stamped_example ! 0) = 3
     \<and> Fence (mFrameBuffers s' ! 0) = 4 \<and> signal = 4"
proof -
  have c: "mCurrentFrameBuffer stamped_example = Some 0"
    "mCurrentFence stamped_example = 3"
    "Fence (mFrameBuffers stamped_example ! 0) = 3"
    by (simp_all add: stamped_example_def Let_def)
  from Draw_succeeds [OF app_ok_stamped_example c(1)] obtain cmds signal s' where
    d: "Draw gt_example stamped_example = Some (cmds, signal, s')"
    by (metis prod_cases3 zero_less_numeral)
  from C9_Draw_stamp [OF d c(1)] have "mCurrentFence s' = 4" "signal = mCurrentFence s'"
    "Fence (mFrameBuffers s' ! 0) = mCurrentFence s'"
    by (simp_all add: c)
  with d c(3) show ?thesis by simp
qed

section \<open>The shadow pass over one pixel\<close>

lemma mask_255: "(x :: 8 word) AND 255 = x"
proof -
  have "(255 :: 8 word) = - 1" by simp
  then show ?thesis by (simp only: word_and_max)
qed

lemma OutputMerger_shadow:
  "OutputMerger shadowPsoDesc 0 f p =
     (if px_stencil p = 0 \<and> fr_depth f < px_depth p
      then p\<lparr>px_stencil := 1, px_depth := fr_depth f, px_blends := px_blends p + 1\<rparr>
      else p)"
proof -
  have n: "(NOT (255 :: 8 word)) = 0" by simp
  show ?thesis
    by (simp add: OutputMerger_def shadowPsoDesc_def shadowDSS_def transparentPsoDesc_def
        opaquePsoDesc_def transparencyBlendDesc_def Let_def mask_255 n eq_commute [of 0])
qed

lemma ShadowPass_marked:
  "px_stencil p \<noteq> 0 \<Longrightarrow> ShadowPass fs p = p"
  by (induction fs) (simp_all add: ShadowPass_def OutputMerger_shadow)

lemma ShadowPass_Cons:
  "ShadowPass (f # fs) p = ShadowPass fs (OutputMerger shadowPsoDesc 0 f p)"
  by (simp add: ShadowPass_def)

text \<open>
  C6 (amended). For a pixel whose stencil value is 0 when the shadow pass starts, and any number
  of shadow fragments drawn over it in the same tick (two or more overlapping triangles
  included): the shadow blend is applied at most once. It is applied exactly once, and the
  stencil value is exactly 1 afterwards, when at least one of the fragments is nearer than the
  depth stored for the pixel at the start of the pass (the shadow state keeps the depth test
  on, with the depth-fail operation \<open>KEEP\<close>); when none is, no blend is applied and the stencil
  value stays 0.
\<close>

theorem C6_ShadowPass_blends_at_most_once:
  assumes "px_stencil p = 0"
  shows "px_blends (ShadowPass fs p)
           = px_blends p + (if \<exists>f \<in> set fs. fr_depth f < px_depth p then 1 else 0)
       \<and> px_stencil (ShadowPass fs p)
           = (if \<exists>f \<in> set fs. fr_depth f < px_depth p then 1 else 0)
       \<and> px_blends (ShadowPass fs p) \<le> px_blends p + 1"
  using assms
proof (induction fs arbitrary: p)
  case Nil
  then show ?case by (simp add: ShadowPass_def)
next
  case (Cons f fs)
  show ?case
  proof (cases "fr_depth f < px_depth p")
    case True
    then have "ShadowPass (f # fs) p
        = p\<lparr>px_stencil := 1, px_depth := fr_depth f, px_blends := px_blends p + 1\<rparr>"
      using Cons(2) by (simp add: ShadowPass_Cons OutputMerger_shadow ShadowPass_marked)
    with True show ?thesis by simp
  next
    case False
    then have "ShadowPass (f # fs) p = ShadowPass fs p"
      by (simp add: ShadowPass_Cons OutputMerger_shadow)
    with False Cons(1) [OF Cons(2)] show ?thesis by simp
  qed
qed

theorem C6_ShadowPass_blends_at_most_once_witness:
  "px_blends (ShadowPass [\<lparr>fr_depth = 0.75, fr_frontFacing = True\<rparr>,
                          \<lparr>fr_depth = 0.7, fr_frontFacing = True\<rparr>]
                \<lparr>px_stencil = 0, px_depth = 1, px_blends = 0\<rparr>) = 1
   \<and> px_stencil (ShadowPass [\<lparr>fr_depth = 0.75, fr_frontFacing = True\<rparr>,
                          \<lparr>fr_depth = 0.7, fr_frontFacing = True\<rparr>]
                \<lparr>px_stencil = 0, px_depth = 1, px_blends = 0\<rparr>) = 1"
  using C6_ShadowPass_blends_at_most_once
    [of "\<lparr>px_stencil = 0, px_depth = 1, px_blends = 0\<rparr>"
        "[\<lparr>fr_depth = 0.75, fr_frontFacing = True\<rparr>, \<lparr>fr_depth = 0.7, fr_frontFacing = True\<rparr>]"]
  by simp

text \<open>
  C6 (as the spec states it, refuted). A pixel with stencil value 0 at which something nearer
  (depth 0.5) has already been drawn, and two overlapping shadow fragments at depth 0.75: both
  pass the stencil test and fail the depth test, so the blend is applied zero times, not once,
  and the stencil value stays 0, not 1.
\<close>

theorem C6_ShadowPass_occluded_counterexample:
  "\<not> (px_blends (ShadowPass [\<lparr>fr_depth = 0.75, fr_frontFacing = True\<rparr>,
                             \<lparr>fr_depth = 0.75, fr_frontFacing = True\<rparr>]
                   \<lparr>px_stencil = 0, px_depth = 0.5, px_blends = 0\<rparr>) = 1
      \<and> px_stencil (ShadowPass [\<lparr>fr_depth = 0.75, fr_frontFacing = True\<rparr>,
                             \<lparr>fr_depth = 0.75, fr_frontFacing = True\<rparr>]
                   \<lparr>px_stencil = 0, px_depth = 0.5, px_blends = 0\<rparr>) = 1)"
  by (simp add: ShadowPass_def OutputMerger_shadow)

section \<open>The two copies of the common constants\<close>

lemma XMMatrixReflect_mirrorPlane:
  "XMMatrixReflect mirrorPlane = ((1, 0, 0, 0), (0, 1, 0, 0), (0, 0, - 1, 0), (0, 0, 0, 1))"
  by (simp add: XMMatrixReflect_def mirrorPlane_def XMVectorSet_def XMPlaneNormalize_def Let_def
      XMVectorAdd_def XMVectorScale_def)

lemma reflect_direction:
  "XMStoreFloat3 (XMVector3TransformNormal (XMLoadFloat3 d) (XMMatrixReflect mirrorPlane))
     = mirror_xy d"
  by (cases d) (simp add: XMMatrixReflect_mirrorPlane XMStoreFloat3_def XMLoadFloat3_def
      XMVector3TransformNormal_def XMVectorAdd_def XMVectorScale_def mirror_xy_def)

lemma UpdateReflectedCommonCB_fill_eq:
  "UpdateReflectedCommonCB_fill s =
     (mCommonCB s)
       \<lparr>Lights := (Lights (mCommonCB s))
          [0 := mirrorLight (Lights (mCommonCB s) ! 0),
           1 := mirrorLight (Lights (mCommonCB s) ! 1),
           2 := mirrorLight (Lights (mCommonCB s) ! 2)]\<rparr>"
  by (simp add: UpdateReflectedCommonCB_fill_def Let_def numeral_3_eq_3 numeral_2_eq_2
      reflect_direction mirrorLight_def)

lemma UpdateCommonCB_fill_CameraPosW [simp]:
  "CameraPosW (UpdateCommonCB_fill gt s) = mCameraPos s"
  by (simp add: UpdateCommonCB_fill_def Let_def)

lemma Update_common_copies:
  assumes "Update gpu t gt s = Some (t', evs, s')"
  shows "CommonCB (mFrameBuffers s' ! mCurrentFrameBufferIndex s') ! 0 = Some (mCommonCB s')"
    and "CommonCB (mFrameBuffers s' ! mCurrentFrameBufferIndex s') ! 1 = Some (mReflectedCommonCB s')"
    and "mReflectedCommonCB s' = UpdateReflectedCommonCB_fill s'"
    and "CameraPosW (mCommonCB s') = mCameraPos (UpdateCamera gt s)"
    and "mCameraPos s' = mCameraPos (UpdateCamera gt s)"
    and "mCurrentFrameBufferIndex s' = (mCurrentFrameBufferIndex s + 1) mod gNumFrameBuffers"
    and "Lights (mCommonCB s') =
           SetLight 2 (0, - 0.707, - 0.707) (0.15, 0.15, 0.15)
             (SetLight 1 (- 0.57735, - 0.57735, 0.57735) (0.3, 0.3, 0.3)
                (SetLight 0 (0.57735, - 0.70735, 0.57735) (0.8, 0.8, 0.8)
                   (Lights (mCommonCB s))))"
proof -
  let ?s0 = "Update_cycle (UpdateCamera gt s)"
  let ?k = "(mCurrentFrameBufferIndex s + 1) mod gNumFrameBuffers"
  note c = Update_Some(2) [OF assms]
  from UpdateCBs_Some [OF c] obtain s1 s2 s3 where
    1: "UpdateObjectCBs gt ?s0 = Some s1" and 2: "UpdateMaterialCBs gt s1 = Some s2"
    and 3: "UpdateCommonCB gt s2 = Some s3" and 4: "UpdateReflectedCommonCB gt s3 = Some s'"
    by blast
  have k0: "mCurrentFrameBuffer ?s0 = Some ?k" "mCurrentFrameBufferIndex ?s0 = ?k"
    by (simp_all add: Update_cycle_parts UpdateCamera_parts)
  note f1 = fence_part_D [OF UpdateObjectCBs_parts(2) [OF 1]]
  note f2 = fence_part_D [OF UpdateMaterialCBs_parts(2) [OF 2]]
  note f3 = fence_part_D [OF UpdateCommonCB_parts(2) [OF 3]]
  note f4 = fence_part_D [OF UpdateReflectedCommonCB_parts(2) [OF 4]]
  have k2: "mCurrentFrameBuffer s2 = Some ?k" using f1(2) f2(2) k0 by simp
  have i': "mCurrentFrameBufferIndex s' = ?k" using f1(1) f2(1) f3(1) f4(1) k0 by simp
  from UpdateCommonCB_Some [OF 3] k2 have
    l2: "?k < length (mFrameBuffers s2)" "0 < length (CommonCB (mFrameBuffers s2 ! ?k))"
    and s3: "s3 = s2\<lparr>mCommonCB := UpdateCommonCB_fill gt s2,
               mFrameBuffers := (mFrameBuffers s2)
                 [?k := (mFrameBuffers s2 ! ?k)
                    \<lparr>CommonCB := (CommonCB (mFrameBuffers s2 ! ?k))
                                    [0 := Some (UpdateCommonCB_fill gt s2)]\<rparr>]\<rparr>"
    by auto
  have k3: "mCurrentFrameBuffer s3 = Some ?k" using f3(2) k2 by simp
  from UpdateReflectedCommonCB_Some [OF 4] k3 have
    l3: "?k < length (mFrameBuffers s3)" "1 < length (CommonCB (mFrameBuffers s3 ! ?k))"
    and s': "s' = s3\<lparr>mReflectedCommonCB := UpdateReflectedCommonCB_fill s3,
               mFrameBuffers := (mFrameBuffers s3)
                 [?k := (mFrameBuffers s3 ! ?k)
                    \<lparr>CommonCB := (CommonCB (mFrameBuffers s3 ! ?k))
                                    [1 := Some (UpdateReflectedCommonCB_fill s3)]\<rparr>]\<rparr>"
    by auto
  have c3: "mCommonCB s' = mCommonCB s3" unfolding s' by simp
  show "CommonCB (mFrameBuffers s' ! mCurrentFrameBufferIndex s') ! 0 = Some (mCommonCB s')"
    unfolding i' using l2 l3 unfolding s' unfolding s3 by simp
  show "CommonCB (mFrameBuffers s' ! mCurrentFrameBufferIndex s') ! 1 = Some (mReflectedCommonCB s')"
    unfolding i' using l3 unfolding s' by simp
  show "mReflectedCommonCB s' = UpdateReflectedCommonCB_fill s'"
    unfolding s' by (simp add: UpdateReflectedCommonCB_fill_def)
  have cam: "mCameraPos s2 = mCameraPos (UpdateCamera gt s)"
    using UpdateObjectCBs_parts(7) [OF 1] UpdateMaterialCBs_parts(6) [OF 2]
    by (simp add: Update_cycle_def Let_def)
  show "CameraPosW (mCommonCB s') = mCameraPos (UpdateCamera gt s)"
    unfolding c3 unfolding s3 using cam by simp
  show "mCameraPos s' = mCameraPos (UpdateCamera gt s)"
    unfolding s' unfolding s3 using cam by simp
  show "mCurrentFrameBufferIndex s' = ?k" by (rule i')
  have "mCommonCB s2 = mCommonCB s"
    using UpdateObjectCBs_parts(6) [OF 1] UpdateMaterialCBs_parts(5) [OF 2]
    by (simp add: Update_cycle_def UpdateCamera_def Let_def)
  then show "Lights (mCommonCB s') =
           SetLight 2 (0, - 0.707, - 0.707) (0.15, 0.15, 0.15)
             (SetLight 1 (- 0.57735, - 0.57735, 0.57735) (0.3, 0.3, 0.3)
                (SetLight 0 (0.57735, - 0.70735, 0.57735) (0.8, 0.8, 0.8)
                   (Lights (mCommonCB s))))"
    unfolding c3 unfolding s3 by (simp add: UpdateCommonCB_fill_def Let_def)
qed


lemma first_update:
  "Update gpu_example 0 gt_example (Initialize PendulumMotion_new) \<noteq> None"
  "\<exists>t' evs. Update gpu_example 0 gt_example (Initialize PendulumMotion_new)
      = Some (t', evs, first_update)"
proof -
  have "Fence (mFrameBuffers (Initialize PendulumMotion_new)
      ! ((mCurrentFrameBufferIndex (Initialize PendulumMotion_new) + 1) mod gNumFrameBuffers))
    \<le> gpu_example 0"
    by (simp add: start_up_defs)
  from Update_succeeds [where gpu = gpu_example, OF app_ok_Initialize le_refl this]
  obtain r where r: "Update gpu_example 0 gt_example (Initialize PendulumMotion_new) = Some r"
    by blast
  then show "Update gpu_example 0 gt_example (Initialize PendulumMotion_new) \<noteq> None" by simp
  from r show "\<exists>t' evs. Update gpu_example 0 gt_example (Initialize PendulumMotion_new)
      = Some (t', evs, first_update)"
    by (cases r) (simp add: first_update_def)
qed

lemma camera_behind_mirror: "sin (0.4 * pi) * sin (1.5 * pi) \<noteq> 0"
proof -
  have "sin (1.5 * pi) = sin (3 / 2 * pi)" by simp
  then have a: "sin (1.5 * pi) = - 1" by (simp only: sin_3over2_pi)
  have "0 < sin (0.4 * pi)" by (rule sin_gt_zero) simp_all
  with a show ?thesis by simp
qed

text \<open>
  C8 (as the spec states it, refuted). After the first \<^verbatim>\<open>Update\<close> that follows start-up, the
  camera position in the second copy of the common constants is not the mirror image of the
  camera position in the first copy: it is the same position, which lies off the mirror plane.
\<close>

theorem C8_camera_position_not_mirrored_counterexample:
  "Update gpu_example 0 gt_example (Initialize PendulumMotion_new) \<noteq> None
   \<and> CommonCB (mFrameBuffers first_update ! 1) ! 0 = Some (mCommonCB first_update)
   \<and> CommonCB (mFrameBuffers first_update ! 1) ! 1 = Some (mReflectedCommonCB first_update)
   \<and> mCurrentFrameBufferIndex first_update = 1
   \<and> CameraPosW (mReflectedCommonCB first_update) = CameraPosW (mCommonCB first_update)
   \<and> CameraPosW (mReflectedCommonCB first_update)
        \<noteq> mirror_xy (CameraPosW (mCommonCB first_update))"
proof -
  from first_update(2) obtain t' evs where
    u: "Update gpu_example 0 gt_example (Initialize PendulumMotion_new)
      = Some (t', evs, first_update)" by blast
  note c = Update_common_copies [OF u]
  have i: "mCurrentFrameBufferIndex first_update = 1"
    unfolding c(6) by (simp add: start_up_defs)
  have r: "CameraPosW (mReflectedCommonCB first_update) = CameraPosW (mCommonCB first_update)"
    unfolding c(3) by (simp add: UpdateReflectedCommonCB_fill_eq)
  have "CameraPosW (mCommonCB first_update)
      = (20 * sin (0.4 * pi) * cos (1.5 * pi), 20 * cos (0.4 * pi),
         20 * sin (0.4 * pi) * sin (1.5 * pi))"
    unfolding c(4) by (simp add: UpdateCamera_def Let_def start_up_defs)
  with camera_behind_mirror
  have "CameraPosW (mCommonCB first_update) \<noteq> mirror_xy (CameraPosW (mCommonCB first_update))"
    by (simp add: mirror_xy_def)
  with c(1,2) i r first_update(1) show ?thesis by simp
qed

text \<open>
  C8 (amended). Every \<^verbatim>\<open>Update\<close> that returns has written two copies of the common constants
  into the current slot: \<^verbatim>\<open>mCommonCB\<close>, the camera's view, at index 0 and
  \<^verbatim>\<open>mReflectedCommonCB\<close> at index 1. The second copy equals the first except for the
  directions of lights 0, 1 and 2, which are mirrored across the xy-plane (\<open>z\<close> negated); the
  camera position and every other member, the view and projection matrices included, are the
  same in both copies.
\<close>

theorem C8_Update_common_copies:
  assumes "Update gpu t gt s = Some (t', evs, s')"
  shows "CommonCB (mFrameBuffers s' ! mCurrentFrameBufferIndex s') ! 0 = Some (mCommonCB s')
     \<and> CommonCB (mFrameBuffers s' ! mCurrentFrameBufferIndex s') ! 1 = Some (mReflectedCommonCB s')
     \<and> mReflectedCommonCB s' =
         (mCommonCB s')
           \<lparr>Lights := (Lights (mCommonCB s'))
              [0 := mirrorLight (Lights (mCommonCB s') ! 0),
               1 := mirrorLight (Lights (mCommonCB s') ! 1),
               2 := mirrorLight (Lights (mCommonCB s') ! 2)]\<rparr>
     \<and> CameraPosW (mCommonCB s') = mCameraPos s'
     \<and> CameraPosW (mReflectedCommonCB s') = mCameraPos s'
     \<and> View (mReflectedCommonCB s') = View (mCommonCB s')
     \<and> Proj (mReflectedCommonCB s') = Proj (mCommonCB s')"
proof -
  note c = Update_common_copies [OF assms]
  have e: "mReflectedCommonCB s' =
         (mCommonCB s')
           \<lparr>Lights := (Lights (mCommonCB s'))
              [0 := mirrorLight (Lights (mCommonCB s') ! 0),
               1 := mirrorLight (Lights (mCommonCB s') ! 1),
               2 := mirrorLight (Lights (mCommonCB s') ! 2)]\<rparr>"
    unfolding c(3) by (rule UpdateReflectedCommonCB_fill_eq)
  have "CameraPosW (mReflectedCommonCB s') = CameraPosW (mCommonCB s')"
    "View (mReflectedCommonCB s') = View (mCommonCB s')"
    "Proj (mReflectedCommonCB s') = Proj (mCommonCB s')"
    by (subst e, simp)+
  with c(1,2,4,5) e show ?thesis by simp
qed


theorem C8_Update_common_copies_witness:
  "CommonCB (mFrameBuffers first_update ! mCurrentFrameBufferIndex first_update) ! 1
     = Some (mReflectedCommonCB first_update)
   \<and> Direction (Lights (mReflectedCommonCB first_update) ! 0) = (0.57735, - 0.70735, - 0.57735)
   \<and> Direction (Lights (mCommonCB first_update) ! 0) = (0.57735, - 0.70735, 0.57735)"
proof -
  from first_update(2) obtain t' evs where
    u: "Update gpu_example 0 gt_example (Initialize PendulumMotion_new)
      = Some (t', evs, first_update)" by blast
  have l: "Lights (mCommonCB first_update) ! 0
      = Light_default\<lparr>Direction := (0.57735, - 0.70735, 0.57735), Strength := (0.8, 0.8, 0.8)\<rparr>"
    "length (Lights (mCommonCB first_update)) = 16"
    unfolding Update_common_copies(7) [OF u]
    by (simp_all add: SetLight_def start_up_defs)
  from C8_Update_common_copies [OF u] have
    a: "CommonCB (mFrameBuffers first_update ! mCurrentFrameBufferIndex first_update) ! 1
        = Some (mReflectedCommonCB first_update)"
    and e: "mReflectedCommonCB first_update =
         (mCommonCB first_update)
           \<lparr>Lights := (Lights (mCommonCB first_update))
              [0 := mirrorLight (Lights (mCommonCB first_update) ! 0),
               1 := mirrorLight (Lights (mCommonCB first_update) ! 1),
               2 := mirrorLight (Lights (mCommonCB first_update) ! 2)]\<rparr>"
    by blast+
  have "Direction (Lights (mReflectedCommonCB first_update) ! 0) = (0.57735, - 0.70735, - 0.57735)"
    by (subst e) (simp add: l mirrorLight_def mirror_xy_def)
  with a l(1) show ?thesis by simp
qed

section \<open>The world matrices of the reflected and the shadow items\<close>

lemmas matrix_defs =
  XMMatrixMultiply_def XMVector4Transform_def XMVector4Dot_def XMMatrixColumn_def
  XMMatrixTranslation_def

lemma ceiling_not_reflected:
  "XMMatrixTranslation 0 6 (- 5)
     \<noteq> XMMatrixMultiply (XMMatrixTranslation 0 6 (- 5)) (XMMatrixReflect mirrorPlane)"
  by (simp add: XMMatrixReflect_mirrorPlane matrix_defs)

lemma XMMatrixShadow_shadowPlane:
  "XMMatrixShadow shadowPlane (lx, ly, lz, lw) =
     ((ly, 0, 0, 0), (- lx, 0, - lz, - lw), (0, 0, ly, 0), (0, 0, 0, ly))"
  by (simp add: XMMatrixShadow_def shadowPlane_def XMVectorSet_def XMPlaneNormalize_def Let_def
      XMVectorAdd_def XMVectorScale_def XMVectorNegate_def XMVector4Dot_def)

lemma ceiling_not_projected:
  "XMMatrixTranslation 0 6 (- 5)
     \<noteq> XMMatrixMultiply (XMMatrixMultiply (XMMatrixTranslation 0 6 (- 5))
           (XMMatrixShadow shadowPlane L)) shadowOffSetY"
proof -
  obtain lx ly lz lw where L: "L = (lx, ly, lz, lw)" by (cases L)
  show ?thesis
    unfolding L XMMatrixShadow_shadowPlane
    by (auto simp add: matrix_defs shadowOffSetY_def)
qed

lemma nth_StoreWorld:
  "p < length xs \<Longrightarrow>
     StoreWorld p m xs ! i = (if i = p then (xs ! p)\<lparr>World := m\<rparr> else xs ! i)"
  by (simp add: StoreWorld_def)

lemma nth_StoreFill:
  "p < length xs \<Longrightarrow>
     StoreFill p n xs ! i = (if i = p then (xs ! p)\<lparr>numFrameBufferFill := n\<rparr> else xs ! i)"
  by (simp add: StoreFill_def)

lemma UpdateReflectedAndShadowed_items:
  assumes "app_ok s"
  shows "i < 6 \<Longrightarrow> mAllRitems (UpdateReflectedAndShadowed s) ! i = mAllRitems s ! i"
    and "World (mAllRitems (UpdateReflectedAndShadowed s) ! 6) = wireWorld (mSimplePend s)"
    and "World (mAllRitems (UpdateReflectedAndShadowed s) ! 7)
          = XMMatrixMultiply (wireWorld (mSimplePend s)) (XMMatrixReflect mirrorPlane)"
    and "World (mAllRitems (UpdateReflectedAndShadowed s) ! 8)
          = XMMatrixMultiply (XMMatrixMultiply (wireWorld (mSimplePend s))
              (XMMatrixShadow shadowPlane (toMainLight s))) shadowOffSetY"
    and "World (mAllRitems (UpdateReflectedAndShadowed s) ! 9) = ballWorld (mSimplePend s)"
    and "World (mAllRitems (UpdateReflectedAndShadowed s) ! 10)
          = XMMatrixMultiply (ballWorld (mSimplePend s)) (XMMatrixReflect mirrorPlane)"
    and "World (mAllRitems (UpdateReflectedAndShadowed s) ! 11)
          = XMMatrixMultiply (XMMatrixMultiply (ballWorld (mSimplePend s))
              (XMMatrixShadow shadowPlane (toMainLight s))) shadowOffSetY"
    and "6 \<le> i \<Longrightarrow> i < 12 \<Longrightarrow>
          numFrameBufferFill (mAllRitems (UpdateReflectedAndShadowed s) ! i) = int gNumFrameBuffers"
proof -
  note p = app_ok_items(2,4,5) [OF assms]
  note u = UpdateReflectedAndShadowed_def Let_def p nth_StoreWorld nth_StoreFill numeral_3_eq_3
  show "i < 6 \<Longrightarrow> mAllRitems (UpdateReflectedAndShadowed s) ! i = mAllRitems s ! i"
    by (simp add: u)
  show "World (mAllRitems (UpdateReflectedAndShadowed s) ! 6) = wireWorld (mSimplePend s)"
    by (simp add: u)
  show "World (mAllRitems (UpdateReflectedAndShadowed s) ! 7)
          = XMMatrixMultiply (wireWorld (mSimplePend s)) (XMMatrixReflect mirrorPlane)"
    by (simp add: u)
  show "World (mAllRitems (UpdateReflectedAndShadowed s) ! 8)
          = XMMatrixMultiply (XMMatrixMultiply (wireWorld (mSimplePend s))
              (XMMatrixShadow shadowPlane (toMainLight s))) shadowOffSetY"
    by (simp add: u)
  show "World (mAllRitems (UpdateReflectedAndShadowed s) ! 9) = ballWorld (mSimplePend s)"
    by (simp add: u)
  show "World (mAllRitems (UpdateReflectedAndShadowed s) ! 10)
          = XMMatrixMultiply (ballWorld (mSimplePend s)) (XMMatrixReflect mirrorPlane)"
    by (simp add: u)
  show "World (mAllRitems (UpdateReflectedAndShadowed s) ! 11)
          = XMMatrixMultiply (XMMatrixMultiply (ballWorld (mSimplePend s))
              (XMMatrixShadow shadowPlane (toMainLight s))) shadowOffSetY"
    by (simp add: u)
  show "6 \<le> i \<Longrightarrow> i < 12 \<Longrightarrow>
          numFrameBufferFill (mAllRitems (UpdateReflectedAndShadowed s) ! i) = int gNumFrameBuffers"
    by (simp add: u)
qed


lemma Update_items:
  assumes "Update gpu t gt s = Some (t', evs, s')"
  shows "mAllRitems s' =
      mAllRitems (UpdateReflectedAndShadowed
        (EulerUpdate (gt_DeltaTime gt) (Update_cycle (UpdateCamera gt s))))"
    and "static_part s' = static_part s"
  using UpdateCBs_parts(1,3) [OF Update_Some(2) [OF assms]] by simp_all

lemma Update_worlds:
  assumes "Update gpu t gt s = Some (t', evs, s')" and "app_ok s"
  shows "i < 6 \<Longrightarrow> mAllRitems s' ! i = mAllRitems s ! i"
    and "World (mAllRitems s' ! 7)
          = XMMatrixMultiply (World (mAllRitems s' ! 6)) (XMMatrixReflect mirrorPlane)"
    and "World (mAllRitems s' ! 8)
          = XMMatrixMultiply (XMMatrixMultiply (World (mAllRitems s' ! 6))
              (XMMatrixShadow shadowPlane (toMainLight s))) shadowOffSetY"
    and "World (mAllRitems s' ! 10)
          = XMMatrixMultiply (World (mAllRitems s' ! 9)) (XMMatrixReflect mirrorPlane)"
    and "World (mAllRitems s' ! 11)
          = XMMatrixMultiply (XMMatrixMultiply (World (mAllRitems s' ! 9))
              (XMMatrixShadow shadowPlane (toMainLight s))) shadowOffSetY"
    and "6 \<le> i \<Longrightarrow> i < 12 \<Longrightarrow>
          numFrameBufferFill (mAllRitems s' ! i) = int gNumFrameBuffers"
proof -
  let ?s1 = "EulerUpdate (gt_DeltaTime gt) (Update_cycle (UpdateCamera gt s))"
  have ok: "app_ok ?s1" using assms(2) by (simp add: app_ok_def)
  have it: "mAllRitems ?s1 = mAllRitems s"
    by (simp add: EulerUpdate_def Update_cycle_def UpdateCamera_def Let_def)
  have li: "toMainLight ?s1 = toMainLight s"
    by (simp add: toMainLight_def EulerUpdate_def Update_cycle_def UpdateCamera_def Let_def)
  note e = Update_items(1) [OF assms(1)]
  note r = UpdateReflectedAndShadowed_items [OF ok]
  show "i < 6 \<Longrightarrow> mAllRitems s' ! i = mAllRitems s ! i"
    unfolding e using r(1) [of i] it by simp
  show "World (mAllRitems s' ! 7)
          = XMMatrixMultiply (World (mAllRitems s' ! 6)) (XMMatrixReflect mirrorPlane)"
    unfolding e r(2) r(3) ..
  show "World (mAllRitems s' ! 8)
          = XMMatrixMultiply (XMMatrixMultiply (World (mAllRitems s' ! 6))
              (XMMatrixShadow shadowPlane (toMainLight s))) shadowOffSetY"
    unfolding e r(2) r(4) li ..
  show "World (mAllRitems s' ! 10)
          = XMMatrixMultiply (World (mAllRitems s' ! 9)) (XMMatrixReflect mirrorPlane)"
    unfolding e r(5) r(6) ..
  show "World (mAllRitems s' ! 11)
          = XMMatrixMultiply (XMMatrixMultiply (World (mAllRitems s' ! 9))
              (XMMatrixShadow shadowPlane (toMainLight s))) shadowOffSetY"
    unfolding e r(5) r(7) li ..
  show "6 \<le> i \<Longrightarrow> i < 12 \<Longrightarrow>
          numFrameBufferFill (mAllRitems s' ! i) = int gNumFrameBuffers"
    unfolding e by (rule r(8))
qed

text \<open>
  C3 (what the code does where it departs from the claim). After the first \<^verbatim>\<open>Update\<close> that
  follows start-up, that is, when the first frame is drawn, the Reflected layer holds items 4, 7
  and 10 and the Shadow layer items 5, 8 and 11. The reflected wire and ball (7, 10) carry the
  world matrix of their base item (6, 9) times the reflection matrix of the mirror plane, and
  the shadow wire and ball (8, 11) carry it times the shadow matrix, times the translation by
  \<open>(0, 0.001, 0)\<close>, which are the products the claim names; the shadow matrix is taken for the
  direction of light 0 as \<^verbatim>\<open>mCommonCB\<close> holds it when the function runs, on this first frame
  still the start-up value, since \<^verbatim>\<open>UpdateCommonCB\<close> runs later. The reflected ceiling (4) and the
  shadow ceiling (5) do not: both still carry the world matrix of the ceiling itself (3), which
  differs from its reflection and, whatever the light, from its shadow projection.
\<close>

theorem C3_ceiling_copies_keep_base_world:
  "mRitemLayer first_update Reflected = [4, 7, 10]
   \<and> mRitemLayer first_update Shadow = [5, 8, 11]
   \<and> World (mAllRitems first_update ! 7)
       = XMMatrixMultiply (World (mAllRitems first_update ! 6)) (XMMatrixReflect mirrorPlane)
   \<and> World (mAllRitems first_update ! 10)
       = XMMatrixMultiply (World (mAllRitems first_update ! 9)) (XMMatrixReflect mirrorPlane)
   \<and> World (mAllRitems first_update ! 8)
       = XMMatrixMultiply (XMMatrixMultiply (World (mAllRitems first_update ! 6))
           (XMMatrixShadow shadowPlane (toMainLight (Initialize PendulumMotion_new))))
           shadowOffSetY
   \<and> World (mAllRitems first_update ! 11)
       = XMMatrixMultiply (XMMatrixMultiply (World (mAllRitems first_update ! 9))
           (XMMatrixShadow shadowPlane (toMainLight (Initialize PendulumMotion_new))))
           shadowOffSetY
   \<and> World (mAllRitems first_update ! 4) = World (mAllRitems first_update ! 3)
   \<and> World (mAllRitems first_update ! 4)
       \<noteq> XMMatrixMultiply (World (mAllRitems first_update ! 3)) (XMMatrixReflect mirrorPlane)
   \<and> World (mAllRitems first_update ! 5) = World (mAllRitems first_update ! 3)
   \<and> (\<forall>L. World (mAllRitems first_update ! 5)
       \<noteq> XMMatrixMultiply (XMMatrixMultiply (World (mAllRitems first_update ! 3))
           (XMMatrixShadow shadowPlane L)) shadowOffSetY)"
proof -
  from first_update(2) obtain t' evs where
    u: "Update gpu_example 0 gt_example (Initialize PendulumMotion_new)
      = Some (t', evs, first_update)" by blast
  note w = Update_worlds [OF u app_ok_Initialize]
  have "static_part first_update = static_part (Initialize PendulumMotion_new)"
    by (rule Update_items(2) [OF u])
  then have l: "mRitemLayer first_update Reflected = [4, 7, 10]"
    "mRitemLayer first_update Shadow = [5, 8, 11]"
    by (simp_all add: static_part_def start_up_defs)
  have c: "World (mAllRitems first_update ! 3) = XMMatrixTranslation 0 6 (- 5)"
    "World (mAllRitems first_update ! 4) = XMMatrixTranslation 0 6 (- 5)"
    "World (mAllRitems first_update ! 5) = XMMatrixTranslation 0 6 (- 5)"
    by (simp_all add: w(1) start_up_defs)
  show ?thesis
    unfolding c using l w(2-5) ceiling_not_reflected ceiling_not_projected by simp
qed

section \<open>Refreshing the per-slot buffers\<close>

lemma UpdateObjectCBs_loop_calls:
  "UpdateObjectCBs_loop items cb = CopyData_all (UpdateObjectCBs_calls items) cb"
  by (induction items arbitrary: cb)
     (simp_all add: UpdateObjectCBs_calls_def split: option.splits)

lemma UpdateMaterialCBs_loop_calls:
  "map_option snd (UpdateMaterialCBs_loop mats cb) = CopyData_all (UpdateMaterialCBs_calls mats) cb"
proof (induction mats arbitrary: cb)
  case Nil
  show ?case by (simp add: UpdateMaterialCBs_calls_def)
next
  case (Cons a mats)
  obtain n m where a: "a = (n, m)" by (cases a)
  have c: "UpdateMaterialCBs_calls ((n, m) # mats) =
      (if NumFramesDirty m > 0 then [(MatCBIndex m, matConstants m)] else [])
      @ UpdateMaterialCBs_calls mats"
    by (simp add: UpdateMaterialCBs_calls_def)
  show ?case
    unfolding a c using Cons [of cb] Cons [of "cb[MatCBIndex m := Some (matConstants m)]"]
    by (auto simp add: CopyData_def split: option.splits)
qed

lemma UpdateMaterialCBs_loop_counters:
  "UpdateMaterialCBs_loop mats cb = Some (mats', cb') \<Longrightarrow>
     map (NumFramesDirty \<circ> snd) mats'
       = map (\<lambda>n. if n > 0 then n - 1 else n) (map (NumFramesDirty \<circ> snd) mats)"
proof (induction mats arbitrary: cb mats' cb')
  case Nil
  then show ?case by simp
next
  case (Cons a mats)
  obtain n m where a: "a = (n, m)" by (cases a)
  from Cons(2) show ?case unfolding a
    by (auto split: if_splits option.splits dest!: Cons(1))
qed

lemma UpdateObjectCBs_loop_other:
  "UpdateObjectCBs_loop items cb = Some cb' \<Longrightarrow> i \<notin> ObjCBIndex ` set items \<Longrightarrow> cb' ! i = cb ! i"
proof (induction items arbitrary: cb)
  case Nil
  then show ?case by simp
next
  case (Cons e es)
  from Cons(3) have n: "i \<noteq> ObjCBIndex e" "i \<notin> ObjCBIndex ` set es" by auto
  show ?case
  proof (cases "numFrameBufferFill e > 0")
    case True
    with Cons(2) have "UpdateObjectCBs_loop es (cb[ObjCBIndex e := Some (objConstants e)]) = Some cb'"
      by (auto simp add: CopyData_def split: if_splits option.splits)
    from Cons(1) [OF this n(2)] n(1) show ?thesis by simp
  next
    case False
    with Cons(2) have "UpdateObjectCBs_loop es cb = Some cb'" by simp
    from Cons(1) [OF this n(2)] show ?thesis .
  qed
qed

lemma UpdateObjectCBs_loop_written:
  "UpdateObjectCBs_loop items cb = Some cb' \<Longrightarrow> distinct (map ObjCBIndex items) \<Longrightarrow>
     e \<in> set items \<Longrightarrow> numFrameBufferFill e > 0 \<Longrightarrow> cb' ! ObjCBIndex e = Some (objConstants e)"
proof (induction items arbitrary: cb)
  case Nil
  then show ?case by simp
next
  case (Cons x xs)
  from Cons(3) have d: "ObjCBIndex x \<notin> ObjCBIndex ` set xs" "distinct (map ObjCBIndex xs)" by auto
  show ?case
  proof (cases "e = x")
    case True
    with Cons(2,5) have l: "ObjCBIndex x < length cb"
      and r: "UpdateObjectCBs_loop xs (cb[ObjCBIndex x := Some (objConstants x)]) = Some cb'"
      by (auto simp add: CopyData_def split: if_splits option.splits)
    from UpdateObjectCBs_loop_other [OF r d(1)] l True show ?thesis by simp
  next
    case False
    with Cons(4) have e: "e \<in> set xs" by simp
    from Cons(2) obtain cb1 where "UpdateObjectCBs_loop xs cb1 = Some cb'"
      by (auto simp add: CopyData_def split: if_splits option.splits)
    from Cons(1) [OF this d(2) e Cons(5)] show ?thesis .
  qed
qed


lemma Update_effect:
  assumes "Update gpu t gt s = Some (t', evs, s')"
  shows "j \<noteq> (mCurrentFrameBufferIndex s + 1) mod gNumFrameBuffers \<Longrightarrow>
           mFrameBuffers s' ! j = mFrameBuffers s ! j"
    and "UpdateObjectCBs_loop (mAllRitems s')
           (ObjectCB (mFrameBuffers s ! ((mCurrentFrameBufferIndex s + 1) mod gNumFrameBuffers)))
         = Some (ObjectCB (mFrameBuffers s' ! ((mCurrentFrameBufferIndex s + 1) mod gNumFrameBuffers)))"
    and "\<exists>cb. UpdateMaterialCBs_loop (mMaterials s)
           (MaterialCB (mFrameBuffers s ! ((mCurrentFrameBufferIndex s + 1) mod gNumFrameBuffers)))
         = Some (mMaterials s', cb)"
    and "mCurrentFrameBufferIndex s' = (mCurrentFrameBufferIndex s + 1) mod gNumFrameBuffers"
    and "mCurrentFrameBuffer s' = Some ((mCurrentFrameBufferIndex s + 1) mod gNumFrameBuffers)"
    and "mCurrentFence s' = mCurrentFence s"
    and "map Fence (mFrameBuffers s') = map Fence (mFrameBuffers s)"
proof -
  let ?s0 = "Update_cycle (UpdateCamera gt s)"
  let ?k = "(mCurrentFrameBufferIndex s + 1) mod gNumFrameBuffers"
  let ?e = "UpdateReflectedAndShadowed (EulerUpdate (gt_DeltaTime gt) ?s0)"
  note c = Update_Some(2) [OF assms]
  from UpdateCBs_Some [OF c] obtain s1 s2 s3 where
    1: "UpdateObjectCBs gt ?s0 = Some s1" and 2: "UpdateMaterialCBs gt s1 = Some s2"
    and 3: "UpdateCommonCB gt s2 = Some s3" and 4: "UpdateReflectedCommonCB gt s3 = Some s'"
    by blast
  have k0: "mCurrentFrameBuffer ?s0 = Some ?k" "mCurrentFrameBufferIndex ?s0 = ?k"
    "mFrameBuffers ?s0 = mFrameBuffers s" "mCurrentFence ?s0 = mCurrentFence s"
    by (simp_all add: Update_cycle_parts UpdateCamera_parts)
  have m0: "mMaterials ?e = mMaterials s"
    by (simp add: UpdateReflectedAndShadowed_def EulerUpdate_def Update_cycle_def UpdateCamera_def
        Let_def)
  note f = fence_part_D [OF UpdateCBs_parts(2) [OF c]]
  show "mCurrentFrameBufferIndex s' = ?k" "mCurrentFrameBuffer s' = Some ?k"
    "mCurrentFence s' = mCurrentFence s" "map Fence (mFrameBuffers s') = map Fence (mFrameBuffers s)"
    using f k0 by simp_all
  note f1 = fence_part_D [OF UpdateObjectCBs_parts(2) [OF 1]]
  note f2 = fence_part_D [OF UpdateMaterialCBs_parts(2) [OF 2]]
  note f3 = fence_part_D [OF UpdateCommonCB_parts(2) [OF 3]]
  from UpdateObjectCBs_Some [OF 1] k0 obtain cb1 where
    l0: "?k < length (mFrameBuffers s)"
    and o: "UpdateObjectCBs_loop (mAllRitems ?e) (ObjectCB (mFrameBuffers s ! ?k)) = Some cb1"
    and s1: "s1 = ?e\<lparr>mFrameBuffers := (mFrameBuffers s)
             [?k := (mFrameBuffers s ! ?k)\<lparr>ObjectCB := cb1\<rparr>]\<rparr>"
    by auto
  have k1: "mCurrentFrameBuffer s1 = Some ?k" using f1(2) k0 by simp
  from UpdateMaterialCBs_Some [OF 2] k1 obtain mats cb2 where
    m: "UpdateMaterialCBs_loop (mMaterials s1) (MaterialCB (mFrameBuffers s1 ! ?k)) = Some (mats, cb2)"
    and s2: "s2 = s1\<lparr>mMaterials := mats,
               mFrameBuffers := (mFrameBuffers s1)[?k := (mFrameBuffers s1 ! ?k)\<lparr>MaterialCB := cb2\<rparr>]\<rparr>"
    by auto
  have k2: "mCurrentFrameBuffer s2 = Some ?k" using f2(2) k1 by simp
  from UpdateCommonCB_Some [OF 3] k2 have
    s3: "s3 = s2\<lparr>mCommonCB := UpdateCommonCB_fill gt s2,
               mFrameBuffers := (mFrameBuffers s2)
                 [?k := (mFrameBuffers s2 ! ?k)
                    \<lparr>CommonCB := (CommonCB (mFrameBuffers s2 ! ?k))
                                    [0 := Some (UpdateCommonCB_fill gt s2)]\<rparr>]\<rparr>"
    by auto
  have k3: "mCurrentFrameBuffer s3 = Some ?k" using f3(2) k2 by simp
  from UpdateReflectedCommonCB_Some [OF 4] k3 have
    s': "s' = s3\<lparr>mReflectedCommonCB := UpdateReflectedCommonCB_fill s3,
               mFrameBuffers := (mFrameBuffers s3)
                 [?k := (mFrameBuffers s3 ! ?k)
                    \<lparr>CommonCB := (CommonCB (mFrameBuffers s3 ! ?k))
                                    [1 := Some (UpdateReflectedCommonCB_fill s3)]\<rparr>]\<rparr>"
    by auto
  have fb1: "mFrameBuffers s1 = (mFrameBuffers s)[?k := (mFrameBuffers s ! ?k)\<lparr>ObjectCB := cb1\<rparr>]"
    unfolding s1 by simp
  have fb2: "mFrameBuffers s2 = (mFrameBuffers s1)[?k := (mFrameBuffers s1 ! ?k)\<lparr>MaterialCB := cb2\<rparr>]"
    unfolding s2 by simp
  have fb3: "mFrameBuffers s3 = (mFrameBuffers s2)
                 [?k := (mFrameBuffers s2 ! ?k)
                    \<lparr>CommonCB := (CommonCB (mFrameBuffers s2 ! ?k))
                                    [0 := Some (UpdateCommonCB_fill gt s2)]\<rparr>]"
    unfolding s3 by simp
  have fb4: "mFrameBuffers s' = (mFrameBuffers s3)
                 [?k := (mFrameBuffers s3 ! ?k)
                    \<lparr>CommonCB := (CommonCB (mFrameBuffers s3 ! ?k))
                                    [1 := Some (UpdateReflectedCommonCB_fill s3)]\<rparr>]"
    unfolding s' by simp
  show "j \<noteq> ?k \<Longrightarrow> mFrameBuffers s' ! j = mFrameBuffers s ! j"
    unfolding fb4 fb3 fb2 fb1 by simp
  have "ObjectCB (mFrameBuffers s' ! ?k) = cb1"
    unfolding fb4 fb3 fb2 fb1 using l0 by simp
  moreover have "mAllRitems s' = mAllRitems ?e" by (rule Update_items(1) [OF assms])
  ultimately show "UpdateObjectCBs_loop (mAllRitems s') (ObjectCB (mFrameBuffers s ! ?k))
         = Some (ObjectCB (mFrameBuffers s' ! ?k))"
    using o by simp
  have "mMaterials s1 = mMaterials s" unfolding s1 using m0 by simp
  moreover have "MaterialCB (mFrameBuffers s1 ! ?k) = MaterialCB (mFrameBuffers s ! ?k)"
    unfolding fb1 using l0 by simp
  moreover have "mMaterials s' = mats" unfolding s' s3 s2 by simp
  ultimately show "\<exists>cb. UpdateMaterialCBs_loop (mMaterials s) (MaterialCB (mFrameBuffers s ! ?k))
         = Some (mMaterials s', cb)"
    using m by auto
qed


lemma Tick_step:
  assumes ok: "app_ok s"
    and ar: "\<forall>i<12. numFrameBufferFill (mAllRitems s ! i) = 3"
    and tu: "t \<le> u"
    and fe: "Fence (mFrameBuffers s ! ((mCurrentFrameBufferIndex s + 1) mod gNumFrameBuffers)) \<le> gpu u"
  shows "\<exists>t' evs cmds s'. Tick gpu t gt s = Some (t', evs, cmds, s') \<and> app_ok s'
     \<and> (\<forall>i<12. numFrameBufferFill (mAllRitems s' ! i) = 3)
     \<and> (\<forall>i<6. mAllRitems s' ! i = mAllRitems s ! i)
     \<and> mCurrentFrameBufferIndex s' = (mCurrentFrameBufferIndex s + 1) mod gNumFrameBuffers
     \<and> mCurrentFence s' = mCurrentFence s + 1
     \<and> Fence (mFrameBuffers s' ! ((mCurrentFrameBufferIndex s + 1) mod gNumFrameBuffers))
         = mCurrentFence s + 1
     \<and> (\<forall>j. j \<noteq> (mCurrentFrameBufferIndex s + 1) mod gNumFrameBuffers
            \<longrightarrow> mFrameBuffers s' ! j = mFrameBuffers s ! j)
     \<and> map (NumFramesDirty \<circ> snd) (mMaterials s')
         = map (\<lambda>n. if n > 0 then n - 1 else n) (map (NumFramesDirty \<circ> snd) (mMaterials s))
     \<and> ObjectCB (mFrameBuffers s' ! ((mCurrentFrameBufferIndex s + 1) mod gNumFrameBuffers)) ! 0
         = Some (objConstants (mAllRitems s ! 0))"
proof -
  let ?k = "(mCurrentFrameBufferIndex s + 1) mod gNumFrameBuffers"
  have k: "?k < 3" by (simp add: gNumFrameBuffers_def)
  from Update_succeeds [where gpu = gpu, OF ok tu fe] obtain t' evs s1 where
    u: "Update gpu t gt s = Some (t', evs, s1)" by (metis prod_cases3)
  note w = Update_worlds [OF u ok]
  note e = Update_effect [OF u]
  have ok1: "app_ok s1" using ok Update_items(2) [OF u] by (simp add: app_ok_def)
  from Draw_succeeds [OF ok1 e(5) k] obtain cmds signal s2 where
    d: "Draw gt s1 = Some (cmds, signal, s2)" by (metis prod_cases3)
  from Draw_Some [OF d] e(5) have l1: "?k < length (mFrameBuffers s1)"
    and s2: "s2 = s1\<lparr>mCurrentFence := mCurrentFence s1 + 1,
               mFrameBuffers := (mFrameBuffers s1)
                 [?k := (mFrameBuffers s1 ! ?k)\<lparr>Fence := mCurrentFence s1 + 1\<rparr>]\<rparr>"
    by auto
  have tick: "Tick gpu t gt s = Some (t', evs, cmds, s2)"
    by (simp add: Tick_def u d)
  have ok2: "app_ok s2" using ok1 Draw_static_part [OF d] by (simp add: app_ok_def)
  have it: "mAllRitems s2 = mAllRitems s1" unfolding s2 by simp
  have a: "\<forall>i<12. numFrameBufferFill (mAllRitems s2 ! i) = 3"
  proof (intro allI impI)
    fix i :: nat assume i: "i < 12"
    show "numFrameBufferFill (mAllRitems s2 ! i) = 3"
    proof (cases "i < 6")
      case True
      with w(1) [of i] ar i show ?thesis unfolding it by simp
    next
      case False
      with w(6) [of i] i show ?thesis unfolding it by (simp add: gNumFrameBuffers_def)
    qed
  qed
  have b: "\<forall>i<6. mAllRitems s2 ! i = mAllRitems s ! i"
    unfolding it using w(1) by simp
  have c: "\<forall>j. j \<noteq> ?k \<longrightarrow> mFrameBuffers s2 ! j = mFrameBuffers s ! j"
    unfolding s2 using e(1) by simp
  from e(3) obtain cb where
    "UpdateMaterialCBs_loop (mMaterials s) (MaterialCB (mFrameBuffers s ! ?k)) = Some (mMaterials s1, cb)"
    by blast
  from UpdateMaterialCBs_loop_counters [OF this]
  have m: "map (NumFramesDirty \<circ> snd) (mMaterials s2)
         = map (\<lambda>n. if n > 0 then n - 1 else n) (map (NumFramesDirty \<circ> snd) (mMaterials s))"
    unfolding s2 by simp
  have ix: "map ObjCBIndex (mAllRitems s1) = [0, 1, 2, 3, 4, 5, 6, 7, 8, 9, 10, 11]"
    and len: "length (mAllRitems s1) = 12"
    by (rule app_ok_items(1,2) [OF ok1])+
  have di: "distinct (map ObjCBIndex (mAllRitems s1))" unfolding ix by simp
  have i0: "ObjCBIndex (mAllRitems s1 ! 0) = 0"
    using arg_cong [OF ix, of "\<lambda>xs. xs ! 0"] len by simp
  have me: "mAllRitems s1 ! 0 \<in> set (mAllRitems s1)" using len by simp
  have po: "numFrameBufferFill (mAllRitems s1 ! 0) > 0"
    using w(1) [of 0] ar by simp
  from UpdateObjectCBs_loop_written [OF e(2) di me po]
  have "ObjectCB (mFrameBuffers s1 ! ?k) ! 0 = Some (objConstants (mAllRitems s1 ! 0))"
    unfolding i0 .
  with w(1) [of 0]
  have "ObjectCB (mFrameBuffers s1 ! ?k) ! 0 = Some (objConstants (mAllRitems s ! 0))"
    by simp
  then have o: "ObjectCB (mFrameBuffers s2 ! ?k) ! 0 = Some (objConstants (mAllRitems s ! 0))"
    unfolding s2 using l1 by simp
  have f: "mCurrentFence s2 = mCurrentFence s + 1" "Fence (mFrameBuffers s2 ! ?k) = mCurrentFence s + 1"
    "mCurrentFrameBufferIndex s2 = ?k"
    unfolding s2 using l1 e(4,6) by simp_all
  from tick ok2 a b c m o f show ?thesis by blast
qed


lemma first_three_ticks:
  "\<exists>t3 s3. Ticks gpu_example gt_example 3 (0, Initialize PendulumMotion_new) = Some (t3, s3)
     \<and> app_ok s3
     \<and> (\<forall>i<12. numFrameBufferFill (mAllRitems s3 ! i) = 3)
     \<and> mAllRitems s3 ! 0 = floorRitem
     \<and> mCurrentFrameBufferIndex s3 = 0
     \<and> Fence (mFrameBuffers s3 ! 1) = 1
     \<and> map (NumFramesDirty \<circ> snd) (mMaterials s3) = [0, 0, 0, 0, 0]
     \<and> ObjectCB (mFrameBuffers s3 ! 1) ! 0 = Some (objConstants floorRitem)"
proof -
  let ?s0 = "Initialize PendulumMotion_new"
  have "list_all (\<lambda>e. numFrameBufferFill e = 3) (mAllRitems ?s0)"
    by (simp add: start_up_defs)
  then have ar0: "\<forall>i<12. numFrameBufferFill (mAllRitems ?s0 ! i) = 3"
    by (simp add: list_all_length app_ok_items(2) [OF app_ok_Initialize])
  have i0: "mCurrentFrameBufferIndex ?s0 = 0" "mCurrentFence ?s0 = 0"
    "mAllRitems ?s0 ! 0 = floorRitem"
    "map (NumFramesDirty \<circ> snd) (mMaterials ?s0) = [3, 3, 3, 3, 3]"
    by (simp_all add: start_up_defs)
  have f0: "Fence (mFrameBuffers ?s0 ! j) = 0" if "j < 3" for j
  proof -
    have "list_all (\<lambda>fb. Fence fb = 0) (mFrameBuffers ?s0)"
      by (simp add: start_up_defs numeral_3_eq_3)
    with that show ?thesis
      by (simp add: list_all_length app_ok_ring(1) [OF app_ok_Initialize])
  qed
  have k0: "(mCurrentFrameBufferIndex ?s0 + 1) mod gNumFrameBuffers = 1"
    unfolding i0 by (simp add: gNumFrameBuffers_def)
  have "Fence (mFrameBuffers ?s0 ! ((mCurrentFrameBufferIndex ?s0 + 1) mod gNumFrameBuffers))
      \<le> gpu_example 0"
    unfolding k0 by (simp add: f0)
  from Tick_step [where gpu = gpu_example and gt = gt_example,
      OF app_ok_Initialize ar0 le_refl this, unfolded k0, unfolded i0]
  obtain t1 w1 c1 s1 where
    t1: "Tick gpu_example 0 gt_example ?s0 = Some (t1, w1, c1, s1)" and ok1: "app_ok s1"
    and ar1: "\<forall>i<12. numFrameBufferFill (mAllRitems s1 ! i) = 3"
    and it1: "\<forall>i<6. mAllRitems s1 ! i = mAllRitems ?s0 ! i"
    and ix1: "mCurrentFrameBufferIndex s1 = 1"
    and fe1: "Fence (mFrameBuffers s1 ! 1) = 1"
    and ot1: "\<forall>j. j \<noteq> 1 \<longrightarrow> mFrameBuffers s1 ! j = mFrameBuffers ?s0 ! j"
    and ma1: "map (NumFramesDirty \<circ> snd) (mMaterials s1) = [2, 2, 2, 2, 2]"
    and ob1: "ObjectCB (mFrameBuffers s1 ! 1) ! 0 = Some (objConstants floorRitem)"
    by auto
  have k1: "(mCurrentFrameBufferIndex s1 + 1) mod gNumFrameBuffers = 2"
    unfolding ix1 by (simp add: gNumFrameBuffers_def)
  have "Fence (mFrameBuffers s1 ! ((mCurrentFrameBufferIndex s1 + 1) mod gNumFrameBuffers))
      \<le> gpu_example t1"
    unfolding k1 using ot1 by (simp add: f0)
  from Tick_step [where gpu = gpu_example and gt = gt_example,
      OF ok1 ar1 le_refl this, unfolded k1, unfolded ma1]
  obtain t2 w2 c2 s2 where
    t2: "Tick gpu_example t1 gt_example s1 = Some (t2, w2, c2, s2)" and ok2: "app_ok s2"
    and ar2: "\<forall>i<12. numFrameBufferFill (mAllRitems s2 ! i) = 3"
    and it2: "\<forall>i<6. mAllRitems s2 ! i = mAllRitems s1 ! i"
    and ix2: "mCurrentFrameBufferIndex s2 = 2"
    and ot2: "\<forall>j. j \<noteq> 2 \<longrightarrow> mFrameBuffers s2 ! j = mFrameBuffers s1 ! j"
    and ma2: "map (NumFramesDirty \<circ> snd) (mMaterials s2) = [1, 1, 1, 1, 1]"
    by auto
  have k2: "(mCurrentFrameBufferIndex s2 + 1) mod gNumFrameBuffers = 0"
    unfolding ix2 by (simp add: gNumFrameBuffers_def)
  have "Fence (mFrameBuffers s2 ! ((mCurrentFrameBufferIndex s2 + 1) mod gNumFrameBuffers))
      \<le> gpu_example t2"
    unfolding k2 using ot1 ot2 by (simp add: f0)
  from Tick_step [where gpu = gpu_example and gt = gt_example,
      OF ok2 ar2 le_refl this, unfolded k2, unfolded ma2]
  obtain t3 w3 c3 s3 where
    t3: "Tick gpu_example t2 gt_example s2 = Some (t3, w3, c3, s3)" and ok3: "app_ok s3"
    and ar3: "\<forall>i<12. numFrameBufferFill (mAllRitems s3 ! i) = 3"
    and it3: "\<forall>i<6. mAllRitems s3 ! i = mAllRitems s2 ! i"
    and ix3: "mCurrentFrameBufferIndex s3 = 0"
    and ot3: "\<forall>j. j \<noteq> 0 \<longrightarrow> mFrameBuffers s3 ! j = mFrameBuffers s2 ! j"
    and ma3: "map (NumFramesDirty \<circ> snd) (mMaterials s3) = [0, 0, 0, 0, 0]"
    by auto
  have run: "Ticks gpu_example gt_example 3 (0, ?s0) = Some (t3, s3)"
    by (simp add: numeral_3_eq_3 t1 t2 t3)
  have fl: "mAllRitems s3 ! 0 = floorRitem" using it3 it2 it1 i0(3) by simp
  have sl: "mFrameBuffers s3 ! 1 = mFrameBuffers s1 ! 1" using ot3 ot2 by simp
  have fe3: "Fence (mFrameBuffers s3 ! 1) = 1" unfolding sl by (rule fe1)
  have ob3: "ObjectCB (mFrameBuffers s3 ! 1) ! 0 = Some (objConstants floorRitem)"
    unfolding sl by (rule ob1)
  from run ok3 ar3 fl ix3 fe3 ma3 ob3 show ?thesis by (intro exI conjI)
qed


text \<open>
  C2 (what the code does where it departs from the claim). Start the application and let
  nothing change the floor (render item 0, buffer index 0). After three ticks, which have
  written the floor's constants once into each of the three slots, the floor's refresh counter
  is still 3, as is every other render item's: \<^verbatim>\<open>UpdateObjectCBs\<close> tests the counter and never
  decrements it. The \<^verbatim>\<open>Update\<close> of the fourth tick therefore runs \<^verbatim>\<open>CopyData\<close> for all twelve
  render items again, the floor included, into slot 1, which has held the floor's constants
  since the first tick. The materials, whose loop does decrement, have counter 0 after the
  three ticks and are not written on the fourth.
\<close>

theorem C2_render_item_counter_never_decremented:
  "Ticks gpu_example gt_example 3 (0, Initialize PendulumMotion_new) \<noteq> None
   \<and> mCurrentFrameBufferIndex (snd after_three_ticks) = 0
   \<and> map numFrameBufferFill (mAllRitems (snd after_three_ticks))
       = [3, 3, 3, 3, 3, 3, 3, 3, 3, 3, 3, 3]
   \<and> map (NumFramesDirty \<circ> snd) (mMaterials (snd after_three_ticks)) = [0, 0, 0, 0, 0]
   \<and> ObjectCB (mFrameBuffers (snd after_three_ticks) ! 1) ! 0 = Some (objConstants floorRitem)
   \<and> Update gpu_example (fst after_three_ticks) gt_example (snd after_three_ticks) \<noteq> None
   \<and> mCurrentFrameBufferIndex fourth_update = 1
   \<and> mAllRitems fourth_update ! 0 = floorRitem
   \<and> CopyData_all (UpdateObjectCBs_calls (mAllRitems fourth_update))
         (ObjectCB (mFrameBuffers (snd after_three_ticks) ! 1))
       = Some (ObjectCB (mFrameBuffers fourth_update ! 1))
   \<and> map fst (UpdateObjectCBs_calls (mAllRitems fourth_update))
       = [0, 1, 2, 3, 4, 5, 6, 7, 8, 9, 10, 11]
   \<and> UpdateMaterialCBs_calls (mMaterials (snd after_three_ticks)) = []
   \<and> map numFrameBufferFill (mAllRitems fourth_update)
       = [3, 3, 3, 3, 3, 3, 3, 3, 3, 3, 3, 3]"
proof -
  from first_three_ticks obtain t3 s3 where
    run: "Ticks gpu_example gt_example 3 (0, Initialize PendulumMotion_new) = Some (t3, s3)"
    and ok3: "app_ok s3"
    and ar3: "\<forall>i<12. numFrameBufferFill (mAllRitems s3 ! i) = 3"
    and fl3: "mAllRitems s3 ! 0 = floorRitem"
    and ix3: "mCurrentFrameBufferIndex s3 = 0"
    and fe3: "Fence (mFrameBuffers s3 ! 1) = 1"
    and ma3: "map (NumFramesDirty \<circ> snd) (mMaterials s3) = [0, 0, 0, 0, 0]"
    and ob3: "ObjectCB (mFrameBuffers s3 ! 1) ! 0 = Some (objConstants floorRitem)"
    by (elim exE conjE) (rule that)
  have a3: "after_three_ticks = (t3, s3)" by (simp add: after_three_ticks_def run)
  have counters: "map numFrameBufferFill (mAllRitems s) = [3, 3, 3, 3, 3, 3, 3, 3, 3, 3, 3, 3]"
    if "length (mAllRitems s) = 12" and "\<forall>i<12. numFrameBufferFill (mAllRitems s ! i) = 3" for s
    using that by (intro nth_equalityI) (simp_all add: nth_Cons')
  have k3: "(mCurrentFrameBufferIndex s3 + 1) mod gNumFrameBuffers = 1"
    unfolding ix3 by (simp add: gNumFrameBuffers_def)
  have "Fence (mFrameBuffers s3 ! ((mCurrentFrameBufferIndex s3 + 1) mod gNumFrameBuffers))
      \<le> gpu_example (t3 + 5)"
    unfolding k3 fe3 by (simp add: gpu_example_def)
  from Update_succeeds [where gpu = gpu_example and gt = gt_example and u = "t3 + 5", OF ok3 _ this]
  obtain t4 w4 s4 where u: "Update gpu_example t3 gt_example s3 = Some (t4, w4, s4)"
    by (metis le_add1 prod_cases3)
  have f4: "fourth_update = s4" by (simp add: fourth_update_def a3 u)
  note w = Update_worlds [OF u ok3]
  note e = Update_effect [OF u, unfolded k3]
  have ok4: "app_ok s4" using ok3 Update_items(2) [OF u] by (simp add: app_ok_def)
  have ar4: "\<forall>i<12. numFrameBufferFill (mAllRitems s4 ! i) = 3"
  proof (intro allI impI)
    fix i :: nat assume i: "i < 12"
    show "numFrameBufferFill (mAllRitems s4 ! i) = 3"
    proof (cases "i < 6")
      case True
      with w(1) [of i] ar3 i show ?thesis by simp
    next
      case False
      with w(6) [of i] i show ?thesis by (simp add: gNumFrameBuffers_def)
    qed
  qed
  have c4: "map numFrameBufferFill (mAllRitems s4) = [3, 3, 3, 3, 3, 3, 3, 3, 3, 3, 3, 3]"
    by (rule counters [OF app_ok_items(2) [OF ok4] ar4])
  have "list_all (\<lambda>n. n > 0) (map numFrameBufferFill (mAllRitems s4))" unfolding c4 by simp
  then have "filter (\<lambda>elem. numFrameBufferFill elem > 0) (mAllRitems s4) = mAllRitems s4"
    by (simp add: list.pred_map comp_def list_all_iff)
  then have calls: "map fst (UpdateObjectCBs_calls (mAllRitems s4))
       = [0, 1, 2, 3, 4, 5, 6, 7, 8, 9, 10, 11]"
    by (simp add: UpdateObjectCBs_calls_def comp_def app_ok_items(1) [OF ok4])
  have "list_all (\<lambda>n. \<not> n > 0) (map (NumFramesDirty \<circ> snd) (mMaterials s3))"
    unfolding ma3 by simp
  then have "filter (\<lambda>(name, mat). NumFramesDirty mat > 0) (mMaterials s3) = []"
    by (auto simp add: list.pred_map comp_def list_all_iff filter_empty_conv)
  then have mcalls: "UpdateMaterialCBs_calls (mMaterials s3) = []"
    by (simp add: UpdateMaterialCBs_calls_def)
  have wr: "CopyData_all (UpdateObjectCBs_calls (mAllRitems s4)) (ObjectCB (mFrameBuffers s3 ! 1))
       = Some (ObjectCB (mFrameBuffers s4 ! 1))"
    using e(2) by (simp add: UpdateObjectCBs_loop_calls)
  have fl4: "mAllRitems s4 ! 0 = floorRitem" using w(1) [of 0] fl3 by simp
  show ?thesis
    unfolding f4 a3
    using run ix3 counters [OF app_ok_items(2) [OF ok3] ar3] ma3 ob3 u e(4) fl4 wr calls mcalls c4
    by simp
qed

section \<open>The slot handed to the CPU\<close>

text \<open>
  C1. Whenever \<^verbatim>\<open>Update\<close>, called at time \<open>t\<close>, returns, it has advanced the cursor to
  \<open>(cursor + 1) mod 3\<close> and made that slot the current one, with the stamp recorded in it
  unchanged. Its trace is the wait, if any, followed by the write of that slot's buffers at the
  time \<open>t'\<close> the wait has left: it blocked exactly when the stamp was non-zero and above the
  completed value the GPU reported at \<open>t\<close>, and then on one wait keyed to that very stamp, from
  \<open>t\<close> to \<open>t'\<close>, before the write. At \<open>t'\<close> the GPU's completed value is at least the stamp, so
  the slot is never written while its stamp is above the completed counter; at every time from
  \<open>t\<close> up to \<open>t'\<close> it was below the stamp, so the caller went on as soon as the stamp was
  reached, and at once if it did not block. No other slot of the ring is touched. The function
  does return when the state is well formed and the GPU reaches the stamp at some time \<open>u\<close> from
  \<open>t\<close> on.
\<close>

theorem C1_Update_fence_gate:
  "(Update gpu t gt s = Some (t', evs, s') \<longrightarrow>
      mCurrentFrameBufferIndex s' = (mCurrentFrameBufferIndex s + 1) mod gNumFrameBuffers
    \<and> mCurrentFrameBuffer s' = Some (mCurrentFrameBufferIndex s')
    \<and> Fence (mFrameBuffers s' ! mCurrentFrameBufferIndex s')
        = Fence (mFrameBuffers s ! mCurrentFrameBufferIndex s')
    \<and> evs = (if Fence (mFrameBuffers s ! mCurrentFrameBufferIndex s') \<noteq> 0
                  \<and> gpu t < Fence (mFrameBuffers s ! mCurrentFrameBufferIndex s')
               then [Waited (Fence (mFrameBuffers s ! mCurrentFrameBufferIndex s')) t t'] else [])
            @ [Written (mCurrentFrameBufferIndex s') t']
    \<and> Fence (mFrameBuffers s ! mCurrentFrameBufferIndex s') \<le> gpu t'
    \<and> t \<le> t'
    \<and> (t \<le> v \<and> v < t' \<longrightarrow> gpu v < Fence (mFrameBuffers s ! mCurrentFrameBufferIndex s'))
    \<and> (\<not> (Fence (mFrameBuffers s ! mCurrentFrameBufferIndex s') \<noteq> 0
            \<and> gpu t < Fence (mFrameBuffers s ! mCurrentFrameBufferIndex s')) \<longrightarrow> t' = t)
    \<and> (j \<noteq> mCurrentFrameBufferIndex s' \<longrightarrow> mFrameBuffers s' ! j = mFrameBuffers s ! j)
    \<and> UpdateCBs gt (Update_cycle (UpdateCamera gt s)) = Some s')
   \<and> (app_ok s \<and> t \<le> u
        \<and> Fence (mFrameBuffers s ! ((mCurrentFrameBufferIndex s + 1) mod gNumFrameBuffers))
            \<le> gpu u
      \<longrightarrow> Update gpu t gt s \<noteq> None)"
proof (intro conjI impI)
  assume "app_ok s \<and> t \<le> u
        \<and> Fence (mFrameBuffers s ! ((mCurrentFrameBufferIndex s + 1) mod gNumFrameBuffers))
            \<le> gpu u"
  then show "Update gpu t gt s \<noteq> None"
    using Update_succeeds [of s t u gpu gt] by auto
next
  assume u: "Update gpu t gt s = Some (t', evs, s')"
  let ?s1 = "Update_cycle (UpdateCamera gt s)"
  let ?k = "(mCurrentFrameBufferIndex s + 1) mod gNumFrameBuffers"
  from Update_Some(1) [OF u] obtain waits where
    w: "Update_wait gpu t ?s1 = Some (t', waits)" and e: "evs = waits @ [Written ?k t']"
    by blast
  note c = Update_Some(2) [OF u]
  note f = fence_part_D [OF UpdateCBs_parts(2) [OF c]]
  have cur: "mCurrentFrameBuffer ?s1 = Some ?k" "mCurrentFrameBufferIndex ?s1 = ?k"
    "mFrameBuffers ?s1 = mFrameBuffers s"
    by (simp_all add: Update_cycle_parts UpdateCamera_parts)
  from Update_wait_Some [OF w] cur have
    k: "?k < length (mFrameBuffers s)"
    and wt: "waits = (if Fence (mFrameBuffers s ! ?k) \<noteq> 0 \<and> gpu t < Fence (mFrameBuffers s ! ?k)
                  then [Waited (Fence (mFrameBuffers s ! ?k)) t t'] else [])"
    and fin: "Fence (mFrameBuffers s ! ?k) \<le> gpu t'" "t \<le> t'"
    and first: "\<forall>u. t \<le> u \<and> u < t' \<longrightarrow> gpu u < Fence (mFrameBuffers s ! ?k)"
    by auto
  show i: "mCurrentFrameBufferIndex s' = ?k" using f(1) cur by simp
  show "mCurrentFrameBuffer s' = Some (mCurrentFrameBufferIndex s')" using f(2) cur i by simp
  have "map Fence (mFrameBuffers s') ! ?k = map Fence (mFrameBuffers s) ! ?k"
    using f(4) cur by simp
  moreover have "length (mFrameBuffers s') = length (mFrameBuffers s)"
    using arg_cong [OF f(4), of length] cur by simp
  ultimately show "Fence (mFrameBuffers s' ! mCurrentFrameBufferIndex s')
        = Fence (mFrameBuffers s ! mCurrentFrameBufferIndex s')"
    using k unfolding i by simp
  show "evs = (if Fence (mFrameBuffers s ! mCurrentFrameBufferIndex s') \<noteq> 0
                  \<and> gpu t < Fence (mFrameBuffers s ! mCurrentFrameBufferIndex s')
               then [Waited (Fence (mFrameBuffers s ! mCurrentFrameBufferIndex s')) t t'] else [])
            @ [Written (mCurrentFrameBufferIndex s') t']"
    unfolding i e wt ..
  show "Fence (mFrameBuffers s ! mCurrentFrameBufferIndex s') \<le> gpu t'"
    unfolding i by (rule fin)
  show "t \<le> t'" by (rule fin)
  show "gpu v < Fence (mFrameBuffers s ! mCurrentFrameBufferIndex s')" if "t \<le> v \<and> v < t'"
    unfolding i using first that by blast
  show "t' = t"
    if n: "\<not> (Fence (mFrameBuffers s ! mCurrentFrameBufferIndex s') \<noteq> 0
            \<and> gpu t < Fence (mFrameBuffers s ! mCurrentFrameBufferIndex s'))"
  proof (rule ccontr)
    assume "t' \<noteq> t"
    with fin(2) have "t \<le> t \<and> t < t'" by simp
    with first have g: "gpu t < Fence (mFrameBuffers s ! ?k)" by blast
    then have "Fence (mFrameBuffers s ! ?k) \<noteq> 0" by (auto simp add: word_less_nat_alt)
    with g n show False unfolding i by simp
  qed
  show "mFrameBuffers s' ! j = mFrameBuffers s ! j" if "j \<noteq> mCurrentFrameBufferIndex s'"
    using Update_effect(1) [OF u, of j] that unfolding i by simp
  show "UpdateCBs gt ?s1 = Some s'" by (rule c)
qed

theorem C1_Update_fence_gate_witness:
  "map_option (\<lambda>(t', evs, s'). (t', evs)) (Update gpu_example 0 gt_example stamped_example)
     = Some (5, [Waited 1 0 5, Written 1 5])
   \<and> gpu_example 4 < 1 \<and> 1 \<le> gpu_example 5"
proof -
  have st: "mCurrentFrameBufferIndex stamped_example = 0"
    "Fence (mFrameBuffers stamped_example ! 1) = 1"
    "Fence (mFrameBuffers stamped_example ! Suc 0) = 1"
    by (simp_all add: stamped_example_def Let_def)
  have k: "(mCurrentFrameBufferIndex stamped_example + 1) mod gNumFrameBuffers = 1"
    by (simp add: st gNumFrameBuffers_def)
  have "(0::nat) \<le> 5 \<and> Fence (mFrameBuffers stamped_example
          ! ((mCurrentFrameBufferIndex stamped_example + 1) mod gNumFrameBuffers))
        \<le> gpu_example 5"
    by (simp add: st gNumFrameBuffers_def gpu_example_def)
  with C1_Update_fence_gate [of gpu_example 0 gt_example stamped_example _ _ _ _ _ 5]
    app_ok_stamped_example
  obtain t' evs s' where u: "Update gpu_example 0 gt_example stamped_example = Some (t', evs, s')"
    by fastforce
  from C1_Update_fence_gate [of gpu_example 0 gt_example stamped_example t' evs s' 5 0 0] u
  have i: "mCurrentFrameBufferIndex s' = 1"
    and e: "evs = (if Fence (mFrameBuffers stamped_example ! mCurrentFrameBufferIndex s') \<noteq> 0
                  \<and> gpu_example 0 < Fence (mFrameBuffers stamped_example ! mCurrentFrameBufferIndex s')
               then [Waited (Fence (mFrameBuffers stamped_example ! mCurrentFrameBufferIndex s')) 0 t']
               else [])
            @ [Written (mCurrentFrameBufferIndex s') t']"
    and g: "Fence (mFrameBuffers stamped_example ! mCurrentFrameBufferIndex s') \<le> gpu_example t'"
    and b: "0 \<le> (5::nat) \<and> 5 < t'
        \<longrightarrow> gpu_example 5 < Fence (mFrameBuffers stamped_example ! mCurrentFrameBufferIndex s')"
    unfolding k by blast+
  from g have "5 \<le> t'" unfolding i st by (simp add: gpu_example_def split: if_splits)
  moreover from b have "\<not> 5 < t'" unfolding i st by (simp add: gpu_example_def)
  ultimately have t: "t' = 5" by simp
  from e have "evs = [Waited 1 0 5, Written 1 5]"
    unfolding i st t by (simp add: gpu_example_def)
  with u t show ?thesis by (simp add: gpu_example_def)
qed

end
